theory Spec2Isabelle
  imports Main "HOL-Library.Word" "HOL-Library.Monad_Syntax"
begin

unbundle bit_operations_syntax

section \<open>BFQ (block/bfq-iosched.c): data model\<close>

text \<open>
  The budget engine and the dispatch controller of \<^verbatim>\<open>block/bfq-iosched.c\<close> as a
  shallow embedding. The file is the only source at hand: \<^verbatim>\<open>bfq.h\<close>,
  \<^verbatim>\<open>bfq-sched.c\<close>, \<^verbatim>\<open>bfq-ioc.c\<close> and \<^verbatim>\<open>bfq-cgroup.c\<close> are included by it but
  absent, so field types are read off from how the code uses the fields, and the
  service trees of \<^verbatim>\<open>bfq-sched.c\<close> are a parameter (\<open>bfq_env\<close> below).

  Machine integers: \<^verbatim>\<open>unsigned long\<close> (\<^verbatim>\<open>bfq_service_t\<close>, jiffies), \<^verbatim>\<open>u64\<close> and
  \<^verbatim>\<open>sector_t\<close> are 64-bit words (an LP64 kernel), \<^verbatim>\<open>unsigned int\<close> is a 32-bit word.
  The \<^verbatim>\<open>int\<close> counters (\<^verbatim>\<open>dispatched\<close>, \<^verbatim>\<open>busy_queues\<close>, \<^verbatim>\<open>queued\<close>, ...) and the
  tunables that the code reads into an \<^verbatim>\<open>int\<close> are \<open>int\<close>: signed overflow is
  undefined in C and the store functions clamp those tunables to \<^verbatim>\<open>INT_MAX\<close>.

  Pointers: a queue is named by a \<open>qid\<close>, an io context by a \<open>cicid\<close>; the heap of
  queues is the total function \<open>bfqqs\<close>. A request pointer is the request value
  itself (\<open>rq_id\<close> tells two requests with the same contents apart), \<^verbatim>\<open>NULL\<close> is
  \<open>None\<close>. \<^verbatim>\<open>BUG_ON\<close> and a \<^verbatim>\<open>NULL\<close> dereference make the function return \<open>None\<close>;
  \<^verbatim>\<open>WARN_ON\<close> only prints and is left out.
\<close>

type_synonym ulong = "64 word"
type_synonym u64 = "64 word"
type_synonym u32 = "32 word"
type_synonym sector_t = "64 word"
type_synonym ktime_t = "64 word"
type_synonym qid = nat
type_synonym cicid = nat

datatype bfqq_expiration =
  BFQ_BFQQ_TOO_IDLE
| BFQ_BFQQ_BUDGET_TIMEOUT
| BFQ_BFQQ_BUDGET_EXHAUSTED
| BFQ_BFQQ_NO_MORE_REQUESTS

datatype ioprio_class_t =
  IOPRIO_CLASS_NONE
| IOPRIO_CLASS_RT
| IOPRIO_CLASS_BE
| IOPRIO_CLASS_IDLE

text \<open>A \<^verbatim>\<open>struct request\<close>, with the two elevator-private pointers
  \<^verbatim>\<open>RQ_CIC(rq)\<close> and \<^verbatim>\<open>RQ_BFQQ(rq)\<close>.\<close>

record request =
  rq_id :: nat
  blk_rq_pos :: sector_t
  blk_rq_sectors :: u32
  rq_is_sync :: bool
  rq_is_meta :: bool
  rq_fifo_time :: ulong
  RQ_CIC :: cicid
  RQ_BFQQ :: qid

text \<open>The fields of \<^verbatim>\<open>struct bfq_entity\<close> that bfq-iosched.c reads and writes.\<close>

record bfq_entity =
  budget :: ulong
  service :: ulong
  ioprio_class :: ioprio_class_t

text \<open>
  \<^verbatim>\<open>struct bfq_queue\<close>. \<open>sort_list\<close> is the rb-tree of pending requests in tree order,
  \<open>fifo\<close> the list of the same requests in arrival order. The flags
  (\<^verbatim>\<open>bfq_bfqq_X\<close>, \<^verbatim>\<open>bfq_mark_bfqq_X\<close>, \<^verbatim>\<open>bfq_clear_bfqq_X\<close> of bfq.h) are boolean fields.
\<close>

record bfq_queue =
  sort_list :: "request list"
  fifo :: "request list"
  next_rq :: "request option"
  bfqq_queued :: "bool \<Rightarrow> int"
  dispatched :: int
  meta_pending :: int
  max_budget :: ulong
  budget_timeout :: ulong
  budgets_assigned :: int
  entity :: bfq_entity
  busy :: bool
  wait_request :: bool
  must_alloc :: bool
  fifo_expire :: bool
  idle_window :: bool
  prio_changed :: bool
  sync :: bool
  budget_new :: bool

text \<open>The fields of \<^verbatim>\<open>struct cfq_io_context\<close> used here; \<open>nr_tasks\<close> is
  \<^verbatim>\<open>cic->ioc->nr_tasks\<close>.\<close>

record cfq_io_context =
  nr_tasks :: int
  seek_samples :: int
  seek_mean :: sector_t
  last_end_request :: ulong

text \<open>
  The blktrace line \<^verbatim>\<open>"expire (%d, %d)"\<close> of \<^verbatim>\<open>bfq_bfqq_expire\<close>: queue, reason as
  charged, slow flag. It is the one message the model keeps of \<^verbatim>\<open>bfq_log\<close>.
\<close>

datatype bfq_event = Expire qid bfqq_expiration bool

text \<open>
  \<^verbatim>\<open>struct bfq_data\<close>, together with what the functions touch outside it: the clocks
  they read (\<open>jiffies\<close>, and \<open>ktime\<close> for \<^verbatim>\<open>ktime_get()\<close>), the driver dispatch list
  of the request queue (\<open>dispatch_list\<close>), the number of times the unplug work was
  scheduled (\<open>unplug_work\<close>) and the trace. \<open>idle_slice_timer\<close> is \<open>Some t\<close> when the
  timer is pending with expiry \<open>t\<close>. Arrays indexed by the sync flag are functions
  of a \<open>bool\<close> (\<^verbatim>\<open>SYNC = BLK_RW_SYNC = 1\<close>). \<open>sched\<close> is the state of the service trees.
\<close>

record 's bfq_data =
  bfqqs :: "qid \<Rightarrow> bfq_queue"
  cics :: "cicid \<Rightarrow> cfq_io_context"
  active_queue :: "qid option"
  active_cic :: "cicid option"
  busy_queues :: int
  queued :: int
  sync_flight :: int
  rq_in_driver :: "bool \<Rightarrow> int"
  max_rq_in_driver :: int
  hw_tag_samples :: int
  hw_tag :: bool
  last_position :: sector_t
  last_budget_start :: ktime_t
  last_idling_start :: ktime_t
  idle_slice_timer :: "ulong option"
  peak_rate :: u64
  peak_rate_samples :: int
  bfq_quantum :: int
  bfq_back_max :: u32
  bfq_back_penalty :: u32
  bfq_slice_idle :: ulong
  bfq_max_budget :: ulong
  bfq_user_max_budget :: ulong
  bfq_max_budget_async_rq :: int
  bfq_timeout :: "bool \<Rightarrow> ulong"
  jiffies :: ulong
  ktime :: ktime_t
  dispatch_list :: "request list"
  unplug_work :: nat
  trace :: "bfq_event list"
  sched :: 's

text \<open>
  What the file takes from outside: the tick rate \<^verbatim>\<open>HZ\<close> and the B-WF2Q+ service
  trees of bfq-sched.c. The trees are any state \<open>'s\<close> with four operations: the
  lookup of the next queue to serve, and the hooks by which activation,
  deactivation and served sectors update the timestamps. The general theorems
  below hold for every such environment; the closed ones run the model in the
  environment \<open>fifo_env\<close>.
\<close>

record 's bfq_env =
  HZ :: nat
  sched_next :: "'s \<Rightarrow> qid option \<times> 's"
  sched_activate :: "qid \<Rightarrow> bfq_entity \<Rightarrow> 's \<Rightarrow> 's"
  sched_deactivate :: "qid \<Rightarrow> bfq_entity \<Rightarrow> bool \<Rightarrow> 's \<Rightarrow> 's"
  sched_served :: "qid \<Rightarrow> ulong \<Rightarrow> 's \<Rightarrow> 's"

definition upd_bfqq :: "qid \<Rightarrow> (bfq_queue \<Rightarrow> bfq_queue) \<Rightarrow> 's bfq_data \<Rightarrow> 's bfq_data" where
  "upd_bfqq q f bfqd = bfqd\<lparr>bfqqs := (bfqqs bfqd)(q := f (bfqqs bfqd q))\<rparr>"

section \<open>Constants and small helpers\<close>

definition bfq_quantum_dflt :: int where "bfq_quantum_dflt = 4"
definition bfq_back_max_dflt :: u32 where "bfq_back_max_dflt = 16 * 1024"
definition bfq_back_penalty_dflt :: u32 where "bfq_back_penalty_dflt = 2"
definition bfq_max_budget_dflt :: ulong where "bfq_max_budget_dflt = 16 * 1024"
definition bfq_max_budget_async_rq_dflt :: int where "bfq_max_budget_async_rq_dflt = 4"

definition BFQ_MIN_TT :: nat where "BFQ_MIN_TT = 2"
definition BFQ_HW_QUEUE_THRESHOLD :: int where "BFQ_HW_QUEUE_THRESHOLD = 4"
definition BFQ_HW_QUEUE_SAMPLES :: int where "BFQ_HW_QUEUE_SAMPLES = 32"
definition BFQ_BUDGET_STEP :: ulong where "BFQ_BUDGET_STEP = 128"
definition BFQ_PEAK_RATE_SAMPLES :: int where "BFQ_PEAK_RATE_SAMPLES = 32"
definition BFQ_RATE_SHIFT :: nat where "BFQ_RATE_SHIFT = 16"
definition LONG_MAX :: u64 where "LONG_MAX = 0x7FFFFFFFFFFFFFFF"

text \<open>
  Kernel helpers. \<^verbatim>\<open>time_before(a, b)\<close> is \<^verbatim>\<open>(long)(a) - (long)(b) < 0\<close>.
  \<^verbatim>\<open>msecs_to_jiffies\<close> and \<^verbatim>\<open>jiffies_to_msecs\<close> are the kernel's for a tick rate that
  divides 1000. \<^verbatim>\<open>ktime_to_us\<close> of a \<^verbatim>\<open>ktime_t\<close> in nanoseconds.
\<close>

definition time_before :: "ulong \<Rightarrow> ulong \<Rightarrow> bool" where
  "time_before a b = (sint (a - b) < 0)"

definition msecs_to_jiffies :: "'s bfq_env \<Rightarrow> nat \<Rightarrow> ulong" where
  "msecs_to_jiffies E m = of_nat ((m + (1000 div HZ E) - 1) div (1000 div HZ E))"

definition jiffies_to_msecs :: "'s bfq_env \<Rightarrow> ulong \<Rightarrow> u32" where
  "jiffies_to_msecs E j = of_nat (1000 div HZ E) * ucast j"

definition ktime_to_us :: "ktime_t \<Rightarrow> u64" where
  "ktime_to_us kt = word_of_int (sint kt div 1000)"

definition bfq_class_idle :: "bfq_queue \<Rightarrow> bool" where
  "bfq_class_idle bfqq = (ioprio_class (entity bfqq) = IOPRIO_CLASS_IDLE)"

definition bfq_sample_valid :: "int \<Rightarrow> bool" where
  "bfq_sample_valid samples = (samples > 80)"

definition CIC_SEEKY :: "cfq_io_context \<Rightarrow> bool" where
  "CIC_SEEKY cic = (seek_mean cic > 8 * 1024)"

text \<open>\<^verbatim>\<open>rq_in_driver(bfqd)\<close> of bfq.h: the requests in the driver, both directions.\<close>

definition rq_in_driver_sum :: "'s bfq_data \<Rightarrow> int" where
  "rq_in_driver_sum bfqd = rq_in_driver bfqd False + rq_in_driver bfqd True"

definition timer_pending :: "'s bfq_data \<Rightarrow> bool" where
  "timer_pending bfqd = (idle_slice_timer bfqd \<noteq> None)"

definition bfq_schedule_dispatch :: "'s bfq_data \<Rightarrow> 's bfq_data" where
  "bfq_schedule_dispatch bfqd =
     (if queued bfqd \<noteq> 0 then bfqd\<lparr>unplug_work := unplug_work bfqd + 1\<rparr> else bfqd)"

section \<open>Choosing the next request\<close>

text \<open>
  \<^verbatim>\<open>bfq_choose_req\<close> computes, for each of the two candidates, a distance from the
  head and a wrap bit, by the same three-way test. \<open>bfq_rq_dist\<close> is that test:
  the distance \<^verbatim>\<open>d\<close> (0 when the request wraps) and the wrap bit.
\<close>

definition bfq_back_max_sectors :: "'s bfq_data \<Rightarrow> ulong" where
  "bfq_back_max_sectors bfqd = ucast (bfq_back_max bfqd * 2)"

definition bfq_rq_dist :: "'s bfq_data \<Rightarrow> sector_t \<Rightarrow> sector_t \<times> bool" where
  "bfq_rq_dist bfqd s =
     (let last = last_position bfqd; back_max = bfq_back_max_sectors bfqd in
      if s \<ge> last then (s - last, False)
      else if s + back_max \<ge> last then ((last - s) * ucast (bfq_back_penalty bfqd), False)
      else (0, True))"

fun bfq_choose_req :: "'s bfq_data \<Rightarrow> request option \<Rightarrow> request option \<Rightarrow> request option" where
  "bfq_choose_req bfqd None rq2 = rq2"
| "bfq_choose_req bfqd (Some r1) None = Some r1"
| "bfq_choose_req bfqd (Some r1) (Some r2) =
     (if r1 = r2 then Some r2
      else if rq_is_sync r1 \<and> \<not> rq_is_sync r2 then Some r1
      else if rq_is_sync r2 \<and> \<not> rq_is_sync r1 then Some r2
      else if rq_is_meta r1 \<and> \<not> rq_is_meta r2 then Some r1
      else if rq_is_meta r2 \<and> \<not> rq_is_meta r1 then Some r2
      else
        let s1 = blk_rq_pos r1; s2 = blk_rq_pos r2;
            (d1, wrap1) = bfq_rq_dist bfqd s1;
            (d2, wrap2) = bfq_rq_dist bfqd s2
        in if \<not> wrap1 \<and> \<not> wrap2 then
             (if d1 < d2 then Some r1
              else if d2 < d1 then Some r2
              else if s1 \<ge> s2 then Some r1 else Some r2)
           else if \<not> wrap1 \<and> wrap2 then Some r1
           else if wrap1 \<and> \<not> wrap2 then Some r2
           else if s1 \<le> s2 then Some r1 else Some r2)"

section \<open>The sort tree and the scheduler entry points\<close>

text \<open>\<^verbatim>\<open>rb_next\<close>, \<^verbatim>\<open>rb_prev\<close> and \<^verbatim>\<open>rb_first\<close> on the tree order; \<^verbatim>\<open>elv_rb_del\<close> is
  \<open>remove1\<close>.\<close>

fun rb_next :: "request list \<Rightarrow> request \<Rightarrow> request option" where
  "rb_next [] r = None"
| "rb_next [x] r = None"
| "rb_next (x # y # xs) r = (if x = r then Some y else rb_next (y # xs) r)"

fun rb_prev :: "request list \<Rightarrow> request \<Rightarrow> request option" where
  "rb_prev [] r = None"
| "rb_prev [x] r = None"
| "rb_prev (x # y # xs) r =
     (if x = r then None else if y = r then Some x else rb_prev (y # xs) r)"

definition rb_first :: "request list \<Rightarrow> request option" where
  "rb_first xs = (case xs of [] \<Rightarrow> None | x # _ \<Rightarrow> Some x)"

definition bfq_find_next_rq ::
  "'s bfq_data \<Rightarrow> bfq_queue \<Rightarrow> request \<Rightarrow> request option option" where
  "bfq_find_next_rq bfqd bfqq lastrq =
     (if lastrq \<notin> set (sort_list bfqq) then None
      else
        let rbnext = rb_next (sort_list bfqq) lastrq;
            prev = rb_prev (sort_list bfqq) lastrq;
            next = (case rbnext of
                      Some n \<Rightarrow> Some n
                    | None \<Rightarrow>
                        (case rb_first (sort_list bfqq) of
                           Some f \<Rightarrow> if f \<noteq> lastrq then Some f else None
                         | None \<Rightarrow> None))
        in Some (bfq_choose_req bfqd next prev))"

text \<open>Modelled from the spec: \<^verbatim>\<open>bfq_bfqq_served\<close> of the absent bfq-sched.c. "On
  service charged (\<open>\<Delta>\<close> sectors served to e): e.service += \<open>\<Delta>\<close>"; the virtual time
  of the trees moves by the hook \<open>sched_served\<close>.\<close>

definition bfq_bfqq_served :: "'s bfq_env \<Rightarrow> 's bfq_data \<Rightarrow> qid \<Rightarrow> ulong \<Rightarrow> 's bfq_data" where
  "bfq_bfqq_served E bfqd q served =
     (upd_bfqq q (\<lambda>b. b\<lparr>entity := (entity b)\<lparr>service := service (entity b) + served\<rparr>\<rparr>) bfqd)
       \<lparr>sched := sched_served E q served (sched bfqd)\<rparr>"

text \<open>Modelled from the spec: \<^verbatim>\<open>bfq_bfqq_charge_full_budget\<close> of the absent bfq.h.
  "Charge full budget on async expiry or on BUDGET_TIMEOUT: set service = budget."\<close>

definition bfq_bfqq_charge_full_budget :: "bfq_queue \<Rightarrow> bfq_queue" where
  "bfq_bfqq_charge_full_budget bfqq =
     bfqq\<lparr>entity := (entity bfqq)\<lparr>service := budget (entity bfqq)\<rparr>\<rparr>"

text \<open>Modelled from the spec: \<^verbatim>\<open>__bfq_bfqd_reset_active\<close> of the absent bfq-sched.c.
  "The active queue is selected by the entity scheduler and cleared on expiration or
  timer fire"; the idle-slice timer is cancelled on "expiration of the active queue
  for any other reason"; \<open>active_cic\<close> is "the producer-context of the queue that
  initiated the current slice", so it ends with the slice.\<close>

definition uu_bfq_bfqd_reset_active :: "'s bfq_data \<Rightarrow> 's bfq_data" where
  "uu_bfq_bfqd_reset_active bfqd =
     bfqd\<lparr>active_cic := None, active_queue := None, idle_slice_timer := None\<rparr>"

text \<open>Modelled from the spec: \<^verbatim>\<open>bfq_activate_bfqq\<close> of the absent bfq-sched.c. Activation
  (section 4.2 of the spec) stamps the entity and inserts it into the active tree
  of its group: a change of the service trees only, from the entity's budget.\<close>

definition bfq_activate_bfqq :: "'s bfq_env \<Rightarrow> 's bfq_data \<Rightarrow> qid \<Rightarrow> 's bfq_data" where
  "bfq_activate_bfqq E bfqd q =
     bfqd\<lparr>sched := sched_activate E q (entity (bfqqs bfqd q)) (sched bfqd)\<rparr>"

text \<open>Modelled from the spec: \<^verbatim>\<open>bfq_del_bfqq_busy\<close> of the absent bfq-sched.c. A queue
  is "busy" while it has pending requests and is in a service tree, and
  "busy_queues = count(leaves with busy flag set)": the flag is cleared, the count
  decremented and the entity leaves the trees.\<close>

definition bfq_del_bfqq_busy :: "'s bfq_env \<Rightarrow> 's bfq_data \<Rightarrow> qid \<Rightarrow> bool \<Rightarrow> 's bfq_data" where
  "bfq_del_bfqq_busy E bfqd q requeue =
     (upd_bfqq q (\<lambda>b. b\<lparr>busy := False\<rparr>) bfqd)
       \<lparr>busy_queues := busy_queues bfqd - 1,
        sched := sched_deactivate E q (entity (bfqqs bfqd q)) requeue (sched bfqd)\<rparr>"

text \<open>Modelled from the spec: \<^verbatim>\<open>bfq_get_next_queue\<close> of the absent bfq-sched.c. The leaf
  is the one the service trees select (\<open>next_leaf\<close> of section 4.2); \<open>service\<close> is the
  "sectors consumed so far in this slice", so a selected queue starts from 0.\<close>

definition bfq_get_next_queue :: "'s bfq_env \<Rightarrow> 's bfq_data \<Rightarrow> qid option \<times> 's bfq_data" where
  "bfq_get_next_queue E bfqd =
     (let (qo, s) = sched_next E (sched bfqd);
          bfqd1 = bfqd\<lparr>sched := s\<rparr>
      in (qo, case qo of
                None \<Rightarrow> bfqd1
              | Some q \<Rightarrow> upd_bfqq q (\<lambda>b. b\<lparr>entity := (entity b)\<lparr>service := 0\<rparr>\<rparr>) bfqd1))"

text \<open>In \<^verbatim>\<open>bfq_updated_next_req\<close> the two \<^verbatim>\<open>BUG_ON\<close> tests are on the entity's place
  in the service trees, which is state of bfq-sched.c; they are not modelled.\<close>

definition bfq_updated_next_req :: "'s bfq_env \<Rightarrow> 's bfq_data \<Rightarrow> qid \<Rightarrow> 's bfq_data" where
  "bfq_updated_next_req E bfqd q =
     (case next_rq (bfqqs bfqd q) of
        None \<Rightarrow> bfqd
      | Some nrq \<Rightarrow>
          if active_queue bfqd = Some q then bfqd
          else
            let new_budget = max (max_budget (bfqqs bfqd q)) (ucast (blk_rq_sectors nrq))
            in bfq_activate_bfqq E
                 (upd_bfqq q (\<lambda>b. b\<lparr>entity := (entity b)\<lparr>budget := new_budget\<rparr>\<rparr>) bfqd) q)"

definition bfq_del_rq_rb :: "'s bfq_env \<Rightarrow> 's bfq_data \<Rightarrow> request \<Rightarrow> 's bfq_data option" where
  "bfq_del_rq_rb E bfqd rq =
     (let q = RQ_BFQQ rq; sy = rq_is_sync rq in
      if bfqq_queued (bfqqs bfqd q) sy = 0 then None
      else
        let bfqd1 = upd_bfqq q (\<lambda>b. b\<lparr>bfqq_queued := (bfqq_queued b)(sy := bfqq_queued b sy - 1)\<rparr>) bfqd;
            bfqd2 = bfqd1\<lparr>queued := queued bfqd1 - 1\<rparr>;
            bfqd3 = upd_bfqq q (\<lambda>b. b\<lparr>sort_list := remove1 rq (sort_list b)\<rparr>) bfqd2
        in if busy (bfqqs bfqd3 q) \<and> Some q \<noteq> active_queue bfqd3
              \<and> sort_list (bfqqs bfqd3 q) = []
           then Some (bfq_del_bfqq_busy E bfqd3 q True)
           else Some bfqd3)"

definition bfq_remove_request :: "'s bfq_env \<Rightarrow> 's bfq_data \<Rightarrow> request \<Rightarrow> 's bfq_data option" where
  "bfq_remove_request E bfqd rq =
     (let q = RQ_BFQQ rq in
      do {
        bfqd1 \<leftarrow> (if next_rq (bfqqs bfqd q) = Some rq
                  then do {
                    n \<leftarrow> bfq_find_next_rq bfqd (bfqqs bfqd q) rq;
                    Some (bfq_updated_next_req E (upd_bfqq q (\<lambda>b. b\<lparr>next_rq := n\<rparr>) bfqd) q)
                  }
                  else Some bfqd);
        bfqd2 \<leftarrow> bfq_del_rq_rb E (upd_bfqq q (\<lambda>b. b\<lparr>fifo := remove1 rq (fifo b)\<rparr>) bfqd1) rq;
        Some (if rq_is_meta rq
              then upd_bfqq q (\<lambda>b. b\<lparr>meta_pending := meta_pending b - 1\<rparr>) bfqd2
              else bfqd2)
      })"

definition uu_bfq_set_active_queue :: "'s bfq_data \<Rightarrow> qid option \<Rightarrow> 's bfq_data" where
  "uu_bfq_set_active_queue bfqd qo =
     (case qo of
        Some q \<Rightarrow>
          upd_bfqq q (\<lambda>b. b\<lparr>must_alloc := True, budget_new := True, fifo_expire := False,
                            budgets_assigned := (budgets_assigned b * 7 + 256) div 8\<rparr>) bfqd
      | None \<Rightarrow> bfqd)
     \<lparr>active_queue := qo\<rparr>"

definition bfq_set_active_queue :: "'s bfq_env \<Rightarrow> 's bfq_data \<Rightarrow> qid option \<times> 's bfq_data" where
  "bfq_set_active_queue E bfqd =
     (let (qo, bfqd1) = bfq_get_next_queue E bfqd in (qo, uu_bfq_set_active_queue bfqd1 qo))"

text \<open>\<^verbatim>\<open>bfq_arm_slice_timer\<close>: \<^verbatim>\<open>mod_timer(.., jiffies + sl)\<close> makes the timer pending
  with that expiry.\<close>

definition bfq_arm_slice_timer :: "'s bfq_env \<Rightarrow> 's bfq_data \<Rightarrow> 's bfq_data option" where
  "bfq_arm_slice_timer E bfqd =
     (case active_queue bfqd of
        None \<Rightarrow> None
      | Some q \<Rightarrow>
          if bfq_slice_idle bfqd = 0 \<or> \<not> idle_window (bfqqs bfqd q) then Some bfqd
          else
            (case active_cic bfqd of
               None \<Rightarrow> Some bfqd
             | Some c \<Rightarrow>
                 if nr_tasks (cics bfqd c) = 0 then Some bfqd
                 else
                   let bfqd1 = upd_bfqq q (\<lambda>b. b\<lparr>wait_request := True\<rparr>) bfqd;
                       sl0 = bfq_slice_idle bfqd1;
                       sl = (if bfq_sample_valid (seek_samples (cics bfqd1 c)) \<and> CIC_SEEKY (cics bfqd1 c)
                             then min sl0 (msecs_to_jiffies E BFQ_MIN_TT) else sl0)
                   in Some (bfqd1\<lparr>last_idling_start := ktime bfqd1,
                                  idle_slice_timer := Some (jiffies bfqd1 + sl)\<rparr>)))"

definition bfq_set_budget_timeout :: "'s bfq_data \<Rightarrow> 's bfq_data option" where
  "bfq_set_budget_timeout bfqd =
     (case active_queue bfqd of
        None \<Rightarrow> None
      | Some q \<Rightarrow>
          Some (upd_bfqq q
                  (\<lambda>b. b\<lparr>budget_new := False,
                         budget_timeout := jiffies bfqd + bfq_timeout bfqd (sync b)\<rparr>)
                  (bfqd\<lparr>last_budget_start := ktime bfqd\<rparr>)))"

text \<open>\<^verbatim>\<open>bfq_dispatch_insert\<close>: \<^verbatim>\<open>elv_dispatch_sort\<close> puts the request on the driver
  dispatch list (its place there is the block layer's business).\<close>

definition bfq_dispatch_insert :: "'s bfq_env \<Rightarrow> 's bfq_data \<Rightarrow> request \<Rightarrow> 's bfq_data option" where
  "bfq_dispatch_insert E bfqd rq =
     (let q = RQ_BFQQ rq in
      do {
        n \<leftarrow> bfq_find_next_rq bfqd (bfqqs bfqd q) rq;
        bfqd1 \<leftarrow> bfq_remove_request E (upd_bfqq q (\<lambda>b. b\<lparr>next_rq := n\<rparr>) bfqd) rq;
        let bfqd2 = upd_bfqq q (\<lambda>b. b\<lparr>dispatched := dispatched b + 1\<rparr>) bfqd1;
            bfqd3 = bfqd2\<lparr>dispatch_list := dispatch_list bfqd2 @ [rq]\<rparr>
        in Some (if sync (bfqqs bfqd3 q)
                 then bfqd3\<lparr>sync_flight := sync_flight bfqd3 + 1\<rparr> else bfqd3)
      })"

definition bfq_check_fifo :: "ulong \<Rightarrow> bfq_queue \<Rightarrow> request option \<times> bfq_queue" where
  "bfq_check_fifo j bfqq =
     (if fifo_expire bfqq then (None, bfqq)
      else
        let bfqq1 = bfqq\<lparr>fifo_expire := True\<rparr> in
        case fifo bfqq1 of
          [] \<Rightarrow> (None, bfqq1)
        | rq # _ \<Rightarrow> if time_before j (rq_fifo_time rq) then (None, bfqq1) else (Some rq, bfqq1))"

definition bfq_bfqq_budget_left :: "bfq_queue \<Rightarrow> ulong" where
  "bfq_bfqq_budget_left bfqq = budget (entity bfqq) - service (entity bfqq)"

definition uu_bfq_bfqq_expire :: "'s bfq_env \<Rightarrow> 's bfq_data \<Rightarrow> qid \<Rightarrow> 's bfq_data option" where
  "uu_bfq_bfqq_expire E bfqd q =
     (if active_queue bfqd \<noteq> Some q then None
      else
        let bfqd1 = uu_bfq_bfqd_reset_active bfqd in
        if sort_list (bfqqs bfqd1 q) = [] then Some (bfq_del_bfqq_busy E bfqd1 q True)
        else Some (bfq_activate_bfqq E bfqd1 q))"

section \<open>The budget engine\<close>

definition bfq_default_budget :: "'s bfq_data \<Rightarrow> bfq_queue \<Rightarrow> ulong" where
  "bfq_default_budget bfqd bfqq =
     (let b = (if budgets_assigned bfqq < 194 \<and> bfq_user_max_budget bfqd = 0
               then bfq_max_budget_dflt else bfq_max_budget bfqd)
      in b - b div 4)"

definition bfq_min_budget :: "'s bfq_data \<Rightarrow> bfq_queue \<Rightarrow> ulong" where
  "bfq_min_budget bfqd bfqq = bfq_max_budget bfqd div 2"

text \<open>\<^verbatim>\<open>__bfq_bfqq_recalc_budget\<close>; the leading \<^verbatim>\<open>__\<close> of a C name is written \<open>uu_\<close>.
  \<open>bfq_feedback_budget\<close> is its \<^verbatim>\<open>if (bfq_bfqq_sync(bfqq)) switch (reason) ... else\<close>:
  the new value of the local \<^verbatim>\<open>budget\<close>, or \<open>None\<close> where the switch returns.\<close>

definition bfq_feedback_budget ::
  "'s bfq_data \<Rightarrow> bfq_queue \<Rightarrow> bfqq_expiration \<Rightarrow> ulong option" where
  "bfq_feedback_budget bfqd bfqq reason =
     (let budget0 = max_budget bfqq; min_budget = bfq_min_budget bfqd bfqq in
      if sync bfqq then
        (case reason of
           BFQ_BFQQ_TOO_IDLE \<Rightarrow>
             Some (if budget0 > min_budget + BFQ_BUDGET_STEP
                   then budget0 - BFQ_BUDGET_STEP else min_budget)
         | BFQ_BFQQ_BUDGET_TIMEOUT \<Rightarrow> Some (bfq_default_budget bfqd bfqq)
         | BFQ_BFQQ_BUDGET_EXHAUSTED \<Rightarrow>
             Some (min (budget0 + 8 * BFQ_BUDGET_STEP) (bfq_max_budget bfqd))
         | BFQ_BFQQ_NO_MORE_REQUESTS \<Rightarrow> None)
      else Some (bfq_max_budget bfqd))"

definition uu_bfq_bfqq_recalc_budget ::
  "'s bfq_data \<Rightarrow> qid \<Rightarrow> bfqq_expiration \<Rightarrow> 's bfq_data option" where
  "uu_bfq_bfqq_recalc_budget bfqd q reason =
     (let bfqq = bfqqs bfqd q in
      if active_queue bfqd \<noteq> Some q then None
      else
        case bfq_feedback_budget bfqd bfqq reason of
          None \<Rightarrow> Some bfqd
        | Some b \<Rightarrow>
            let bfqq1 = bfqq\<lparr>max_budget := b\<rparr>;
                bfqq2 = (if budgets_assigned bfqq1 \<ge> 194 \<and> bfq_user_max_budget bfqd = 0
                            \<and> max_budget bfqq1 > bfq_max_budget bfqd
                         then bfqq1\<lparr>max_budget := bfq_max_budget bfqd\<rparr> else bfqq1);
                bfqq3 = (case next_rq bfqq2 of
                           None \<Rightarrow> bfqq2
                         | Some nrq \<Rightarrow>
                             bfqq2\<lparr>entity := (entity bfqq2)
                                      \<lparr>budget := max (max_budget bfqq2) (ucast (blk_rq_sectors nrq))\<rparr>\<rparr>)
            in Some (upd_bfqq q (\<lambda>_. bfqq3) bfqd))"

definition bfq_calc_max_budget :: "u64 \<Rightarrow> u64 \<Rightarrow> ulong" where
  "bfq_calc_max_budget peak timeout =
     (let mb = drop_bit BFQ_RATE_SHIFT (peak * 1000 * timeout) in mb - mb div 4)"

text \<open>\<^verbatim>\<open>bfq_update_peak_rate\<close> returns the flag that \<^verbatim>\<open>bfq_bfqq_expire\<close> calls
  \<^verbatim>\<open>slow\<close>. \<^verbatim>\<open>do_div(n, base)\<close> is the unsigned division of the 64-bit \<^verbatim>\<open>n\<close> by
  \<^verbatim>\<open>base\<close> taken as a 32-bit value: the divisor is the low 32 bits of \<^verbatim>\<open>usecs\<close>.
  When these are zero (a slice of a multiple of \<open>2\<^sup>3\<^sup>2\<close> us) the C division is
  undefined; the quotient is 0 here.\<close>

definition bfq_update_peak_rate ::
  "'s bfq_env \<Rightarrow> 's bfq_data \<Rightarrow> qid \<Rightarrow> bool \<Rightarrow> bool \<times> 's bfq_data" where
  "bfq_update_peak_rate E bfqd q compensate =
     (let bfqq = bfqqs bfqd q in
      if \<not> sync bfqq \<or> budget_new bfqq then (False, bfqd)
      else
        let delta = (if compensate then last_idling_start bfqd else ktime bfqd)
                      - last_budget_start bfqd;
            usecs = ktime_to_us delta
        in if usecs < 100 \<or> usecs \<ge> LONG_MAX then (False, bfqd)
           else
             let bw = push_bit BFQ_RATE_SHIFT (service (entity bfqq)) div ucast (ucast usecs :: u32);
                 timeout = (ucast (jiffies_to_msecs E (bfq_timeout bfqd True)) :: u64);
                 bfqd1 =
                   (if usecs > 20000 then
                      let upd1 = (bw > peak_rate bfqd);
                          pr = (if upd1 then bw else peak_rate bfqd);
                          upd2 = (upd1 \<or> peak_rate_samples bfqd = BFQ_PEAK_RATE_SAMPLES - 1);
                          samples = (if peak_rate_samples bfqd < BFQ_PEAK_RATE_SAMPLES
                                     then peak_rate_samples bfqd + 1 else peak_rate_samples bfqd)
                      in bfqd\<lparr>peak_rate := pr, peak_rate_samples := samples,
                              bfq_max_budget :=
                                (if samples = BFQ_PEAK_RATE_SAMPLES \<and> upd2
                                    \<and> bfq_user_max_budget bfqd = 0
                                 then bfq_calc_max_budget pr timeout
                                 else bfq_max_budget bfqd)\<rparr>
                    else bfqd);
                 expected = drop_bit BFQ_RATE_SHIFT (bw * 1000 * timeout)
             in (expected > budget (entity bfqq), bfqd1))"

definition bfq_bfqq_expire ::
  "'s bfq_env \<Rightarrow> 's bfq_data \<Rightarrow> qid \<Rightarrow> bool \<Rightarrow> bfqq_expiration \<Rightarrow> 's bfq_data option" where
  "bfq_bfqq_expire E bfqd q compensate reason =
     (let (slow, bfqd1) = bfq_update_peak_rate E bfqd q compensate;
          reason1 = (if slow \<and> reason = BFQ_BFQQ_TOO_IDLE
                     then BFQ_BFQQ_BUDGET_TIMEOUT else reason);
          bfqd2 = (if reason1 = BFQ_BFQQ_BUDGET_TIMEOUT \<or> \<not> sync (bfqqs bfqd1 q)
                   then upd_bfqq q bfq_bfqq_charge_full_budget bfqd1 else bfqd1);
          bfqd3 = bfqd2\<lparr>trace := trace bfqd2 @ [Expire q reason1 slow]\<rparr>
      in do {
        bfqd4 \<leftarrow> uu_bfq_bfqq_recalc_budget bfqd3 q reason1;
        uu_bfq_bfqq_expire E bfqd4 q
      })"

definition bfq_bfqq_budget_timeout :: "ulong \<Rightarrow> bfq_queue \<Rightarrow> bool" where
  "bfq_bfqq_budget_timeout j bfqq =
     (if budget_new bfqq then False
      else if time_before j (budget_timeout bfqq) then False
      else True)"

section \<open>The dispatch controller\<close>

text \<open>The labels \<^verbatim>\<open>expire:\<close> and \<^verbatim>\<open>new_queue:\<close> of \<^verbatim>\<open>bfq_select_queue\<close>.\<close>

definition bfq_select_expire ::
  "'s bfq_env \<Rightarrow> 's bfq_data \<Rightarrow> qid \<Rightarrow> bfqq_expiration \<Rightarrow> (qid option \<times> 's bfq_data) option" where
  "bfq_select_expire E bfqd q reason =
     do {
       bfqd1 \<leftarrow> bfq_bfqq_expire E bfqd q False reason;
       Some (bfq_set_active_queue E bfqd1)
     }"

definition bfq_select_queue ::
  "'s bfq_env \<Rightarrow> 's bfq_data \<Rightarrow> (qid option \<times> 's bfq_data) option" where
  "bfq_select_queue E bfqd =
     (case active_queue bfqd of
        None \<Rightarrow> Some (bfq_set_active_queue E bfqd)
      | Some q \<Rightarrow>
          let bfqq = bfqqs bfqd q in
          if bfq_bfqq_budget_timeout (jiffies bfqd) bfqq then
            bfq_select_expire E (upd_bfqq q bfq_bfqq_charge_full_budget bfqd) q
              BFQ_BFQQ_BUDGET_TIMEOUT
          else
            (case next_rq bfqq of
               Some nrq \<Rightarrow>
                 if ucast (blk_rq_sectors nrq) > bfq_bfqq_budget_left bfqq
                 then bfq_select_expire E bfqd q BFQ_BFQQ_BUDGET_EXHAUSTED
                 else Some (Some q, bfqd)
             | None \<Rightarrow>
                 if timer_pending bfqd \<or> (dispatched bfqq \<noteq> 0 \<and> idle_window bfqq)
                 then Some (None, bfqd)
                 else bfq_select_expire E bfqd q BFQ_BFQQ_NO_MORE_REQUESTS))"

text \<open>
  The \<^verbatim>\<open>do ... while (dispatched < max_dispatch)\<close> loop of
  \<^verbatim>\<open>__bfq_dispatch_requests\<close>, from the state and count at the head of an
  iteration. The result tells whether the loop left by \<^verbatim>\<open>goto expire\<close>, the count
  and the state.
\<close>

function bfq_dispatch_round ::
  "'s bfq_env \<Rightarrow> qid \<Rightarrow> int \<Rightarrow> 's bfq_data \<Rightarrow> int \<Rightarrow> (bool \<times> int \<times> 's bfq_data) option" where
  "bfq_dispatch_round E q max_dispatch bfqd nr =
     (let (fr, bfqq1) = bfq_check_fifo (jiffies bfqd) (bfqqs bfqd q);
          bfqd1 = upd_bfqq q (\<lambda>_. bfqq1) bfqd;
          rqo = (case fr of None \<Rightarrow> next_rq bfqq1 | Some r \<Rightarrow> Some r)
      in case rqo of
           None \<Rightarrow> None
         | Some rq \<Rightarrow>
             if ucast (blk_rq_sectors rq) > bfq_bfqq_budget_left bfqq1
             then Some (True, nr, upd_bfqq q (\<lambda>b. b\<lparr>next_rq := Some rq\<rparr>) bfqd1)
             else
               (case bfq_dispatch_insert E
                       (bfq_bfqq_served E bfqd1 q (ucast (blk_rq_sectors rq))) rq of
                  None \<Rightarrow> None
                | Some bfqd2 \<Rightarrow>
                    let bfqd3 = (if active_cic bfqd2 = None
                                 then bfqd2\<lparr>active_cic := Some (RQ_CIC rq)\<rparr> else bfqd2)
                    in if sort_list (bfqqs bfqd3 q) = [] then Some (False, nr + 1, bfqd3)
                       else if nr + 1 < max_dispatch
                       then bfq_dispatch_round E q max_dispatch bfqd3 (nr + 1)
                       else Some (False, nr + 1, bfqd3)))"
  by pat_completeness auto
termination
  by (relation "measure (\<lambda>(E, q, max_dispatch, bfqd, nr). nat (max_dispatch - nr))") auto

declare bfq_dispatch_round.simps [simp del]

definition uu_bfq_dispatch_requests ::
  "'s bfq_env \<Rightarrow> 's bfq_data \<Rightarrow> qid \<Rightarrow> int \<Rightarrow> (int \<times> 's bfq_data) option" where
  "uu_bfq_dispatch_requests E bfqd q max_dispatch =
     (if sort_list (bfqqs bfqd q) = [] then None
      else
        do {
          (expire, nr, bfqd1) \<leftarrow> bfq_dispatch_round E q max_dispatch bfqd 0;
          if expire \<or> (busy_queues bfqd1 > 1
                \<and> ((\<not> sync (bfqqs bfqd1 q) \<and> nr \<ge> bfq_max_budget_async_rq bfqd1)
                    \<or> bfq_class_idle (bfqqs bfqd1 q)))
          then do {
            bfqd2 \<leftarrow> bfq_bfqq_expire E bfqd1 q False BFQ_BFQQ_BUDGET_EXHAUSTED;
            Some (nr, bfqd2)
          }
          else Some (nr, bfqd1)
        })"

text \<open>The \<^verbatim>\<open>max_dispatch\<close> that \<^verbatim>\<open>bfq_dispatch_requests\<close> computes for the
  selected queue.\<close>

definition bfq_max_dispatch :: "'s bfq_data \<Rightarrow> bfq_queue \<Rightarrow> int" where
  "bfq_max_dispatch bfqd bfqq =
     (let md0 = bfq_quantum bfqd;
          md1 = (if bfq_class_idle bfqq then 1 else md0);
          md2 = (if \<not> sync bfqq then bfq_max_budget_async_rq bfqd else md1)
      in md2)"

text \<open>
  \<^verbatim>\<open>bfq_dispatch_requests\<close> with \<^verbatim>\<open>force = 0\<close>. Its \<^verbatim>\<open>while\<close> loop is
  \<open>bfq_dispatch_loop\<close>, with a bound on the number of iterations: the outcome is
  the returned count and the state, a kernel bug, or the bound reached.
\<close>

datatype 'a outcome = Returns 'a | Bug | OutOfFuel

fun bfq_dispatch_loop ::
  "'s bfq_env \<Rightarrow> nat \<Rightarrow> 's bfq_data \<Rightarrow> int \<Rightarrow> (int \<times> 's bfq_data) outcome" where
  "bfq_dispatch_loop E 0 bfqd nr = OutOfFuel"
| "bfq_dispatch_loop E (Suc fuel) bfqd nr =
     (case bfq_select_queue E bfqd of
        None \<Rightarrow> Bug
      | Some (None, bfqd1) \<Rightarrow> Returns (nr, bfqd1)
      | Some (Some q, bfqd1) \<Rightarrow>
          let bfqq = bfqqs bfqd1 q;
              max_dispatch = bfq_max_dispatch bfqd1 bfqq
          in if dispatched bfqq \<ge> max_dispatch
                \<and> (busy_queues bfqd1 > 1 \<or> dispatched bfqq \<ge> 4 * max_dispatch)
             then Returns (nr, bfqd1)
             else if idle_window bfqq \<and> rq_in_driver bfqd1 False \<noteq> 0
             then Returns (0, bfqd1)
             else if sync_flight bfqd1 \<noteq> 0 \<and> \<not> sync bfqq
             then Returns (nr, bfqd1)
             else
               let bfqd2 = upd_bfqq q (\<lambda>b. b\<lparr>wait_request := False\<rparr>) bfqd1 in
               if timer_pending bfqd2 then Bug
               else
                 (case uu_bfq_dispatch_requests E bfqd2 q max_dispatch of
                    None \<Rightarrow> Bug
                  | Some (n, bfqd3) \<Rightarrow> bfq_dispatch_loop E fuel bfqd3 (nr + n)))"

definition bfq_dispatch_requests ::
  "'s bfq_env \<Rightarrow> nat \<Rightarrow> 's bfq_data \<Rightarrow> (int \<times> 's bfq_data) outcome" where
  "bfq_dispatch_requests E fuel bfqd =
     (if busy_queues bfqd = 0 then Returns (0, bfqd)
      else bfq_dispatch_loop E fuel bfqd 0)"

definition bfq_update_hw_tag :: "'s bfq_data \<Rightarrow> 's bfq_data" where
  "bfq_update_hw_tag bfqd =
     (let bfqd1 = bfqd\<lparr>max_rq_in_driver := max (max_rq_in_driver bfqd) (rq_in_driver_sum bfqd)\<rparr> in
      if rq_in_driver_sum bfqd1 + queued bfqd1 < BFQ_HW_QUEUE_THRESHOLD then bfqd1
      else if hw_tag_samples bfqd1 < BFQ_HW_QUEUE_SAMPLES
      then bfqd1\<lparr>hw_tag_samples := hw_tag_samples bfqd1 + 1\<rparr>
      else bfqd1\<lparr>hw_tag := (max_rq_in_driver bfqd1 > BFQ_HW_QUEUE_THRESHOLD),
                 max_rq_in_driver := 0, hw_tag_samples := 0\<rparr>)"

definition bfq_completed_request ::
  "'s bfq_env \<Rightarrow> 's bfq_data \<Rightarrow> request \<Rightarrow> 's bfq_data option" where
  "bfq_completed_request E bfqd rq =
     (let q = RQ_BFQQ rq; sy = rq_is_sync rq;
          bfqd1 = bfq_update_hw_tag bfqd;
          bfqd2 = bfqd1\<lparr>rq_in_driver := (rq_in_driver bfqd1)(sy := rq_in_driver bfqd1 sy - 1)\<rparr>;
          bfqd3 = upd_bfqq q (\<lambda>b. b\<lparr>dispatched := dispatched b - 1\<rparr>) bfqd2;
          bfqd4 = (if sync (bfqqs bfqd3 q)
                   then bfqd3\<lparr>sync_flight := sync_flight bfqd3 - 1\<rparr> else bfqd3);
          bfqd5 = (if sy
                   then bfqd4\<lparr>cics := (cics bfqd4)
                           (RQ_CIC rq := (cics bfqd4 (RQ_CIC rq))\<lparr>last_end_request := jiffies bfqd4\<rparr>)\<rparr>
                   else bfqd4)
      in do {
        bfqd6 \<leftarrow>
          (if active_queue bfqd5 = Some q then
             do {
               bfqd7 \<leftarrow> (if budget_new (bfqqs bfqd5 q)
                         then bfq_set_budget_timeout bfqd5 else Some bfqd5);
               if bfq_bfqq_budget_timeout (jiffies bfqd7) (bfqqs bfqd7 q)
               then bfq_bfqq_expire E bfqd7 q False BFQ_BFQQ_BUDGET_TIMEOUT
               else if sy \<and> rq_in_driver_sum bfqd7 = 0 \<and> sort_list (bfqqs bfqd7 q) = []
               then bfq_arm_slice_timer E bfqd7
               else Some bfqd7
             }
           else Some bfqd5);
        Some (if rq_in_driver_sum bfqd6 = 0 then bfq_schedule_dispatch bfqd6 else bfqd6)
      })"

text \<open>\<^verbatim>\<open>bfq_idle_slice_timer\<close>, between taking and releasing the queue lock.\<close>

definition bfq_idle_slice_timer :: "'s bfq_env \<Rightarrow> 's bfq_data \<Rightarrow> 's bfq_data option" where
  "bfq_idle_slice_timer E bfqd =
     do {
       bfqd1 \<leftarrow>
         (case active_queue bfqd of
            Some q \<Rightarrow>
              let reason = (if bfq_bfqq_budget_timeout (jiffies bfqd) (bfqqs bfqd q)
                            then BFQ_BFQQ_BUDGET_TIMEOUT else BFQ_BFQQ_TOO_IDLE)
              in bfq_bfqq_expire E bfqd q True reason
          | None \<Rightarrow> Some bfqd);
       Some (bfq_schedule_dispatch bfqd1)
     }"

section \<open>Initial state and a concrete environment\<close>

text \<open>A queue and an io context as the allocators return them (\<^verbatim>\<open>__GFP_ZERO\<close>).\<close>

definition bfqq_zero :: bfq_queue where
  "bfqq_zero =
     \<lparr>sort_list = [], fifo = [], next_rq = None, bfqq_queued = (\<lambda>_. 0), dispatched = 0,
      meta_pending = 0, max_budget = 0, budget_timeout = 0, budgets_assigned = 0,
      entity = \<lparr>budget = 0, service = 0, ioprio_class = IOPRIO_CLASS_NONE\<rparr>,
      busy = False, wait_request = False, must_alloc = False, fifo_expire = False,
      idle_window = False, prio_changed = False, sync = False, budget_new = False\<rparr>"

definition cic_zero :: cfq_io_context where
  "cic_zero = \<lparr>nr_tasks = 0, seek_samples = 0, seek_mean = 0, last_end_request = 0\<rparr>"

text \<open>\<^verbatim>\<open>bfq_init_queue\<close>: the zeroed \<^verbatim>\<open>bfq_data\<close> with the default tunables
  (\<^verbatim>\<open>bfq_init\<close> turns a zero \<^verbatim>\<open>bfq_slice_idle\<close> or \<^verbatim>\<open>bfq_timeout_async\<close> into 1). The
  service trees start in the state \<open>s0\<close> of the root group.\<close>

definition bfq_init_queue :: "'s bfq_env \<Rightarrow> 's \<Rightarrow> 's bfq_data" where
  "bfq_init_queue E s0 =
     \<lparr>bfqqs = (\<lambda>_. bfqq_zero), cics = (\<lambda>_. cic_zero), active_queue = None,
      active_cic = None, busy_queues = 0, queued = 0, sync_flight = 0,
      rq_in_driver = (\<lambda>_. 0), max_rq_in_driver = 0, hw_tag_samples = 0, hw_tag = True,
      last_position = 0, last_budget_start = 0, last_idling_start = 0,
      idle_slice_timer = None, peak_rate = 0, peak_rate_samples = 0,
      bfq_quantum = bfq_quantum_dflt, bfq_back_max = bfq_back_max_dflt,
      bfq_back_penalty = bfq_back_penalty_dflt,
      bfq_slice_idle = (if HZ E div 125 = 0 then 1 else of_nat (HZ E div 125)),
      bfq_max_budget = bfq_max_budget_dflt, bfq_user_max_budget = 0,
      bfq_max_budget_async_rq = bfq_max_budget_async_rq_dflt,
      bfq_timeout = (\<lambda>sy. if sy then of_nat (HZ E div 8)
                           else if HZ E div 25 = 0 then 1 else of_nat (HZ E div 25)),
      jiffies = 0, ktime = 0, dispatch_list = [], unplug_work = 0, trace = [],
      sched = s0\<rparr>"

text \<open>
  An environment to run the model on concrete states: \<^verbatim>\<open>HZ = 1000\<close>, and service
  trees that hold the backlogged queues in the order of their activation and
  serve the first.
\<close>

definition fifo_env :: "qid list bfq_env" where
  "fifo_env =
     \<lparr>HZ = 1000,
      sched_next = (\<lambda>s. case s of [] \<Rightarrow> (None, []) | q # qs \<Rightarrow> (Some q, qs)),
      sched_activate = (\<lambda>q e s. if q \<in> set s then s else s @ [q]),
      sched_deactivate = (\<lambda>q e requeue s. removeAll q s),
      sched_served = (\<lambda>q n s. s)\<rparr>"

section \<open>The dispatch controller with a log of the FIFO checks\<close>

text \<open>
  Two things happen to the \<^verbatim>\<open>fifo_expire\<close> flag of a queue: \<^verbatim>\<open>bfq_check_fifo\<close> is
  called on the queue, in the loop of \<^verbatim>\<open>__bfq_dispatch_requests\<close>, and
  \<^verbatim>\<open>__bfq_set_active_queue\<close> is called on it, from \<^verbatim>\<open>bfq_select_queue\<close> through
  \<^verbatim>\<open>bfq_set_active_queue\<close> (where it logs \<^verbatim>\<open>"active"\<close>). To tell in which order they
  happen in a call of \<^verbatim>\<open>bfq_dispatch_requests\<close>, the functions of the dispatch
  controller are written once more with a list of these events: the list so far
  is their last argument, and the list extended with the events of the call the
  last component of their result. Everything else is as in the functions above.
\<close>

datatype fifo_event = Activated qid | Checked qid "request option"

definition bfq_set_active_queue_log ::
  "'s bfq_env \<Rightarrow> 's bfq_data \<Rightarrow> fifo_event list \<Rightarrow> qid option \<times> 's bfq_data \<times> fifo_event list" where
  "bfq_set_active_queue_log E bfqd log =
     (let (qo, bfqd1) = bfq_set_active_queue E bfqd
      in (qo, bfqd1, case qo of None \<Rightarrow> log | Some q \<Rightarrow> log @ [Activated q]))"

definition bfq_select_expire_log ::
  "'s bfq_env \<Rightarrow> 's bfq_data \<Rightarrow> qid \<Rightarrow> bfqq_expiration \<Rightarrow> fifo_event list
     \<Rightarrow> (qid option \<times> 's bfq_data \<times> fifo_event list) option" where
  "bfq_select_expire_log E bfqd q reason log =
     do {
       bfqd1 \<leftarrow> bfq_bfqq_expire E bfqd q False reason;
       Some (bfq_set_active_queue_log E bfqd1 log)
     }"

definition bfq_select_queue_log ::
  "'s bfq_env \<Rightarrow> 's bfq_data \<Rightarrow> fifo_event list
     \<Rightarrow> (qid option \<times> 's bfq_data \<times> fifo_event list) option" where
  "bfq_select_queue_log E bfqd log =
     (case active_queue bfqd of
        None \<Rightarrow> Some (bfq_set_active_queue_log E bfqd log)
      | Some q \<Rightarrow>
          let bfqq = bfqqs bfqd q in
          if bfq_bfqq_budget_timeout (jiffies bfqd) bfqq then
            bfq_select_expire_log E (upd_bfqq q bfq_bfqq_charge_full_budget bfqd) q
              BFQ_BFQQ_BUDGET_TIMEOUT log
          else
            (case next_rq bfqq of
               Some nrq \<Rightarrow>
                 if ucast (blk_rq_sectors nrq) > bfq_bfqq_budget_left bfqq
                 then bfq_select_expire_log E bfqd q BFQ_BFQQ_BUDGET_EXHAUSTED log
                 else Some (Some q, bfqd, log)
             | None \<Rightarrow>
                 if timer_pending bfqd \<or> (dispatched bfqq \<noteq> 0 \<and> idle_window bfqq)
                 then Some (None, bfqd, log)
                 else bfq_select_expire_log E bfqd q BFQ_BFQQ_NO_MORE_REQUESTS log))"

function bfq_dispatch_round_log ::
  "'s bfq_env \<Rightarrow> qid \<Rightarrow> int \<Rightarrow> 's bfq_data \<Rightarrow> int \<Rightarrow> fifo_event list
     \<Rightarrow> (bool \<times> int \<times> 's bfq_data \<times> fifo_event list) option" where
  "bfq_dispatch_round_log E q max_dispatch bfqd nr log =
     (let (fr, bfqq1) = bfq_check_fifo (jiffies bfqd) (bfqqs bfqd q);
          log1 = log @ [Checked q fr];
          bfqd1 = upd_bfqq q (\<lambda>_. bfqq1) bfqd;
          rqo = (case fr of None \<Rightarrow> next_rq bfqq1 | Some r \<Rightarrow> Some r)
      in case rqo of
           None \<Rightarrow> None
         | Some rq \<Rightarrow>
             if ucast (blk_rq_sectors rq) > bfq_bfqq_budget_left bfqq1
             then Some (True, nr, upd_bfqq q (\<lambda>b. b\<lparr>next_rq := Some rq\<rparr>) bfqd1, log1)
             else
               (case bfq_dispatch_insert E
                       (bfq_bfqq_served E bfqd1 q (ucast (blk_rq_sectors rq))) rq of
                  None \<Rightarrow> None
                | Some bfqd2 \<Rightarrow>
                    let bfqd3 = (if active_cic bfqd2 = None
                                 then bfqd2\<lparr>active_cic := Some (RQ_CIC rq)\<rparr> else bfqd2)
                    in if sort_list (bfqqs bfqd3 q) = [] then Some (False, nr + 1, bfqd3, log1)
                       else if nr + 1 < max_dispatch
                       then bfq_dispatch_round_log E q max_dispatch bfqd3 (nr + 1) log1
                       else Some (False, nr + 1, bfqd3, log1)))"
  by pat_completeness auto
termination
  by (relation "measure (\<lambda>(E, q, max_dispatch, bfqd, nr, log). nat (max_dispatch - nr))") auto

declare bfq_dispatch_round_log.simps [simp del]

definition uu_bfq_dispatch_requests_log ::
  "'s bfq_env \<Rightarrow> 's bfq_data \<Rightarrow> qid \<Rightarrow> int \<Rightarrow> fifo_event list
     \<Rightarrow> (int \<times> 's bfq_data \<times> fifo_event list) option" where
  "uu_bfq_dispatch_requests_log E bfqd q max_dispatch log =
     (if sort_list (bfqqs bfqd q) = [] then None
      else
        do {
          (expire, nr, bfqd1, log1) \<leftarrow> bfq_dispatch_round_log E q max_dispatch bfqd 0 log;
          if expire \<or> (busy_queues bfqd1 > 1
                \<and> ((\<not> sync (bfqqs bfqd1 q) \<and> nr \<ge> bfq_max_budget_async_rq bfqd1)
                    \<or> bfq_class_idle (bfqqs bfqd1 q)))
          then do {
            bfqd2 \<leftarrow> bfq_bfqq_expire E bfqd1 q False BFQ_BFQQ_BUDGET_EXHAUSTED;
            Some (nr, bfqd2, log1)
          }
          else Some (nr, bfqd1, log1)
        })"

fun bfq_dispatch_loop_log ::
  "'s bfq_env \<Rightarrow> nat \<Rightarrow> 's bfq_data \<Rightarrow> int \<Rightarrow> fifo_event list
     \<Rightarrow> (int \<times> 's bfq_data \<times> fifo_event list) outcome" where
  "bfq_dispatch_loop_log E 0 bfqd nr log = OutOfFuel"
| "bfq_dispatch_loop_log E (Suc fuel) bfqd nr log =
     (case bfq_select_queue_log E bfqd log of
        None \<Rightarrow> Bug
      | Some (None, bfqd1, log1) \<Rightarrow> Returns (nr, bfqd1, log1)
      | Some (Some q, bfqd1, log1) \<Rightarrow>
          let bfqq = bfqqs bfqd1 q;
              max_dispatch = bfq_max_dispatch bfqd1 bfqq
          in if dispatched bfqq \<ge> max_dispatch
                \<and> (busy_queues bfqd1 > 1 \<or> dispatched bfqq \<ge> 4 * max_dispatch)
             then Returns (nr, bfqd1, log1)
             else if idle_window bfqq \<and> rq_in_driver bfqd1 False \<noteq> 0
             then Returns (0, bfqd1, log1)
             else if sync_flight bfqd1 \<noteq> 0 \<and> \<not> sync bfqq
             then Returns (nr, bfqd1, log1)
             else
               let bfqd2 = upd_bfqq q (\<lambda>b. b\<lparr>wait_request := False\<rparr>) bfqd1 in
               if timer_pending bfqd2 then Bug
               else
                 (case uu_bfq_dispatch_requests_log E bfqd2 q max_dispatch log1 of
                    None \<Rightarrow> Bug
                  | Some (n, bfqd3, log2) \<Rightarrow> bfq_dispatch_loop_log E fuel bfqd3 (nr + n) log2))"

definition bfq_dispatch_requests_log ::
  "'s bfq_env \<Rightarrow> nat \<Rightarrow> 's bfq_data \<Rightarrow> (int \<times> 's bfq_data \<times> fifo_event list) outcome" where
  "bfq_dispatch_requests_log E fuel bfqd =
     (if busy_queues bfqd = 0 then Returns (0, bfqd, [])
      else bfq_dispatch_loop_log E fuel bfqd 0 [])"

section \<open>Definitions used to state the properties\<close>

text \<open>The reason that \<^verbatim>\<open>bfq_bfqq_expire\<close> acts on, after its test
  \<^verbatim>\<open>if (slow && reason == BFQ_BFQQ_TOO_IDLE)\<close>; used to state its effects.\<close>

definition expire_reason :: "bool \<Rightarrow> bfqq_expiration \<Rightarrow> bfqq_expiration" where
  "expire_reason slow r = (if slow \<and> r = BFQ_BFQQ_TOO_IDLE then BFQ_BFQQ_BUDGET_TIMEOUT else r)"

text \<open>The accounting prefix of \<^verbatim>\<open>bfq_completed_request\<close>, up to the test
  \<^verbatim>\<open>if (bfqd->active_queue == bfqq)\<close>; named for the proofs.\<close>

definition completed_acct :: "'s bfq_data \<Rightarrow> request \<Rightarrow> 's bfq_data" where
  "completed_acct bfqd rq =
     (let q = RQ_BFQQ rq; sy = rq_is_sync rq;
          bfqd1 = bfq_update_hw_tag bfqd;
          bfqd2 = bfqd1\<lparr>rq_in_driver := (rq_in_driver bfqd1)(sy := rq_in_driver bfqd1 sy - 1)\<rparr>;
          bfqd3 = upd_bfqq q (\<lambda>b. b\<lparr>dispatched := dispatched b - 1\<rparr>) bfqd2;
          bfqd4 = (if sync (bfqqs bfqd3 q)
                   then bfqd3\<lparr>sync_flight := sync_flight bfqd3 - 1\<rparr> else bfqd3)
      in (if sy
                   then bfqd4\<lparr>cics := (cics bfqd4)
                           (RQ_CIC rq := (cics bfqd4 (RQ_CIC rq))\<lparr>last_end_request := jiffies bfqd4\<rparr>)\<rparr>
                   else bfqd4))"

text \<open>The request that an iteration of the loop of \<^verbatim>\<open>__bfq_dispatch_requests\<close> picks:
  \<^verbatim>\<open>rq = bfq_check_fifo(bfqq); if (rq == NULL) rq = bfqq->next_rq;\<close>\<close>

definition bfq_chosen_rq :: "ulong \<Rightarrow> bfq_queue \<Rightarrow> request option" where
  "bfq_chosen_rq j bfqq =
     (case fst (bfq_check_fifo j bfqq) of None \<Rightarrow> next_rq bfqq | Some r \<Rightarrow> Some r)"

text \<open>Following the spec: "After adjusting, clamp to global_max once the queue has had
  enough slices (at least 194 assignments) and the user has not pinned a global max",
  on unbounded integers.\<close>

definition spec_clamp_budget :: "'s bfq_data \<Rightarrow> bfq_queue \<Rightarrow> int \<Rightarrow> int" where
  "spec_clamp_budget bfqd bfqq x =
     (if budgets_assigned bfqq \<ge> 194 \<and> bfq_user_max_budget bfqd = 0
      then min x (uint (bfq_max_budget bfqd)) else x)"

text \<open>Following the spec, section 4.3: "estimate the bandwidth achieved during the
  slice: bw = (service << RATE_SHIFT) / elapsed_us. Compute expected = bw * sync_timeout_ms
  in sectors."\<close>

definition spec_slice_expected :: "'s bfq_env \<Rightarrow> 's bfq_data \<Rightarrow> qid \<Rightarrow> bool \<Rightarrow> u64" where
  "spec_slice_expected E bfqd q compensate =
     (let elapsed_us = ktime_to_us ((if compensate then last_idling_start bfqd else ktime bfqd)
                                     - last_budget_start bfqd);
          bw = push_bit BFQ_RATE_SHIFT (service (entity (bfqqs bfqd q))) div elapsed_us;
          sync_timeout_ms = ucast (jiffies_to_msecs E (bfq_timeout bfqd True))
      in drop_bit BFQ_RATE_SHIFT (bw * 1000 * sync_timeout_ms))"

text \<open>
  Reading a log of FIFO events for the queue \<open>q\<close>, from a value of its
  \<^verbatim>\<open>fifo_expire\<close> flag: an activation of \<open>q\<close> starts a slice of \<open>q\<close> and clears the flag,
  a check of \<open>q\<close> sets it, and the events of other queues leave it. The reading
  fails, with \<open>None\<close>, at a check of \<open>q\<close> that returns a request while the flag is
  set: a check that is not the first of its slice and does not return \<^verbatim>\<open>NULL\<close>.
  Otherwise \<open>once_per_slice\<close> is the flag after the last event.
\<close>

fun fifo_step :: "qid \<Rightarrow> bool option \<Rightarrow> fifo_event \<Rightarrow> bool option" where
  "fifo_step q None ev = None"
| "fifo_step q (Some flag) (Activated p) = Some (if p = q then False else flag)"
| "fifo_step q (Some flag) (Checked p r) =
     (if p \<noteq> q then Some flag else if flag \<and> r \<noteq> None then None else Some True)"

definition once_per_slice :: "qid \<Rightarrow> bool \<Rightarrow> fifo_event list \<Rightarrow> bool option" where
  "once_per_slice q flag log = foldl (fifo_step q) (Some flag) log"

text \<open>
  A history of the scheduler: calls of \<^verbatim>\<open>bfq_dispatch_requests\<close> (with the bound on
  the iterations of its loop), of \<^verbatim>\<open>bfq_completed_request\<close> and of
  \<^verbatim>\<open>bfq_idle_slice_timer\<close>, and between them any other change of the state that
  leaves the \<^verbatim>\<open>fifo_expire\<close> flag of the queue \<open>q\<close> as it is (the arrival of requests,
  the clocks; nothing else in the file names the flag). \<open>bfq_calls_log\<close> runs a
  history from a state and collects the FIFO events of its calls; it is \<open>None\<close> when
  a call does not return or a change in between touches the flag.
\<close>

datatype 's bfq_call =
    Dispatch_requests nat
  | Completed_request request
  | Idle_slice_timer
  | Elsewhere "'s bfq_data"

fun bfq_calls_log ::
  "'s bfq_env \<Rightarrow> qid \<Rightarrow> 's bfq_call list \<Rightarrow> 's bfq_data \<Rightarrow> fifo_event list
     \<Rightarrow> ('s bfq_data \<times> fifo_event list) option" where
  "bfq_calls_log E q [] bfqd log = Some (bfqd, log)"
| "bfq_calls_log E q (Dispatch_requests fuel # cs) bfqd log =
     (case bfq_dispatch_requests_log E fuel bfqd of
        Returns (n, bfqd1, log1) \<Rightarrow> bfq_calls_log E q cs bfqd1 (log @ log1)
      | Bug \<Rightarrow> None
      | OutOfFuel \<Rightarrow> None)"
| "bfq_calls_log E q (Completed_request rq # cs) bfqd log =
     (case bfq_completed_request E bfqd rq of
        Some bfqd1 \<Rightarrow> bfq_calls_log E q cs bfqd1 log
      | None \<Rightarrow> None)"
| "bfq_calls_log E q (Idle_slice_timer # cs) bfqd log =
     (case bfq_idle_slice_timer E bfqd of
        Some bfqd1 \<Rightarrow> bfq_calls_log E q cs bfqd1 log
      | None \<Rightarrow> None)"
| "bfq_calls_log E q (Elsewhere bfqd1 # cs) bfqd log =
     (if fifo_expire (bfqqs bfqd1 q) = fifo_expire (bfqqs bfqd q)
      then bfq_calls_log E q cs bfqd1 log else None)"

section \<open>Example states\<close>

text \<open>Requests and a device state for running the model: the state is the one
  \<^verbatim>\<open>bfq_init_queue\<close> builds, in the environment \<open>fifo_env\<close>.\<close>

definition ex_rq :: "nat \<Rightarrow> sector_t \<Rightarrow> u32 \<Rightarrow> bool \<Rightarrow> qid \<Rightarrow> request" where
  "ex_rq i pos n sy q =
     \<lparr>rq_id = i, blk_rq_pos = pos, blk_rq_sectors = n, rq_is_sync = sy, rq_is_meta = False,
      rq_fifo_time = 0, RQ_CIC = q, RQ_BFQQ = q\<rparr>"

definition ex_bfqd :: "qid list bfq_data" where
  "ex_bfqd = bfq_init_queue fifo_env []"

text \<open>Example queues and states. \<open>ex_queue\<close> is a best-effort queue holding the given
  requests, with the default budget of 3/4 of 16384 sectors. \<open>ex_two\<close>: no active
  queue, two busy sync queues of one request each, the second with the idle window
  enabled, and one async request in the driver.\<close>

definition ex_queue :: "bool \<Rightarrow> bool \<Rightarrow> request list \<Rightarrow> bfq_queue" where
  "ex_queue sy iw rqs =
     bfqq_zero\<lparr>sort_list := rqs, fifo := rqs,
       next_rq := (case rqs of [] \<Rightarrow> None | r # _ \<Rightarrow> Some r),
       bfqq_queued := (\<lambda>b. if b = sy then int (length rqs) else 0),
       max_budget := 12288,
       entity := \<lparr>budget = 12288, service = 0, ioprio_class = IOPRIO_CLASS_BE\<rparr>,
       busy := (rqs \<noteq> []), idle_window := iw, sync := sy\<rparr>"

definition ex_two :: "qid list bfq_data" where
  "ex_two =
     ex_bfqd\<lparr>bfqqs := (\<lambda>_. bfqq_zero)
                 (0 := ex_queue True False [ex_rq 1 100 8 True 0],
                  1 := ex_queue True True [ex_rq 2 5000 8 True 1]),
             busy_queues := 2, queued := 2,
             rq_in_driver := (\<lambda>sy. if sy then 0 else 1),
             sched := [0, 1]\<rparr>"

text \<open>More example states. \<open>ex_active b\<close>: the queue \<open>b\<close> is queue 0 and active.
  \<open>ex_served n\<close>: a sync queue that has been served \<open>n\<close> sectors of its budget of 12288,
  with its budget timeout stamped at jiffy 125. The slice of \<open>ex_short\<close> has lasted
  99 us from its first completion to the start of idling with 8 sectors served,
  that of \<open>ex_seeky\<close> 100 ms with 8 sectors, that of \<open>ex_fast\<close> 50 ms with 12000
  sectors. \<open>ex_low\<close>: 288 sectors of budget left and a request of 512 sectors.
  \<open>ex_idle\<close>: the active queue has its last request in the driver and a seeky io
  context with valid samples. \<open>ex_fresh\<close>: the active queue has just been activated.
  \<open>ex_other\<close>: queue 1 is active and not waiting for a request.\<close>

definition ex_active :: "bfq_queue \<Rightarrow> qid list bfq_data" where
  "ex_active b =
     ex_bfqd\<lparr>bfqqs := (\<lambda>_. bfqq_zero)(0 := b), active_queue := Some 0,
             busy_queues := 1, queued := int (length (sort_list b))\<rparr>"

definition ex_served :: "ulong \<Rightarrow> bfq_queue" where
  "ex_served n =
     (ex_queue True True [])
       \<lparr>entity := \<lparr>budget = 12288, service = n, ioprio_class = IOPRIO_CLASS_BE\<rparr>,
        budget_timeout := 125\<rparr>"

definition ex_short :: "qid list bfq_data" where
  "ex_short = (ex_active (ex_served 8))\<lparr>last_idling_start := 99000, ktime := 8099000, jiffies := 8\<rparr>"

definition ex_seeky :: "qid list bfq_data" where
  "ex_seeky = (ex_active (ex_served 8))\<lparr>last_idling_start := 100000000, ktime := 108000000, jiffies := 108\<rparr>"

definition ex_fast :: "qid list bfq_data" where
  "ex_fast = (ex_active (ex_served 12000))\<lparr>last_idling_start := 50000000, ktime := 58000000, jiffies := 58\<rparr>"

definition ex_low :: "qid list bfq_data" where
  "ex_low =
     ex_active ((ex_queue True True [ex_rq 1 100 512 True 0])
                  \<lparr>entity := \<lparr>budget = 12288, service = 12000, ioprio_class = IOPRIO_CLASS_BE\<rparr>\<rparr>)"

definition ex_idle :: "qid list bfq_data" where
  "ex_idle =
     (ex_active ((ex_served 8)\<lparr>dispatched := 1\<rparr>))
       \<lparr>active_cic := Some 0,
        cics := (\<lambda>_. cic_zero)
                  (0 := \<lparr>nr_tasks = 1, seek_samples = 100, seek_mean = 10000, last_end_request = 0\<rparr>),
        rq_in_driver := (\<lambda>sy. if sy then 1 else 0),
        jiffies := 50\<rparr>"

definition ex_fresh :: "qid list bfq_data" where
  "ex_fresh = ex_active ((ex_queue True True [])\<lparr>budget_new := True, dispatched := 1\<rparr>)"

definition ex_other :: "qid list bfq_data" where
  "ex_other =
     ex_bfqd\<lparr>bfqqs := (\<lambda>_. bfqq_zero)
                 (0 := ex_queue True True [],
                  1 := (ex_queue True True [ex_rq 2 5000 8 True 1])\<lparr>budget_new := True\<rparr>),
             active_queue := Some 1, busy_queues := 1, queued := 1\<rparr>"

text \<open>States and a history for the FIFO check. \<open>ex_late\<close>: no active queue; queue 0 is
  busy with two sync requests, the one at sector 5000 having arrived first, both past
  their deadline. \<open>ex_more\<close>: later in the slice, queue 0 is still active with its
  flag set and its two requests in the driver, and a new request has arrived, past
  its deadline at jiffy 10. \<open>ex_again\<close>: queue 0 has been expired with its flag set
  and has a new request, past its deadline. \<open>ex_history\<close>: a dispatch, the arrival
  that leads to \<open>ex_more\<close>, a completion, a dispatch, the idle-slice timer, the
  arrival that leads to \<open>ex_again\<close> and a dispatch.\<close>

definition ex_late :: "qid list bfq_data" where
  "ex_late =
     ex_bfqd\<lparr>bfqqs := (\<lambda>_. bfqq_zero)
                 (0 := (ex_queue True True [ex_rq 1 100 8 True 0, ex_rq 2 5000 8 True 0])
                         \<lparr>fifo := [ex_rq 2 5000 8 True 0, ex_rq 1 100 8 True 0]\<rparr>),
             busy_queues := 1, queued := 2, sched := [0]\<rparr>"

definition ex_more :: "qid list bfq_data" where
  "ex_more =
     ex_bfqd\<lparr>bfqqs := (\<lambda>_. bfqq_zero)
                 (0 := (ex_queue True True [ex_rq 3 200 8 True 0])
                         \<lparr>fifo_expire := True, budget_new := True, must_alloc := True,
                          dispatched := 2, budgets_assigned := 32,
                          entity := \<lparr>budget = 12288, service = 16,
                                     ioprio_class = IOPRIO_CLASS_BE\<rparr>\<rparr>),
             active_queue := Some 0, active_cic := Some 0, busy_queues := 1, queued := 1,
             rq_in_driver := (\<lambda>sy. if sy then 2 else 0), sync_flight := 2, jiffies := 10\<rparr>"

definition ex_again :: "qid list bfq_data" where
  "ex_again =
     ex_bfqd\<lparr>bfqqs := (\<lambda>_. bfqq_zero)
                 (0 := (ex_queue True True [ex_rq 4 300 8 True 0])
                         \<lparr>fifo_expire := True, dispatched := 2\<rparr>),
             busy_queues := 1, queued := 1, sched := [0],
             rq_in_driver := (\<lambda>sy. if sy then 2 else 0), sync_flight := 2, jiffies := 20\<rparr>"

definition ex_history :: "qid list bfq_call list" where
  "ex_history =
     [Dispatch_requests 3, Elsewhere ex_more, Completed_request (ex_rq 2 5000 8 True 0),
      Dispatch_requests 3, Idle_slice_timer, Elsewhere ex_again, Dispatch_requests 3]"

section \<open>Properties\<close>

subsection \<open>Word arithmetic\<close>

lemma unat_ucast_32_64: "unat (ucast (w :: 32 word) :: 64 word) = unat w"
proof -
  have "unat w < 2 ^ 32" using unsigned_less [of w] by simp
  then have "unat w < 2 ^ 64" by simp
  then show ?thesis by (simp add: unsigned_ucast_eq take_bit_nat_eq_self)
qed

lemma unat32_bound: "unat (w :: 32 word) < 4294967296"
  using unsigned_less [of w] by simp

lemma back_max_unat:
  "bfq_back_max bfqd \<le> 0x7FFFFFFF \<Longrightarrow> unat (bfq_back_max_sectors bfqd) = 2 * unat (bfq_back_max bfqd)"
  unfolding bfq_back_max_sectors_def
  by (simp add: unat_ucast_32_64 word_le_nat_alt unat_word_ariths)

lemma word_add_eq_of_unat_diff: "(s::64 word) < L \<Longrightarrow> unat L - unat s = unat (b :: 64 word) \<Longrightarrow> s + b = L"
  by unat_arith

lemma word_add_less_of_unat_diff: "(s::64 word) < L \<Longrightarrow> unat L - unat s = unat (b :: 64 word) + 1 \<Longrightarrow> s + b < L"
  by unat_arith

lemma unat_sub_of_less: "(s::64 word) < L \<Longrightarrow> unat (L - s) = unat L - unat s"
  by unat_arith

lemma unat_mult_ucast32: "unat (a :: 64 word) < 2 ^ 32 \<Longrightarrow> unat (a * ucast (p :: 32 word)) = unat a * unat p"
proof -
  assume a: "unat a < 2 ^ 32"
  have p: "unat p < 2 ^ 32" using unsigned_less [of p] by simp
  have "unat a * unat p < 2 ^ 32 * 2 ^ 32"
    using a p by (intro mult_strict_mono) auto
  then have "unat a * unat (ucast p :: 64 word) < 2 ^ LENGTH(64)"
    by (simp add: unat_ucast_32_64)
  then show ?thesis
    by (simp add: unat_mult_lem [THEN iffD1] unat_ucast_32_64)
qed

subsection \<open>Running the model on the example states\<close>

lemmas bfq_model_defs =
  bfq_dispatch_requests_def bfq_select_queue_def bfq_select_expire_def
  bfq_set_active_queue_def bfq_get_next_queue_def uu_bfq_set_active_queue_def
  bfq_bfqq_budget_timeout_def bfq_bfqq_budget_left_def bfq_max_dispatch_def
  bfq_class_idle_def timer_pending_def uu_bfq_dispatch_requests_def
  bfq_check_fifo_def time_before_def bfq_bfqq_served_def bfq_dispatch_insert_def
  bfq_find_next_rq_def rb_first_def bfq_remove_request_def bfq_del_rq_rb_def
  bfq_updated_next_req_def bfq_bfqq_expire_def bfq_update_peak_rate_def
  uu_bfq_bfqq_recalc_budget_def bfq_feedback_budget_def bfq_min_budget_def
  bfq_default_budget_def uu_bfq_bfqq_expire_def uu_bfq_bfqd_reset_active_def
  bfq_del_bfqq_busy_def bfq_activate_bfqq_def bfq_bfqq_charge_full_budget_def
  bfq_idle_slice_timer_def bfq_schedule_dispatch_def bfq_completed_request_def
  bfq_update_hw_tag_def bfq_set_budget_timeout_def bfq_arm_slice_timer_def
  rq_in_driver_sum_def upd_bfqq_def Let_def
  ktime_to_us_def jiffies_to_msecs_def msecs_to_jiffies_def bfq_calc_max_budget_def
  LONG_MAX_def BFQ_RATE_SHIFT_def BFQ_PEAK_RATE_SAMPLES_def BFQ_BUDGET_STEP_def
  BFQ_MIN_TT_def BFQ_HW_QUEUE_THRESHOLD_def BFQ_HW_QUEUE_SAMPLES_def
  bfq_sample_valid_def CIC_SEEKY_def

lemmas ex_defs =
  ex_bfqd_def bfq_init_queue_def fifo_env_def ex_queue_def ex_rq_def bfqq_zero_def cic_zero_def
  bfq_quantum_dflt_def bfq_back_max_dflt_def bfq_back_penalty_dflt_def bfq_max_budget_dflt_def
  bfq_max_budget_async_rq_dflt_def

lemmas ex_state_defs = ex_active_def ex_served_def ex_short_def ex_seeky_def ex_fast_def

lemmas ex_state_defs2 = ex_low_def ex_idle_def ex_fresh_def ex_other_def ex_two_def

lemma ex_simps:
  "last_position ex_bfqd = 0" "bfq_back_max ex_bfqd = 16384" "bfq_back_penalty ex_bfqd = 2"
  by (simp_all add: ex_bfqd_def bfq_init_queue_def bfq_back_max_dflt_def bfq_back_penalty_dflt_def)

subsection \<open>The proximity rule of \<^verbatim>\<open>bfq_choose_req\<close>\<close>

lemma bfq_rq_dist_at_back_max:
  assumes "bfq_back_max bfqd \<le> 0x7FFFFFFF" and "s < last_position bfqd"
    and "unat (last_position bfqd) - unat s = 2 * unat (bfq_back_max bfqd)"
  shows "bfq_rq_dist bfqd s = ((last_position bfqd - s) * ucast (bfq_back_penalty bfqd), False)"
    and "unat ((last_position bfqd - s) * ucast (bfq_back_penalty bfqd))
           = (unat (last_position bfqd) - unat s) * unat (bfq_back_penalty bfqd)"
proof -
  have bm: "unat (last_position bfqd) - unat s = unat (bfq_back_max_sectors bfqd)"
    using assms by (simp add: back_max_unat)
  then have "s + bfq_back_max_sectors bfqd = last_position bfqd"
    using assms(2) by (rule word_add_eq_of_unat_diff [rotated])
  then show "bfq_rq_dist bfqd s = ((last_position bfqd - s) * ucast (bfq_back_penalty bfqd), False)"
    using assms(2) by (simp add: bfq_rq_dist_def Let_def not_le [symmetric])
  have "unat (last_position bfqd - s) = 2 * unat (bfq_back_max bfqd)"
    using assms by (simp add: unat_sub_of_less)
  moreover have "2 * unat (bfq_back_max bfqd) < 2 ^ 32"
    using unat32_bound [of "bfq_back_max bfqd"] assms(1) by (simp add: word_le_nat_alt)
  ultimately have "unat (last_position bfqd - s) < 2 ^ 32" by simp
  then show "unat ((last_position bfqd - s) * ucast (bfq_back_penalty bfqd))
           = (unat (last_position bfqd) - unat s) * unat (bfq_back_penalty bfqd)"
    using assms(2) by (simp add: unat_mult_ucast32 unat_sub_of_less)
qed

lemma bfq_rq_dist_past_back_max:
  assumes "bfq_back_max bfqd \<le> 0x7FFFFFFF" and "s < last_position bfqd"
    and "unat (last_position bfqd) - unat s = 2 * unat (bfq_back_max bfqd) + 1"
  shows "bfq_rq_dist bfqd s = (0, True)"
proof -
  have bm: "unat (last_position bfqd) - unat s = unat (bfq_back_max_sectors bfqd) + 1"
    using assms by (simp add: back_max_unat)
  then have "s + bfq_back_max_sectors bfqd < last_position bfqd"
    using assms(2) by (rule word_add_less_of_unat_diff [rotated])
  then show ?thesis
    using assms(2) by (simp add: bfq_rq_dist_def Let_def not_le [symmetric])
qed

lemma bfq_choose_req_table:
  assumes "r1 \<noteq> r2" and "rq_is_sync r1 = rq_is_sync r2" and "rq_is_meta r1 = rq_is_meta r2"
    and "bfq_rq_dist bfqd (blk_rq_pos r1) = (d1, w1)"
    and "bfq_rq_dist bfqd (blk_rq_pos r2) = (d2, w2)"
  shows "bfq_choose_req bfqd (Some r1) (Some r2) =
     Some (if \<not> w1 \<and> \<not> w2 then
             (if d1 < d2 then r1 else if d2 < d1 then r2
              else if blk_rq_pos r1 \<ge> blk_rq_pos r2 then r1 else r2)
           else if \<not> w1 then r1 else if \<not> w2 then r2
           else if blk_rq_pos r1 \<le> blk_rq_pos r2 then r1 else r2)"
  using assms by (simp add: Let_def)

text \<open>
  Claim C4, as the code has it. Let \<open>r1\<close> and \<open>r2\<close> be distinct requests. If they differ
  in the sync flag, \<^verbatim>\<open>bfq_choose_req\<close> returns the sync one, and if they agree on it and
  differ in the metadata flag, the metadata one, whatever the distances. If they
  agree on both flags the proximity rule decides. With \<open>L\<close> the last head position
  and \<^verbatim>\<open>back_max\<close> = 2 \<open>\<cdot>\<close> \<^verbatim>\<open>bfq_back_max\<close> sectors (the tunable is at most
  \<^verbatim>\<open>INT_MAX\<close>, as its store function clamps it): a candidate behind the head at
  distance \<open>L - s\<close> exactly \<^verbatim>\<open>back_max\<close> is not wrapped and is charged
  \<open>(L - s) \<cdot>\<close> \<^verbatim>\<open>bfq_back_penalty\<close>; at distance \<^verbatim>\<open>back_max\<close> + 1 it is wrapped; if
  neither candidate is wrapped the smaller distance wins and a tie goes to the
  larger sector; if exactly one is wrapped the other wins; if both are wrapped the
  smaller sector wins.
\<close>
theorem bfq_choose_req_proximity:
  assumes "r1 \<noteq> r2" and "bfq_back_max bfqd \<le> 0x7FFFFFFF"
  shows
    "(rq_is_sync r1 \<noteq> rq_is_sync r2
      \<longrightarrow> bfq_choose_req bfqd (Some r1) (Some r2) = Some (if rq_is_sync r1 then r1 else r2))
   \<and> (rq_is_sync r1 = rq_is_sync r2 \<and> rq_is_meta r1 \<noteq> rq_is_meta r2
      \<longrightarrow> bfq_choose_req bfqd (Some r1) (Some r2) = Some (if rq_is_meta r1 then r1 else r2))
   \<and> (sa < last_position bfqd
        \<and> unat (last_position bfqd) - unat sa = 2 * unat (bfq_back_max bfqd)
      \<longrightarrow> snd (bfq_rq_dist bfqd sa) = False
          \<and> unat (fst (bfq_rq_dist bfqd sa))
               = (unat (last_position bfqd) - unat sa) * unat (bfq_back_penalty bfqd))
   \<and> (sb < last_position bfqd
        \<and> unat (last_position bfqd) - unat sb = 2 * unat (bfq_back_max bfqd) + 1
      \<longrightarrow> snd (bfq_rq_dist bfqd sb) = True)
   \<and> (rq_is_sync r1 = rq_is_sync r2 \<and> rq_is_meta r1 = rq_is_meta r2
      \<longrightarrow> bfq_choose_req bfqd (Some r1) (Some r2) =
       Some (let (d1, w1) = bfq_rq_dist bfqd (blk_rq_pos r1);
                 (d2, w2) = bfq_rq_dist bfqd (blk_rq_pos r2)
             in if \<not> w1 \<and> \<not> w2 then
                  (if d1 < d2 then r1 else if d2 < d1 then r2
                   else if blk_rq_pos r1 \<ge> blk_rq_pos r2 then r1 else r2)
                else if \<not> w1 then r1 else if \<not> w2 then r2
                else if blk_rq_pos r1 \<le> blk_rq_pos r2 then r1 else r2))"
proof (intro conjI impI)
  assume "rq_is_sync r1 \<noteq> rq_is_sync r2"
  with assms(1) show "bfq_choose_req bfqd (Some r1) (Some r2) = Some (if rq_is_sync r1 then r1 else r2)"
    by auto
next
  assume "rq_is_sync r1 = rq_is_sync r2 \<and> rq_is_meta r1 \<noteq> rq_is_meta r2"
  with assms(1) show "bfq_choose_req bfqd (Some r1) (Some r2) = Some (if rq_is_meta r1 then r1 else r2)"
    by auto
next
  assume a: "sa < last_position bfqd
        \<and> unat (last_position bfqd) - unat sa = 2 * unat (bfq_back_max bfqd)"
  from a assms(2) show "snd (bfq_rq_dist bfqd sa) = False"
    by (simp add: bfq_rq_dist_at_back_max(1))
  from a assms(2) show "unat (fst (bfq_rq_dist bfqd sa))
               = (unat (last_position bfqd) - unat sa) * unat (bfq_back_penalty bfqd)"
    using bfq_rq_dist_at_back_max [of bfqd sa] by simp
next
  assume "sb < last_position bfqd
        \<and> unat (last_position bfqd) - unat sb = 2 * unat (bfq_back_max bfqd) + 1"
  with assms(2) show "snd (bfq_rq_dist bfqd sb) = True"
    by (simp add: bfq_rq_dist_past_back_max)
next
  assume f: "rq_is_sync r1 = rq_is_sync r2 \<and> rq_is_meta r1 = rq_is_meta r2"
  obtain d1 w1 where 1: "bfq_rq_dist bfqd (blk_rq_pos r1) = (d1, w1)" by (cases "bfq_rq_dist bfqd (blk_rq_pos r1)")
  obtain d2 w2 where 2: "bfq_rq_dist bfqd (blk_rq_pos r2) = (d2, w2)" by (cases "bfq_rq_dist bfqd (blk_rq_pos r2)")
  from f have s: "rq_is_sync r1 = rq_is_sync r2" and m: "rq_is_meta r1 = rq_is_meta r2" by simp_all
  show "bfq_choose_req bfqd (Some r1) (Some r2) =
       Some (let (d1, w1) = bfq_rq_dist bfqd (blk_rq_pos r1);
                 (d2, w2) = bfq_rq_dist bfqd (blk_rq_pos r2)
             in if \<not> w1 \<and> \<not> w2 then
                  (if d1 < d2 then r1 else if d2 < d1 then r2
                   else if blk_rq_pos r1 \<ge> blk_rq_pos r2 then r1 else r2)
                else if \<not> w1 then r1 else if \<not> w2 then r2
                else if blk_rq_pos r1 \<le> blk_rq_pos r2 then r1 else r2)"
    using bfq_choose_req_table [OF assms(1) s m 1 2] by (simp add: 1 2)
qed

text \<open>The witness of claim C4: a candidate exactly \<^verbatim>\<open>back_max\<close> = 32768 sectors behind the
  head ties with one 65536 sectors ahead, and the larger sector wins; a metadata
  request is chosen over a nearer plain one, and a sync request over a nearer async
  one.\<close>

theorem bfq_choose_req_proximity_witness:
  "snd (bfq_rq_dist (ex_bfqd\<lparr>last_position := 100000\<rparr>) 67232) = False
   \<and> unat (fst (bfq_rq_dist (ex_bfqd\<lparr>last_position := 100000\<rparr>) 67232)) = 65536
   \<and> snd (bfq_rq_dist (ex_bfqd\<lparr>last_position := 100000\<rparr>) 67231) = True
   \<and> bfq_choose_req (ex_bfqd\<lparr>last_position := 100000\<rparr>)
        (Some (ex_rq 1 67232 8 True 0)) (Some (ex_rq 2 165536 8 True 0))
       = Some (ex_rq 2 165536 8 True 0)
   \<and> bfq_choose_req (ex_bfqd\<lparr>last_position := 100000\<rparr>)
        (Some (ex_rq 1 100010 8 True 0)) (Some ((ex_rq 2 165536 8 True 0)\<lparr>rq_is_meta := True\<rparr>))
       = Some ((ex_rq 2 165536 8 True 0)\<lparr>rq_is_meta := True\<rparr>)
   \<and> bfq_choose_req (ex_bfqd\<lparr>last_position := 100000\<rparr>)
        (Some (ex_rq 1 165536 8 True 0)) (Some (ex_rq 2 100010 8 False 0))
       = Some (ex_rq 1 165536 8 True 0)"
  using bfq_choose_req_proximity [of "ex_rq 1 67232 8 True 0" "ex_rq 2 165536 8 True 0"
      "ex_bfqd\<lparr>last_position := 100000\<rparr>" 67232 67231]
    bfq_choose_req_proximity [of "ex_rq 1 100010 8 True 0"
      "(ex_rq 2 165536 8 True 0)\<lparr>rq_is_meta := True\<rparr>"
      "ex_bfqd\<lparr>last_position := 100000\<rparr>" 67232 67231]
    bfq_choose_req_proximity [of "ex_rq 1 165536 8 True 0" "ex_rq 2 100010 8 False 0"
      "ex_bfqd\<lparr>last_position := 100000\<rparr>" 67232 67231]
  by (simp add: ex_rq_def ex_simps bfq_rq_dist_def bfq_back_max_sectors_def)

text \<open>The proximity rule does not hold for every pair of distinct requests. Of two
  sync requests of one queue, neither of them wrapped, the metadata request 1000
  sectors ahead of the head is chosen over the plain request 10 sectors ahead;
  \<^verbatim>\<open>bfq_find_next_rq\<close> makes this choice for the queue that holds them around the
  request it is given.\<close>

theorem bfq_choose_req_meta_counterexample:
  "(ex_rq 1 1000 8 True 0)\<lparr>rq_is_meta := True\<rparr> \<noteq> ex_rq 2 10 8 True 0
   \<and> RQ_BFQQ ((ex_rq 1 1000 8 True 0)\<lparr>rq_is_meta := True\<rparr>) = RQ_BFQQ (ex_rq 2 10 8 True 0)
   \<and> bfq_rq_dist ex_bfqd (blk_rq_pos ((ex_rq 1 1000 8 True 0)\<lparr>rq_is_meta := True\<rparr>)) = (1000, False)
   \<and> bfq_rq_dist ex_bfqd (blk_rq_pos (ex_rq 2 10 8 True 0)) = (10, False)
   \<and> bfq_choose_req ex_bfqd (Some ((ex_rq 1 1000 8 True 0)\<lparr>rq_is_meta := True\<rparr>))
        (Some (ex_rq 2 10 8 True 0))
       = Some ((ex_rq 1 1000 8 True 0)\<lparr>rq_is_meta := True\<rparr>)
   \<and> bfq_find_next_rq ex_bfqd
        ((ex_queue True True [ex_rq 2 10 8 True 0, ex_rq 3 500 8 True 0,
                              (ex_rq 1 1000 8 True 0)\<lparr>rq_is_meta := True\<rparr>])
           \<lparr>meta_pending := 1\<rparr>)
        (ex_rq 3 500 8 True 0)
       = Some (Some ((ex_rq 1 1000 8 True 0)\<lparr>rq_is_meta := True\<rparr>))"
  by (simp add: ex_rq_def bfq_rq_dist_def ex_simps bfq_back_max_sectors_def
      bfq_find_next_rq_def ex_queue_def bfqq_zero_def rb_first_def Let_def)

subsection \<open>The dispatch limit of a round\<close>

text \<open>
  Claim C7, as the code has it. The limit \<^verbatim>\<open>max_dispatch\<close> of a selected queue is
  \<^verbatim>\<open>bfq_quantum\<close> (default 4) for a sync queue outside the IDLE class, 1 for a sync
  queue of the IDLE class, and \<^verbatim>\<open>bfq_max_budget_async_rq\<close> (default 4) for an async
  queue of any class: the test for an async queue comes last and overrides the
  test for the IDLE class.
\<close>

theorem bfq_max_dispatch_cases:
  "(sync bfqq \<and> \<not> bfq_class_idle bfqq \<longrightarrow> bfq_max_dispatch bfqd bfqq = bfq_quantum bfqd)
   \<and> (sync bfqq \<and> bfq_class_idle bfqq \<longrightarrow> bfq_max_dispatch bfqd bfqq = 1)
   \<and> (\<not> sync bfqq \<longrightarrow> bfq_max_dispatch bfqd bfqq = bfq_max_budget_async_rq bfqd)
   \<and> bfq_quantum (bfq_init_queue E s0) = 4
   \<and> bfq_max_budget_async_rq (bfq_init_queue E s0) = 4"
  by (simp add: bfq_max_dispatch_def bfq_init_queue_def bfq_quantum_dflt_def
      bfq_max_budget_async_rq_dflt_def)

text \<open>The witness of claim C7, with the default tunables.\<close>

theorem bfq_max_dispatch_cases_witness:
  "bfq_max_dispatch ex_bfqd (ex_queue True True []) = 4
   \<and> bfq_max_dispatch ex_bfqd
        ((ex_queue True False [])\<lparr>entity := \<lparr>budget = 0, service = 0, ioprio_class = IOPRIO_CLASS_IDLE\<rparr>\<rparr>) = 1
   \<and> bfq_max_dispatch ex_bfqd (ex_queue False False []) = 4"
  using bfq_max_dispatch_cases [of "ex_queue True True []" ex_bfqd fifo_env "[]"]
    bfq_max_dispatch_cases [of "(ex_queue True False [])\<lparr>entity := \<lparr>budget = 0, service = 0, ioprio_class = IOPRIO_CLASS_IDLE\<rparr>\<rparr>" ex_bfqd fifo_env "[]"]
    bfq_max_dispatch_cases [of "ex_queue False False []" ex_bfqd fifo_env "[]"]
  by (simp add: ex_queue_def bfqq_zero_def bfq_class_idle_def ex_bfqd_def)

text \<open>An async queue of the IDLE class (the code keeps one, \<^verbatim>\<open>async_idle_bfqq\<close>) gets
  \<^verbatim>\<open>bfq_max_budget_async_rq\<close> = 4, not 1.\<close>

theorem bfq_max_dispatch_async_idle_counterexample:
  "bfq_class_idle ((ex_queue False False [])\<lparr>entity := \<lparr>budget = 0, service = 0, ioprio_class = IOPRIO_CLASS_IDLE\<rparr>\<rparr>)
   \<and> bfq_max_dispatch ex_bfqd
        ((ex_queue False False [])\<lparr>entity := \<lparr>budget = 0, service = 0, ioprio_class = IOPRIO_CLASS_IDLE\<rparr>\<rparr>) = 4"
  by (simp add: ex_queue_def bfqq_zero_def bfq_class_idle_def ex_bfqd_def bfq_max_dispatch_def
      bfq_init_queue_def bfq_max_budget_async_rq_dflt_def)

subsection \<open>Budget feedback (\<^verbatim>\<open>__bfq_bfqq_recalc_budget\<close>)\<close>

lemma too_idle_uint:
  "uint (if b > m div 2 + 128 then b - 128 else m div 2 :: 64 word) = max (uint b - 128) (uint m div 2)"
proof -
  have d: "uint (m div 2) = uint m div 2" by (simp add: uint_div)
  have lt: "uint m div 2 + 128 < 2 ^ 64" using uint_lt2p [of m] by simp
  have s: "uint (m div 2 + 128) = uint m div 2 + 128"
    using lt d by (simp add: uint_add_lem [THEN iffD1])
  show ?thesis
  proof (cases "b > m div 2 + 128")
    case True
    then have c: "uint b > uint m div 2 + 128" using s by (simp add: word_less_def)
    moreover have "0 \<le> uint m div 2" by (simp add: pos_imp_zdiv_nonneg_iff)
    ultimately have "128 \<le> uint b" by linarith
    then have "uint (128 :: 64 word) \<le> uint b" by simp
    then have "uint (b - 128) = uint b - 128"
      by (simp add: uint_sub_lem [THEN iffD1])
    with True c show ?thesis by simp
  next
    case False
    then have c: "\<not> uint b > uint m div 2 + 128" using s by (simp add: word_less_def)
    with False d show ?thesis by simp
  qed
qed

lemma exhausted_uint:
  "uint b + 1024 < 2 ^ 64 \<Longrightarrow> uint (min (b + 1024) m :: 64 word) = min (uint b + 1024) (uint m)"
proof -
  assume a: "uint b + 1024 < 2 ^ 64"
  have "uint (b + 1024) = uint b + 1024"
    using a by (simp add: uint_add_lem [THEN iffD1])
  then show ?thesis by (simp add: min_def word_le_def)
qed

lemma recalc_max_budget:
  assumes "active_queue bfqd = Some q"
  shows "uu_bfq_bfqq_recalc_budget bfqd q reason = Some bfqd' \<Longrightarrow>
     max_budget (bfqqs bfqd' q) =
       (case bfq_feedback_budget bfqd (bfqqs bfqd q) reason of
          None \<Rightarrow> max_budget (bfqqs bfqd q)
        | Some b \<Rightarrow> if budgets_assigned (bfqqs bfqd q) \<ge> 194 \<and> bfq_user_max_budget bfqd = 0
                        \<and> b > bfq_max_budget bfqd then bfq_max_budget bfqd else b)"
  using assms
  by (auto simp: uu_bfq_bfqq_recalc_budget_def Let_def upd_bfqq_def split: option.splits if_splits)

lemma clamp_uint:
  "uint (if budgets_assigned bfqq \<ge> 194 \<and> bfq_user_max_budget bfqd = 0
            \<and> b > bfq_max_budget bfqd then bfq_max_budget bfqd else b)
   = spec_clamp_budget bfqd bfqq (uint b)"
  by (auto simp: spec_clamp_budget_def word_less_def min_def)

lemma feedback_cases:
  "sync bfqq \<Longrightarrow> bfq_feedback_budget bfqd bfqq BFQ_BFQQ_TOO_IDLE =
     Some (if max_budget bfqq > bfq_max_budget bfqd div 2 + 128
           then max_budget bfqq - 128 else bfq_max_budget bfqd div 2)"
  "sync bfqq \<Longrightarrow> bfq_feedback_budget bfqd bfqq BFQ_BFQQ_BUDGET_EXHAUSTED =
     Some (min (max_budget bfqq + 1024) (bfq_max_budget bfqd))"
  "sync bfqq \<Longrightarrow> bfq_feedback_budget bfqd bfqq BFQ_BFQQ_NO_MORE_REQUESTS = None"
  "\<not> sync bfqq \<Longrightarrow> bfq_feedback_budget bfqd bfqq reason = Some (bfq_max_budget bfqd)"
  by (simp_all add: bfq_feedback_budget_def bfq_min_budget_def BFQ_BUDGET_STEP_def Let_def)

lemma uu_recalc_Some:
  "active_queue d = Some q \<Longrightarrow> \<exists>d'. uu_bfq_bfqq_recalc_budget d q r = Some d'"
  by (simp add: uu_bfq_bfqq_recalc_budget_def Let_def split: option.splits)

text \<open>
  Claim C3. On expiration of the active queue \<open>q\<close>, \<^verbatim>\<open>__bfq_bfqq_recalc_budget\<close> returns,
  and the new \<^verbatim>\<open>max_budget\<close> of \<open>q\<close> is, read as integers: for a sync queue and
  TOO_IDLE, \<open>max (max_budget - 128) (global_max div 2)\<close>, then clamped; for a sync queue
  and BUDGET_EXHAUSTED, \<open>min (max_budget + 8 \<cdot> 128) global_max\<close>, then clamped (where the
  sum does not wrap around the 64 bits of \<^verbatim>\<open>unsigned long\<close>); for a sync queue and
  NO_MORE_REQUESTS it is unchanged; for an async queue it is \<open>global_max\<close>. Clamping
  is to \<open>global_max\<close>, when \<^verbatim>\<open>budgets_assigned\<close> is at least 194 and the user has not
  pinned a maximum.
\<close>

theorem recalc_budget_feedback:
  assumes "active_queue bfqd = Some q"
  shows "\<exists>bfqd'. uu_bfq_bfqq_recalc_budget bfqd q reason = Some bfqd'
     \<and> (sync (bfqqs bfqd q) \<and> reason = BFQ_BFQQ_TOO_IDLE \<longrightarrow>
          uint (max_budget (bfqqs bfqd' q)) =
            spec_clamp_budget bfqd (bfqqs bfqd q)
              (max (uint (max_budget (bfqqs bfqd q)) - 128) (uint (bfq_max_budget bfqd) div 2)))
     \<and> (sync (bfqqs bfqd q) \<and> reason = BFQ_BFQQ_BUDGET_EXHAUSTED
          \<and> uint (max_budget (bfqqs bfqd q)) + 8 * 128 < 2 ^ 64 \<longrightarrow>
          uint (max_budget (bfqqs bfqd' q)) =
            spec_clamp_budget bfqd (bfqqs bfqd q)
              (min (uint (max_budget (bfqqs bfqd q)) + 8 * 128) (uint (bfq_max_budget bfqd))))
     \<and> (sync (bfqqs bfqd q) \<and> reason = BFQ_BFQQ_NO_MORE_REQUESTS \<longrightarrow>
          max_budget (bfqqs bfqd' q) = max_budget (bfqqs bfqd q))
     \<and> (\<not> sync (bfqqs bfqd q) \<longrightarrow>
          max_budget (bfqqs bfqd' q) = bfq_max_budget bfqd)"
proof -
  obtain bfqd' where r: "uu_bfq_bfqq_recalc_budget bfqd q reason = Some bfqd'"
    using uu_recalc_Some [OF assms] by blast
  note mb = recalc_max_budget [OF assms r]
  have 1: "sync (bfqqs bfqd q) \<and> reason = BFQ_BFQQ_TOO_IDLE \<longrightarrow>
          uint (max_budget (bfqqs bfqd' q)) =
            spec_clamp_budget bfqd (bfqqs bfqd q)
              (max (uint (max_budget (bfqqs bfqd q)) - 128) (uint (bfq_max_budget bfqd) div 2))"
  proof
    assume a: "sync (bfqqs bfqd q) \<and> reason = BFQ_BFQQ_TOO_IDLE"
    show "uint (max_budget (bfqqs bfqd' q)) =
            spec_clamp_budget bfqd (bfqqs bfqd q)
              (max (uint (max_budget (bfqqs bfqd q)) - 128) (uint (bfq_max_budget bfqd) div 2))"
      unfolding mb using a
      by (simp only: feedback_cases option.case clamp_uint too_idle_uint)
  qed
  have 2: "sync (bfqqs bfqd q) \<and> reason = BFQ_BFQQ_BUDGET_EXHAUSTED
          \<and> uint (max_budget (bfqqs bfqd q)) + 8 * 128 < 2 ^ 64 \<longrightarrow>
          uint (max_budget (bfqqs bfqd' q)) =
            spec_clamp_budget bfqd (bfqqs bfqd q)
              (min (uint (max_budget (bfqqs bfqd q)) + 8 * 128) (uint (bfq_max_budget bfqd)))"
  proof
    assume a: "sync (bfqqs bfqd q) \<and> reason = BFQ_BFQQ_BUDGET_EXHAUSTED
          \<and> uint (max_budget (bfqqs bfqd q)) + 8 * 128 < 2 ^ 64"
    then have e: "uint (min (max_budget (bfqqs bfqd q) + 1024) (bfq_max_budget bfqd))
        = min (uint (max_budget (bfqqs bfqd q)) + 8 * 128) (uint (bfq_max_budget bfqd))"
      using exhausted_uint [of "max_budget (bfqqs bfqd q)" "bfq_max_budget bfqd"] by simp
    show "uint (max_budget (bfqqs bfqd' q)) =
            spec_clamp_budget bfqd (bfqqs bfqd q)
              (min (uint (max_budget (bfqqs bfqd q)) + 8 * 128) (uint (bfq_max_budget bfqd)))"
      unfolding mb using a
      by (simp only: feedback_cases option.case clamp_uint e)
  qed
  have 3: "sync (bfqqs bfqd q) \<and> reason = BFQ_BFQQ_NO_MORE_REQUESTS \<longrightarrow>
          max_budget (bfqqs bfqd' q) = max_budget (bfqqs bfqd q)"
    using mb by (simp add: feedback_cases)
  have 4: "\<not> sync (bfqqs bfqd q) \<longrightarrow> max_budget (bfqqs bfqd' q) = bfq_max_budget bfqd"
    using mb by (simp add: feedback_cases)
  from r 1 2 3 4 show ?thesis by blast
qed

text \<open>The witness of claim C3.\<close>

theorem recalc_budget_feedback_witness:
  "map_option (\<lambda>d. uint (max_budget (bfqqs d 0)))
     (uu_bfq_bfqq_recalc_budget (ex_active (ex_queue True True [])) 0 BFQ_BFQQ_TOO_IDLE) = Some 12160
   \<and> map_option (\<lambda>d. uint (max_budget (bfqqs d 0)))
     (uu_bfq_bfqq_recalc_budget (ex_active (ex_queue True True [])) 0 BFQ_BFQQ_BUDGET_EXHAUSTED) = Some 13312
   \<and> map_option (\<lambda>d. uint (max_budget (bfqqs d 0)))
     (uu_bfq_bfqq_recalc_budget (ex_active (ex_queue True True [])) 0 BFQ_BFQQ_NO_MORE_REQUESTS) = Some 12288
   \<and> map_option (\<lambda>d. uint (max_budget (bfqqs d 0)))
     (uu_bfq_bfqq_recalc_budget (ex_active (ex_queue False False [])) 0 BFQ_BFQQ_TOO_IDLE) = Some 16384"
  using recalc_budget_feedback [of "ex_active (ex_queue True True [])" 0 BFQ_BFQQ_TOO_IDLE]
    recalc_budget_feedback [of "ex_active (ex_queue True True [])" 0 BFQ_BFQQ_BUDGET_EXHAUSTED]
    recalc_budget_feedback [of "ex_active (ex_queue True True [])" 0 BFQ_BFQQ_NO_MORE_REQUESTS]
    recalc_budget_feedback [of "ex_active (ex_queue False False [])" 0 BFQ_BFQQ_TOO_IDLE]
  by (simp add: ex_state_defs bfq_model_defs ex_defs)

subsection \<open>What an expiration changes\<close>

lemma bfq_update_peak_rate_frame:
  "bfqqs (snd (bfq_update_peak_rate E d q c)) = bfqqs d"
  "trace (snd (bfq_update_peak_rate E d q c)) = trace d"
  "active_queue (snd (bfq_update_peak_rate E d q c)) = active_queue d"
  "active_cic (snd (bfq_update_peak_rate E d q c)) = active_cic d"
  "dispatch_list (snd (bfq_update_peak_rate E d q c)) = dispatch_list d"
  "queued (snd (bfq_update_peak_rate E d q c)) = queued d"
  "unplug_work (snd (bfq_update_peak_rate E d q c)) = unplug_work d"
  "idle_slice_timer (snd (bfq_update_peak_rate E d q c)) = idle_slice_timer d"
  "bfq_user_max_budget (snd (bfq_update_peak_rate E d q c)) = bfq_user_max_budget d"
  by (simp_all add: bfq_update_peak_rate_def Let_def)

lemma bfq_update_peak_rate_budget_new:
  "budget_new (bfqqs d q) \<Longrightarrow> bfq_update_peak_rate E d q c = (False, d)"
  by (simp add: bfq_update_peak_rate_def)

lemma bfq_update_peak_rate_async:
  "\<not> sync (bfqqs d q) \<Longrightarrow> bfq_update_peak_rate E d q c = (False, d)"
  by (simp add: bfq_update_peak_rate_def)

lemma uu_recalc_frame:
  assumes "uu_bfq_bfqq_recalc_budget d q r = Some d'"
  shows "trace d' = trace d" "active_queue d' = active_queue d" "active_cic d' = active_cic d"
    "dispatch_list d' = dispatch_list d" "queued d' = queued d" "unplug_work d' = unplug_work d"
    "idle_slice_timer d' = idle_slice_timer d" "sched d' = sched d"
    "busy_queues d' = busy_queues d"
    "sort_list (bfqqs d' p) = sort_list (bfqqs d p)"
    "fifo (bfqqs d' p) = fifo (bfqqs d p)"
    "next_rq (bfqqs d' p) = next_rq (bfqqs d p)"
    "fifo_expire (bfqqs d' p) = fifo_expire (bfqqs d p)"
    "budget_new (bfqqs d' p) = budget_new (bfqqs d p)"
    "sync (bfqqs d' p) = sync (bfqqs d p)"
    "service (entity (bfqqs d' p)) = service (entity (bfqqs d p))"
    "budget_timeout (bfqqs d' p) = budget_timeout (bfqqs d p)"
  using assms
  by (auto simp: uu_bfq_bfqq_recalc_budget_def Let_def upd_bfqq_def split: option.splits if_splits)

lemma uu_expire_Some:
  "active_queue d = Some q \<Longrightarrow> \<exists>d'. uu_bfq_bfqq_expire E d q = Some d'"
  by (simp add: uu_bfq_bfqq_expire_def Let_def)

lemma uu_expire_frame:
  assumes "uu_bfq_bfqq_expire E d q = Some d'"
  shows "trace d' = trace d" "active_queue d' = None" "active_cic d' = None"
    "dispatch_list d' = dispatch_list d" "queued d' = queued d" "unplug_work d' = unplug_work d"
    "idle_slice_timer d' = None"
    "sort_list (bfqqs d' p) = sort_list (bfqqs d p)"
    "fifo (bfqqs d' p) = fifo (bfqqs d p)"
    "next_rq (bfqqs d' p) = next_rq (bfqqs d p)"
    "fifo_expire (bfqqs d' p) = fifo_expire (bfqqs d p)"
    "budget_new (bfqqs d' p) = budget_new (bfqqs d p)"
    "sync (bfqqs d' p) = sync (bfqqs d p)"
    "max_budget (bfqqs d' p) = max_budget (bfqqs d p)"
    "entity (bfqqs d' p) = entity (bfqqs d p)"
    "budget_timeout (bfqqs d' p) = budget_timeout (bfqqs d p)"
  using assms
  by (auto simp: uu_bfq_bfqq_expire_def Let_def upd_bfqq_def uu_bfq_bfqd_reset_active_def
      bfq_del_bfqq_busy_def bfq_activate_bfqq_def split: if_splits)

lemma bfq_bfqq_expire_Some:
  assumes "active_queue d = Some q"
  shows "\<exists>d'. bfq_bfqq_expire E d q c r = Some d'"
proof -
  obtain s d1 where u: "bfq_update_peak_rate E d q c = (s, d1)" by (cases "bfq_update_peak_rate E d q c")
  have a1: "active_queue d1 = Some q"
    using bfq_update_peak_rate_frame(3) [of E d q c] u assms by simp
  let ?d3 = "(if expire_reason s r = BFQ_BFQQ_BUDGET_TIMEOUT \<or> \<not> sync (bfqqs d1 q)
                   then upd_bfqq q bfq_bfqq_charge_full_budget d1 else d1)
             \<lparr>trace := trace (if expire_reason s r = BFQ_BFQQ_BUDGET_TIMEOUT \<or> \<not> sync (bfqqs d1 q)
                   then upd_bfqq q bfq_bfqq_charge_full_budget d1 else d1) @ [Expire q (expire_reason s r) s]\<rparr>"
  have a3: "active_queue ?d3 = Some q" using a1 by (simp add: upd_bfqq_def)
  obtain d4 where r: "uu_bfq_bfqq_recalc_budget ?d3 q (expire_reason s r) = Some d4"
    using uu_recalc_Some [OF a3] by blast
  have "active_queue d4 = Some q" using uu_recalc_frame(2) [OF r] a3 by simp
  then obtain d5 where "uu_bfq_bfqq_expire E d4 q = Some d5" using uu_expire_Some by blast
  then show ?thesis
    using u r by (simp add: bfq_bfqq_expire_def Let_def expire_reason_def)
qed

lemma bfq_bfqq_expire_frame:
  assumes "bfq_bfqq_expire E d q c r = Some d'"
  shows "trace d' = trace d @ [Expire q (expire_reason (fst (bfq_update_peak_rate E d q c)) r)
                                 (fst (bfq_update_peak_rate E d q c))]"
    "active_queue d' = None" "active_cic d' = None"
    "dispatch_list d' = dispatch_list d" "queued d' = queued d" "unplug_work d' = unplug_work d"
    "idle_slice_timer d' = None"
    "sort_list (bfqqs d' p) = sort_list (bfqqs d p)"
    "fifo (bfqqs d' p) = fifo (bfqqs d p)"
    "next_rq (bfqqs d' p) = next_rq (bfqqs d p)"
    "fifo_expire (bfqqs d' p) = fifo_expire (bfqqs d p)"
    "budget_new (bfqqs d' p) = budget_new (bfqqs d p)"
    "sync (bfqqs d' p) = sync (bfqqs d p)"
    "budget_timeout (bfqqs d' p) = budget_timeout (bfqqs d p)"
proof -
  obtain s d1 where u: "bfq_update_peak_rate E d q c = (s, d1)" by (cases "bfq_update_peak_rate E d q c")
  have f1: "bfqqs d1 = bfqqs d" "trace d1 = trace d" "dispatch_list d1 = dispatch_list d"
     "queued d1 = queued d" "unplug_work d1 = unplug_work d"
    using bfq_update_peak_rate_frame [of E d q c] u by simp_all
  let ?d2 = "(if expire_reason s r = BFQ_BFQQ_BUDGET_TIMEOUT \<or> \<not> sync (bfqqs d1 q)
                   then upd_bfqq q bfq_bfqq_charge_full_budget d1 else d1)"
  let ?d3 = "?d2\<lparr>trace := trace ?d2 @ [Expire q (expire_reason s r) s]\<rparr>"
  from assms u obtain d4 where r: "uu_bfq_bfqq_recalc_budget ?d3 q (expire_reason s r) = Some d4"
    and e: "uu_bfq_bfqq_expire E d4 q = Some d'"
    by (auto simp: bfq_bfqq_expire_def Let_def expire_reason_def split: Option.bind_splits)
  note R = uu_recalc_frame [OF r] and X = uu_expire_frame [OF e]
  show "trace d' = trace d @ [Expire q (expire_reason (fst (bfq_update_peak_rate E d q c)) r)
                                 (fst (bfq_update_peak_rate E d q c))]"
    using X(1) R(1) f1 u by (simp add: upd_bfqq_def)
  show "active_queue d' = None" "active_cic d' = None" "idle_slice_timer d' = None"
    using X by simp_all
  show "dispatch_list d' = dispatch_list d" "queued d' = queued d" "unplug_work d' = unplug_work d"
    using X(4-6) R(4-6) f1 by (simp_all add: upd_bfqq_def)
  show "sort_list (bfqqs d' p) = sort_list (bfqqs d p)"
    "fifo (bfqqs d' p) = fifo (bfqqs d p)"
    "next_rq (bfqqs d' p) = next_rq (bfqqs d p)"
    "fifo_expire (bfqqs d' p) = fifo_expire (bfqqs d p)"
    "budget_new (bfqqs d' p) = budget_new (bfqqs d p)"
    "sync (bfqqs d' p) = sync (bfqqs d p)"
    using X(8-13) [of p] R(10-15) [of p] f1
    by (simp_all add: upd_bfqq_def bfq_bfqq_charge_full_budget_def)
  show "budget_timeout (bfqqs d' p) = budget_timeout (bfqqs d p)"
    using X(16) [of p] R(17) [of p] f1
    by (simp add: upd_bfqq_def bfq_bfqq_charge_full_budget_def)
qed

lemma bfq_bfqq_expire_service:
  assumes "bfq_bfqq_expire E d q c r = Some d'"
  shows "service (entity (bfqqs d' q)) =
     (if expire_reason (fst (bfq_update_peak_rate E d q c)) r = BFQ_BFQQ_BUDGET_TIMEOUT
         \<or> \<not> sync (bfqqs d q)
      then budget (entity (bfqqs d q)) else service (entity (bfqqs d q)))"
proof -
  obtain s d1 where u: "bfq_update_peak_rate E d q c = (s, d1)" by (cases "bfq_update_peak_rate E d q c")
  have f1: "bfqqs d1 = bfqqs d"
    using bfq_update_peak_rate_frame(1) [of E d q c] u by simp
  let ?d2 = "(if expire_reason s r = BFQ_BFQQ_BUDGET_TIMEOUT \<or> \<not> sync (bfqqs d1 q)
                   then upd_bfqq q bfq_bfqq_charge_full_budget d1 else d1)"
  let ?d3 = "?d2\<lparr>trace := trace ?d2 @ [Expire q (expire_reason s r) s]\<rparr>"
  from assms u obtain d4 where r: "uu_bfq_bfqq_recalc_budget ?d3 q (expire_reason s r) = Some d4"
    and e: "uu_bfq_bfqq_expire E d4 q = Some d'"
    by (auto simp: bfq_bfqq_expire_def Let_def expire_reason_def split: Option.bind_splits)
  have "service (entity (bfqqs d' q)) = service (entity (bfqqs ?d3 q))"
    using uu_expire_frame(15) [OF e, of q] uu_recalc_frame(16) [OF r, of q] by simp
  then show ?thesis
    using f1 u by (simp add: upd_bfqq_def bfq_bfqq_charge_full_budget_def)
qed

subsection \<open>Slow queues\<close>

lemma bfq_update_peak_rate_short:
  assumes "ktime_to_us ((if c then last_idling_start d else ktime d) - last_budget_start d) < 100"
  shows "\<not> fst (bfq_update_peak_rate E d q c)"
  using assms by (simp add: bfq_update_peak_rate_def Let_def)

text \<open>
  Claim C1, as the code has it by design. Let the sync queue \<open>q\<close> be active with
  at least one request of the slice completed (\<^verbatim>\<open>budget_new\<close> clear), and expire with
  reason TOO_IDLE. The expiration returns. If the time measured for the slice (from
  the first completion to now, or to the start of idling when compensating) is
  below 100 us, the queue is not classified slow. If \<^verbatim>\<open>bfq_update_peak_rate\<close>
  classifies the queue as slow, the reason becomes BUDGET_TIMEOUT and the queue is
  charged its full budget (\<open>service\<close> is the budget of the slice). Which bandwidths
  count as slow is left out: see \<open>bfq_update_peak_rate_comparison_examples\<close>.
\<close>

theorem bfq_bfqq_expire_slow_too_idle:
  assumes "active_queue bfqd = Some q"
    and "sync (bfqqs bfqd q)" and "\<not> budget_new (bfqqs bfqd q)"
  shows "\<exists>bfqd'. bfq_bfqq_expire E bfqd q compensate BFQ_BFQQ_TOO_IDLE = Some bfqd'
     \<and> (ktime_to_us ((if compensate then last_idling_start bfqd else ktime bfqd)
                        - last_budget_start bfqd) < 100
          \<longrightarrow> \<not> fst (bfq_update_peak_rate E bfqd q compensate))
     \<and> (fst (bfq_update_peak_rate E bfqd q compensate)
          \<longrightarrow> trace bfqd' = trace bfqd @ [Expire q BFQ_BFQQ_BUDGET_TIMEOUT True]
              \<and> service (entity (bfqqs bfqd' q)) = budget (entity (bfqqs bfqd q)))"
proof -
  obtain d' where e: "bfq_bfqq_expire E bfqd q compensate BFQ_BFQQ_TOO_IDLE = Some d'"
    using bfq_bfqq_expire_Some [OF assms(1)] by blast
  note X = bfq_bfqq_expire_frame(1) [OF e] and S = bfq_bfqq_expire_service [OF e]
  have 1: "ktime_to_us ((if compensate then last_idling_start bfqd else ktime bfqd)
                        - last_budget_start bfqd) < 100
          \<longrightarrow> \<not> fst (bfq_update_peak_rate E bfqd q compensate)"
    using bfq_update_peak_rate_short by blast
  have 2: "fst (bfq_update_peak_rate E bfqd q compensate)
          \<longrightarrow> trace d' = trace bfqd @ [Expire q BFQ_BFQQ_BUDGET_TIMEOUT True]
              \<and> service (entity (bfqqs d' q)) = budget (entity (bfqqs bfqd q))"
    using X S by (simp add: expire_reason_def)
  from e 1 2 show ?thesis by blast
qed

text \<open>The witness of claim C1, on \<open>ex_fast\<close>, which the code classifies as slow.\<close>

theorem bfq_bfqq_expire_slow_too_idle_witness:
  "map_option trace (bfq_bfqq_expire fifo_env ex_fast 0 True BFQ_BFQQ_TOO_IDLE)
     = Some [Expire 0 BFQ_BFQQ_BUDGET_TIMEOUT True]
   \<and> map_option (\<lambda>d. service (entity (bfqqs d 0)))
        (bfq_bfqq_expire fifo_env ex_fast 0 True BFQ_BFQQ_TOO_IDLE) = Some 12288"
  using bfq_bfqq_expire_slow_too_idle [of ex_fast 0 fifo_env True]
  by (simp add: ex_state_defs bfq_model_defs ex_defs)

text \<open>The classification does not follow the extrapolated bandwidth alone: in
  \<open>ex_short\<close> the sectors expected within the sync timeout are fewer than the budget,
  and the queue, expiring with TOO_IDLE, keeps that reason and is not charged its
  budget, because its slice was measured as shorter than 100 us.\<close>

theorem bfq_slow_short_slice_counterexample:
  "sync (bfqqs ex_short 0) \<and> \<not> budget_new (bfqqs ex_short 0)
   \<and> spec_slice_expected fifo_env ex_short 0 True \<le> budget (entity (bfqqs ex_short 0))
   \<and> map_option trace (bfq_bfqq_expire fifo_env ex_short 0 True BFQ_BFQQ_TOO_IDLE)
       = Some [Expire 0 BFQ_BFQQ_TOO_IDLE False]
   \<and> map_option (\<lambda>d. service (entity (bfqqs d 0)))
        (bfq_bfqq_expire fifo_env ex_short 0 True BFQ_BFQQ_TOO_IDLE) = Some 8"
  by (simp add: spec_slice_expected_def ex_state_defs bfq_model_defs ex_defs)

text \<open>The comparison that \<^verbatim>\<open>bfq_update_peak_rate\<close> returns is \<^verbatim>\<open>expected > budget\<close>. The
  comment above it calls a queue slow when its rate "would not be high enough to
  complete the budget before the budget timeout expiration". On slices long enough
  to be measured the flag is the opposite of the comment: \<open>ex_seeky\<close> (9 sectors
  expected, budget 12288) is not flagged, \<open>ex_fast\<close> (29998 expected) is.\<close>

lemma bfq_update_peak_rate_comparison_examples:
  "spec_slice_expected fifo_env ex_seeky 0 True = 9
   \<and> budget (entity (bfqqs ex_seeky 0)) = 12288
   \<and> fst (bfq_update_peak_rate fifo_env ex_seeky 0 True) = False
   \<and> spec_slice_expected fifo_env ex_fast 0 True = 29998
   \<and> budget (entity (bfqqs ex_fast 0)) = 12288
   \<and> fst (bfq_update_peak_rate fifo_env ex_fast 0 True) = True"
  by (simp add: spec_slice_expected_def ex_state_defs bfq_model_defs ex_defs)

subsection \<open>What selection, completion and the timer change\<close>

lemma bfq_set_active_queue_frame:
  "trace (snd (bfq_set_active_queue E d)) = trace d"
  "dispatch_list (snd (bfq_set_active_queue E d)) = dispatch_list d"
  "queued (snd (bfq_set_active_queue E d)) = queued d"
  "unplug_work (snd (bfq_set_active_queue E d)) = unplug_work d"
  "idle_slice_timer (snd (bfq_set_active_queue E d)) = idle_slice_timer d"
  "active_queue (snd (bfq_set_active_queue E d)) = fst (bfq_set_active_queue E d)"
  by (auto simp: bfq_set_active_queue_def bfq_get_next_queue_def uu_bfq_set_active_queue_def
      upd_bfqq_def Let_def split: prod.splits option.splits)

lemma bfq_set_active_queue_requests:
  "sort_list (bfqqs (snd (bfq_set_active_queue E d)) p) = sort_list (bfqqs d p)"
  "fifo (bfqqs (snd (bfq_set_active_queue E d)) p) = fifo (bfqqs d p)"
  "next_rq (bfqqs (snd (bfq_set_active_queue E d)) p) = next_rq (bfqqs d p)"
  by (auto simp: bfq_set_active_queue_def bfq_get_next_queue_def uu_bfq_set_active_queue_def
      upd_bfqq_def Let_def split: prod.splits option.splits)

lemma bfq_schedule_dispatch_frame:
  "trace (bfq_schedule_dispatch d) = trace d"
  "bfqqs (bfq_schedule_dispatch d) = bfqqs d"
  "active_queue (bfq_schedule_dispatch d) = active_queue d"
  "idle_slice_timer (bfq_schedule_dispatch d) = idle_slice_timer d"
  "dispatch_list (bfq_schedule_dispatch d) = dispatch_list d"
  "queued (bfq_schedule_dispatch d) = queued d"
  "unplug_work (bfq_schedule_dispatch d) = unplug_work d + (if queued d \<noteq> 0 then 1 else 0)"
  by (simp_all add: bfq_schedule_dispatch_def)

lemma bfq_update_hw_tag_frame:
  "bfqqs (bfq_update_hw_tag d) = bfqqs d"
  "cics (bfq_update_hw_tag d) = cics d"
  "trace (bfq_update_hw_tag d) = trace d"
  "active_queue (bfq_update_hw_tag d) = active_queue d"
  "active_cic (bfq_update_hw_tag d) = active_cic d"
  "idle_slice_timer (bfq_update_hw_tag d) = idle_slice_timer d"
  "bfq_slice_idle (bfq_update_hw_tag d) = bfq_slice_idle d"
  "jiffies (bfq_update_hw_tag d) = jiffies d"
  "ktime (bfq_update_hw_tag d) = ktime d"
  "bfq_timeout (bfq_update_hw_tag d) = bfq_timeout d"
  "queued (bfq_update_hw_tag d) = queued d"
  "unplug_work (bfq_update_hw_tag d) = unplug_work d"
  "dispatch_list (bfq_update_hw_tag d) = dispatch_list d"
  "rq_in_driver (bfq_update_hw_tag d) = rq_in_driver d"
  by (simp_all add: bfq_update_hw_tag_def Let_def)

lemma completed_acct_frame:
  "trace (completed_acct d rq) = trace d"
  "active_queue (completed_acct d rq) = active_queue d"
  "active_cic (completed_acct d rq) = active_cic d"
  "idle_slice_timer (completed_acct d rq) = idle_slice_timer d"
  "bfq_slice_idle (completed_acct d rq) = bfq_slice_idle d"
  "jiffies (completed_acct d rq) = jiffies d"
  "bfq_timeout (completed_acct d rq) = bfq_timeout d"
  "queued (completed_acct d rq) = queued d"
  "unplug_work (completed_acct d rq) = unplug_work d"
  "dispatch_list (completed_acct d rq) = dispatch_list d"
  "budget_new (bfqqs (completed_acct d rq) p) = budget_new (bfqqs d p)"
  "fifo_expire (bfqqs (completed_acct d rq) p) = fifo_expire (bfqqs d p)"
  "sync (bfqqs (completed_acct d rq) p) = sync (bfqqs d p)"
  "budget_timeout (bfqqs (completed_acct d rq) p) = budget_timeout (bfqqs d p)"
  "sort_list (bfqqs (completed_acct d rq) p) = sort_list (bfqqs d p)"
  by (simp_all add: completed_acct_def Let_def upd_bfqq_def bfq_update_hw_tag_frame)

lemma bfq_completed_request_alt:
  "bfq_completed_request E bfqd rq =
     (let q = RQ_BFQQ rq; bfqd5 = completed_acct bfqd rq in
      do {
        bfqd6 \<leftarrow>
          (if active_queue bfqd5 = Some q then
             do {
               bfqd7 \<leftarrow> (if budget_new (bfqqs bfqd5 q)
                         then bfq_set_budget_timeout bfqd5 else Some bfqd5);
               if bfq_bfqq_budget_timeout (jiffies bfqd7) (bfqqs bfqd7 q)
               then bfq_bfqq_expire E bfqd7 q False BFQ_BFQQ_BUDGET_TIMEOUT
               else if rq_is_sync rq \<and> rq_in_driver_sum bfqd7 = 0 \<and> sort_list (bfqqs bfqd7 q) = []
               then bfq_arm_slice_timer E bfqd7
               else Some bfqd7
             }
           else Some bfqd5);
        Some (if rq_in_driver_sum bfqd6 = 0 then bfq_schedule_dispatch bfqd6 else bfqd6)
      })"
  unfolding bfq_completed_request_def completed_acct_def Let_def ..

lemma bfq_set_budget_timeout_facts:
  assumes "active_queue d = Some q" and "bfq_set_budget_timeout d = Some d1"
  shows "\<not> budget_new (bfqqs d1 q)"
    "budget_timeout (bfqqs d1 q) = jiffies d + bfq_timeout d (sync (bfqqs d q))"
    "trace d1 = trace d" "active_queue d1 = Some q" "jiffies d1 = jiffies d"
    "idle_slice_timer d1 = idle_slice_timer d" "bfq_slice_idle d1 = bfq_slice_idle d"
  using assms by (auto simp: bfq_set_budget_timeout_def upd_bfqq_def)

lemma bfq_set_budget_timeout_frame:
  assumes "bfq_set_budget_timeout d = Some d1"
  shows "fifo_expire (bfqqs d1 p) = fifo_expire (bfqqs d p)"
    "idle_slice_timer d1 = idle_slice_timer d" "bfq_slice_idle d1 = bfq_slice_idle d"
  using assms by (auto simp: bfq_set_budget_timeout_def upd_bfqq_def split: option.splits if_splits)

lemma bfq_arm_slice_timer_frame:
  assumes "bfq_arm_slice_timer E d = Some d'"
  shows "trace d' = trace d" "budget_new (bfqqs d' p) = budget_new (bfqqs d p)"
    "budget_timeout (bfqqs d' p) = budget_timeout (bfqqs d p)"
    "fifo_expire (bfqqs d' p) = fifo_expire (bfqqs d p)"
  using assms
  by (auto simp: bfq_arm_slice_timer_def Let_def upd_bfqq_def split: option.splits if_splits)

lemma bfq_completed_request_cases:
  assumes s: "bfq_completed_request E d rq = Some d'"
  obtains d6 where "bfqqs d' = bfqqs d6" "idle_slice_timer d' = idle_slice_timer d6"
    and "d6 = completed_acct d rq
         \<or> (\<exists>d7. (d7 = completed_acct d rq \<or> bfq_set_budget_timeout (completed_acct d rq) = Some d7)
              \<and> (bfq_bfqq_expire E d7 (RQ_BFQQ rq) False BFQ_BFQQ_BUDGET_TIMEOUT = Some d6
                  \<or> bfq_arm_slice_timer E d7 = Some d6 \<or> d6 = d7))"
proof -
  from s obtain d6 where
    m: "(if active_queue (completed_acct d rq) = Some (RQ_BFQQ rq) then
             do {
               bfqd7 \<leftarrow> (if budget_new (bfqqs (completed_acct d rq) (RQ_BFQQ rq))
                         then bfq_set_budget_timeout (completed_acct d rq) else Some (completed_acct d rq));
               if bfq_bfqq_budget_timeout (jiffies bfqd7) (bfqqs bfqd7 (RQ_BFQQ rq))
               then bfq_bfqq_expire E bfqd7 (RQ_BFQQ rq) False BFQ_BFQQ_BUDGET_TIMEOUT
               else if rq_is_sync rq \<and> rq_in_driver_sum bfqd7 = 0 \<and> sort_list (bfqqs bfqd7 (RQ_BFQQ rq)) = []
               then bfq_arm_slice_timer E bfqd7
               else Some bfqd7
             }
           else Some (completed_acct d rq)) = Some d6"
    and d': "d' = (if rq_in_driver_sum d6 = 0 then bfq_schedule_dispatch d6 else d6)"
    by (auto simp: bfq_completed_request_alt Let_def split: Option.bind_splits)
  have 1: "bfqqs d' = bfqqs d6" "idle_slice_timer d' = idle_slice_timer d6"
    by (simp_all add: d' bfq_schedule_dispatch_frame)
  have 2: "d6 = completed_acct d rq
         \<or> (\<exists>d7. (d7 = completed_acct d rq \<or> bfq_set_budget_timeout (completed_acct d rq) = Some d7)
              \<and> (bfq_bfqq_expire E d7 (RQ_BFQQ rq) False BFQ_BFQQ_BUDGET_TIMEOUT = Some d6
                  \<or> bfq_arm_slice_timer E d7 = Some d6 \<or> d6 = d7))"
    using m by (auto split: if_splits Option.bind_splits)
  from 1 2 that show thesis by blast
qed

subsection \<open>Budget exhaustion in \<^verbatim>\<open>__bfq_dispatch_requests\<close>\<close>

lemma bfq_check_fifo_frame:
  "next_rq (snd (bfq_check_fifo j b)) = next_rq b"
  "entity (snd (bfq_check_fifo j b)) = entity b"
  "sort_list (snd (bfq_check_fifo j b)) = sort_list b"
  "fifo (snd (bfq_check_fifo j b)) = fifo b"
  "budget_new (snd (bfq_check_fifo j b)) = budget_new b"
  "sync (snd (bfq_check_fifo j b)) = sync b"
  by (simp_all add: bfq_check_fifo_def Let_def split: list.splits)

lemma bfq_dispatch_round_exhausted:
  assumes chosen: "bfq_chosen_rq (jiffies d) (bfqqs d q) = Some rq"
    and over: "ucast (blk_rq_sectors rq) > bfq_bfqq_budget_left (bfqqs d q)"
  shows "bfq_dispatch_round E q md d nr =
     Some (True, nr, upd_bfqq q (\<lambda>b. b\<lparr>next_rq := Some rq\<rparr>)
                       (upd_bfqq q (\<lambda>_. snd (bfq_check_fifo (jiffies d) (bfqqs d q))) d))"
proof -
  obtain fr b1 where c: "bfq_check_fifo (jiffies d) (bfqqs d q) = (fr, b1)"
    by (cases "bfq_check_fifo (jiffies d) (bfqqs d q)")
  have n: "next_rq b1 = next_rq (bfqqs d q)" and e: "entity b1 = entity (bfqqs d q)"
    using bfq_check_fifo_frame(1,2) [of "jiffies d" "bfqqs d q"] c by simp_all
  have ch: "(case fr of None \<Rightarrow> next_rq b1 | Some r \<Rightarrow> Some r) = Some rq"
    using chosen c n by (cases fr) (simp_all add: bfq_chosen_rq_def)
  have ov: "ucast (blk_rq_sectors rq) > bfq_bfqq_budget_left b1"
    using over e by (simp add: bfq_bfqq_budget_left_def)
  show ?thesis
    by (subst bfq_dispatch_round.simps) (simp add: c ch ov Let_def)
qed

text \<open>\<^verbatim>\<open>bfq_select_queue\<close> makes the same test on \<^verbatim>\<open>next_rq\<close> before any dispatch, once it
  has found that the budget has not timed out, with the same effect.\<close>

lemma bfq_select_queue_budget_exhausted:
  assumes a: "active_queue d = Some q"
    and nt: "\<not> bfq_bfqq_budget_timeout (jiffies d) (bfqqs d q)"
    and n: "next_rq (bfqqs d q) = Some nrq"
    and over: "ucast (blk_rq_sectors nrq) > bfq_bfqq_budget_left (bfqqs d q)"
  shows "\<exists>x d' slow. bfq_select_queue E d = Some (x, d')
      \<and> trace d' = trace d @ [Expire q BFQ_BFQQ_BUDGET_EXHAUSTED slow]
      \<and> dispatch_list d' = dispatch_list d
      \<and> next_rq (bfqqs d' q) = Some nrq
      \<and> sort_list (bfqqs d' q) = sort_list (bfqqs d q)
      \<and> fifo (bfqqs d' q) = fifo (bfqqs d q)"
proof -
  obtain d1 where e: "bfq_bfqq_expire E d q False BFQ_BFQQ_BUDGET_EXHAUSTED = Some d1"
    using bfq_bfqq_expire_Some [OF a] by blast
  note X = bfq_bfqq_expire_frame [OF e]
  let ?r = "bfq_set_active_queue E d1"
  have s: "bfq_select_queue E d = Some (fst ?r, snd ?r)"
    using a nt n over e by (simp add: bfq_select_queue_def bfq_select_expire_def)
  have "trace (snd ?r) = trace d @ [Expire q BFQ_BFQQ_BUDGET_EXHAUSTED
            (fst (bfq_update_peak_rate E d q False))]"
    using X(1) by (simp add: bfq_set_active_queue_frame expire_reason_def)
  moreover have "dispatch_list (snd ?r) = dispatch_list d"
    using X(4) by (simp add: bfq_set_active_queue_frame)
  moreover have "next_rq (bfqqs (snd ?r) q) = Some nrq"
    using X(10) [of q] n by (simp add: bfq_set_active_queue_requests)
  moreover have "sort_list (bfqqs (snd ?r) q) = sort_list (bfqqs d q)"
    using X(8) [of q] by (simp add: bfq_set_active_queue_requests)
  moreover have "fifo (bfqqs (snd ?r) q) = fifo (bfqqs d q)"
    using X(9) [of q] by (simp add: bfq_set_active_queue_requests)
  ultimately show ?thesis using s by blast
qed

text \<open>
  Claim C5. Let \<^verbatim>\<open>__bfq_dispatch_requests\<close> be called on the active queue \<open>q\<close> in state
  \<open>d0\<close>, and let its loop be at the head of an iteration in state \<open>bfqd\<close> with \<open>nr\<close>
  requests dispatched (for the first iteration \<open>bfqd = d0\<close> and \<open>nr = 0\<close>). If the
  request chosen there has more sectors than the budget left (\<^verbatim>\<open>budget - service\<close>),
  then the call returns \<open>nr\<close>, the queue has been expired with BUDGET_EXHAUSTED and is
  no longer active, the driver dispatch list is as it was, the request is the
  \<^verbatim>\<open>next_rq\<close> of the queue, and the sort tree and the FIFO of the queue are unchanged.
\<close>

theorem bfq_dispatch_budget_exhausted:
  assumes entry: "sort_list (bfqqs d0 q) \<noteq> []"
    and iter: "bfq_dispatch_round E q max_dispatch d0 0 = bfq_dispatch_round E q max_dispatch bfqd nr"
    and act: "active_queue bfqd = Some q"
    and chosen: "bfq_chosen_rq (jiffies bfqd) (bfqqs bfqd q) = Some rq"
    and over: "ucast (blk_rq_sectors rq) > bfq_bfqq_budget_left (bfqqs bfqd q)"
  shows "\<exists>bfqd' slow. uu_bfq_dispatch_requests E d0 q max_dispatch = Some (nr, bfqd')
      \<and> trace bfqd' = trace bfqd @ [Expire q BFQ_BFQQ_BUDGET_EXHAUSTED slow]
      \<and> active_queue bfqd' = None
      \<and> dispatch_list bfqd' = dispatch_list bfqd
      \<and> next_rq (bfqqs bfqd' q) = Some rq
      \<and> sort_list (bfqqs bfqd' q) = sort_list (bfqqs bfqd q)
      \<and> fifo (bfqqs bfqd' q) = fifo (bfqqs bfqd q)"
proof -
  let ?d1 = "upd_bfqq q (\<lambda>b. b\<lparr>next_rq := Some rq\<rparr>)
              (upd_bfqq q (\<lambda>_. snd (bfq_check_fifo (jiffies bfqd) (bfqqs bfqd q))) bfqd)"
  have rnd: "bfq_dispatch_round E q max_dispatch d0 0 = Some (True, nr, ?d1)"
    using iter bfq_dispatch_round_exhausted [OF chosen over] by simp
  have a1: "active_queue ?d1 = Some q" using act by (simp add: upd_bfqq_def)
  obtain d2 where e: "bfq_bfqq_expire E ?d1 q False BFQ_BFQQ_BUDGET_EXHAUSTED = Some d2"
    using bfq_bfqq_expire_Some [OF a1] by blast
  note X = bfq_bfqq_expire_frame [OF e]
  have res: "uu_bfq_dispatch_requests E d0 q max_dispatch = Some (nr, d2)"
    using entry rnd e by (simp add: uu_bfq_dispatch_requests_def)
  have "trace d2 = trace bfqd @ [Expire q BFQ_BFQQ_BUDGET_EXHAUSTED
            (fst (bfq_update_peak_rate E ?d1 q False))]"
    using X(1) by (simp add: expire_reason_def upd_bfqq_def)
  moreover have "dispatch_list d2 = dispatch_list bfqd" using X(4) by (simp add: upd_bfqq_def)
  moreover have "next_rq (bfqqs d2 q) = Some rq" using X(10) [of q] by (simp add: upd_bfqq_def)
  moreover have "sort_list (bfqqs d2 q) = sort_list (bfqqs bfqd q)"
    using X(8) [of q] by (simp add: upd_bfqq_def bfq_check_fifo_frame)
  moreover have "fifo (bfqqs d2 q) = fifo (bfqqs bfqd q)"
    using X(9) [of q] by (simp add: upd_bfqq_def bfq_check_fifo_frame)
  ultimately show ?thesis using res X(2) by blast
qed

text \<open>The witness of claim C5: the first iteration, on \<open>ex_low\<close>.\<close>

theorem bfq_dispatch_budget_exhausted_witness:
  "bfq_chosen_rq (jiffies ex_low) (bfqqs ex_low 0) = Some (ex_rq 1 100 512 True 0)
   \<and> bfq_bfqq_budget_left (bfqqs ex_low 0) = 288
   \<and> map_option (\<lambda>(n, d). (n, trace d, active_queue d, dispatch_list d, next_rq (bfqqs d 0),
                              sort_list (bfqqs d 0), fifo (bfqqs d 0)))
        (uu_bfq_dispatch_requests fifo_env ex_low 0 4)
      = Some (0, [Expire 0 BFQ_BFQQ_BUDGET_EXHAUSTED False], None, [],
              Some (ex_rq 1 100 512 True 0), [ex_rq 1 100 512 True 0], [ex_rq 1 100 512 True 0])"
  using bfq_dispatch_budget_exhausted [of ex_low 0 fifo_env 4 ex_low 0 "ex_rq 1 100 512 True 0"]
  by (simp add: bfq_chosen_rq_def bfq_dispatch_round.simps ex_state_defs ex_state_defs2
      bfq_model_defs ex_defs)

subsection \<open>Arming the idle-slice timer\<close>

lemma bfq_arm_slice_timer_cases:
  assumes "bfq_arm_slice_timer E bfqd = Some bfqd'"
  shows "bfqd' = bfqd
       \<or> (\<exists>c. active_cic bfqd = Some c \<and> bfq_slice_idle bfqd \<noteq> 0
            \<and> idle_slice_timer bfqd' =
                Some (jiffies bfqd +
                  (if bfq_sample_valid (seek_samples (cics bfqd c)) \<and> CIC_SEEKY (cics bfqd c)
                   then min (bfq_slice_idle bfqd) (msecs_to_jiffies E BFQ_MIN_TT)
                   else bfq_slice_idle bfqd)))"
proof (cases "active_queue bfqd")
  case None
  with assms show ?thesis by (simp add: bfq_arm_slice_timer_def)
next
  case (Some q)
  show ?thesis
  proof (cases "bfq_slice_idle bfqd = 0 \<or> \<not> idle_window (bfqqs bfqd q)")
    case True
    with assms Some show ?thesis by (simp add: bfq_arm_slice_timer_def)
  next
    case nz: False
    show ?thesis
    proof (cases "active_cic bfqd")
      case None
      with assms Some nz show ?thesis by (simp add: bfq_arm_slice_timer_def)
    next
      case c: (Some c)
      show ?thesis
      proof (cases "nr_tasks (cics bfqd c) = 0")
        case True
        with assms Some nz c show ?thesis by (simp add: bfq_arm_slice_timer_def)
      next
        case False
        with assms Some nz c have "idle_slice_timer bfqd' =
                Some (jiffies bfqd +
                  (if bfq_sample_valid (seek_samples (cics bfqd c)) \<and> CIC_SEEKY (cics bfqd c)
                   then min (bfq_slice_idle bfqd) (msecs_to_jiffies E BFQ_MIN_TT)
                   else bfq_slice_idle bfqd))"
          by (auto simp: bfq_arm_slice_timer_def Let_def upd_bfqq_def)
        with c nz show ?thesis by simp
      qed
    qed
  qed
qed

lemma bfq_arm_slice_timer_no_idle:
  assumes "bfq_arm_slice_timer E bfqd = Some bfqd'" and "bfq_slice_idle bfqd = 0"
  shows "bfqd' = bfqd"
  using assms by (simp add: bfq_arm_slice_timer_def split: option.splits)

lemma bfq_completed_request_no_idle:
  assumes "bfq_completed_request E d rq = Some d'" and z: "bfq_slice_idle d = 0"
  shows "idle_slice_timer d' = None \<or> idle_slice_timer d' = idle_slice_timer d"
proof -
  from assms(1) obtain d6 where q: "idle_slice_timer d' = idle_slice_timer d6"
    and c: "d6 = completed_acct d rq
         \<or> (\<exists>d7. (d7 = completed_acct d rq \<or> bfq_set_budget_timeout (completed_acct d rq) = Some d7)
              \<and> (bfq_bfqq_expire E d7 (RQ_BFQQ rq) False BFQ_BFQQ_BUDGET_TIMEOUT = Some d6
                  \<or> bfq_arm_slice_timer E d7 = Some d6 \<or> d6 = d7))"
    by (rule bfq_completed_request_cases)
  from c consider (a) "d6 = completed_acct d rq"
    | (b) d7 where "d7 = completed_acct d rq \<or> bfq_set_budget_timeout (completed_acct d rq) = Some d7"
        and "bfq_bfqq_expire E d7 (RQ_BFQQ rq) False BFQ_BFQQ_BUDGET_TIMEOUT = Some d6
                  \<or> bfq_arm_slice_timer E d7 = Some d6 \<or> d6 = d7"
    by blast
  then have "idle_slice_timer d6 = None \<or> idle_slice_timer d6 = idle_slice_timer d"
  proof cases
    case a
    then show ?thesis by (simp add: completed_acct_frame)
  next
    case b
    have t7: "idle_slice_timer d7 = idle_slice_timer d" and z7: "bfq_slice_idle d7 = 0"
      using b(1) z bfq_set_budget_timeout_frame(2,3) [of "completed_acct d rq" d7]
      by (auto simp: completed_acct_frame)
    from b(2) show ?thesis
    proof (elim disjE)
      assume "bfq_bfqq_expire E d7 (RQ_BFQQ rq) False BFQ_BFQQ_BUDGET_TIMEOUT = Some d6"
      then show ?thesis by (simp add: bfq_bfqq_expire_frame(7))
    next
      assume "bfq_arm_slice_timer E d7 = Some d6"
      then have "d6 = d7" using z7 by (rule bfq_arm_slice_timer_no_idle)
      with t7 show ?thesis by simp
    next
      assume "d6 = d7"
      with t7 show ?thesis by simp
    qed
  qed
  with q show ?thesis by simp
qed

text \<open>
  Claim C8. With \<^verbatim>\<open>bfq_slice_idle = 0\<close>, \<^verbatim>\<open>bfq_arm_slice_timer\<close> changes nothing, and a
  request completion (from which alone it is called) leaves the timer as it was or
  not pending: the timer is never armed. When \<^verbatim>\<open>bfq_arm_slice_timer\<close> does arm the
  timer, it is for \<^verbatim>\<open>jiffies\<close> plus \<^verbatim>\<open>bfq_slice_idle\<close>, or plus the minimum of
  \<^verbatim>\<open>bfq_slice_idle\<close> and \<^verbatim>\<open>BFQ_MIN_TT\<close> = 2 ms when the io context has valid seek samples
  and is seeky.
\<close>

theorem bfq_arm_slice_timer_duration:
  "(bfq_arm_slice_timer E bfqd = Some bfqd' \<longrightarrow>
      (bfq_slice_idle bfqd = 0 \<longrightarrow> bfqd' = bfqd)
      \<and> (bfqd' = bfqd
         \<or> (\<exists>c. active_cic bfqd = Some c \<and> bfq_slice_idle bfqd \<noteq> 0
              \<and> idle_slice_timer bfqd' =
                  Some (jiffies bfqd +
                    (if bfq_sample_valid (seek_samples (cics bfqd c)) \<and> CIC_SEEKY (cics bfqd c)
                     then min (bfq_slice_idle bfqd) (msecs_to_jiffies E BFQ_MIN_TT)
                     else bfq_slice_idle bfqd)))))
   \<and> (bfq_slice_idle bfqd = 0 \<and> bfq_completed_request E bfqd rq = Some bfqd2 \<longrightarrow>
        idle_slice_timer bfqd2 = None \<or> idle_slice_timer bfqd2 = idle_slice_timer bfqd)"
  using bfq_arm_slice_timer_cases [of E bfqd bfqd'] bfq_arm_slice_timer_no_idle [of E bfqd bfqd']
    bfq_completed_request_no_idle [of E bfqd rq bfqd2]
  by blast

text \<open>The witness of claim C8, on \<open>ex_idle\<close>: armed for 2 jiffies with a seeky io
  context, for 8 with one that is not, and not armed with \<^verbatim>\<open>bfq_slice_idle = 0\<close>.\<close>

theorem bfq_arm_slice_timer_duration_witness:
  "map_option idle_slice_timer (bfq_arm_slice_timer fifo_env ex_idle) = Some (Some 52)
   \<and> map_option idle_slice_timer
        (bfq_arm_slice_timer fifo_env (ex_idle\<lparr>cics := (\<lambda>_. cic_zero\<lparr>nr_tasks := 1\<rparr>)\<rparr>))
      = Some (Some 58)
   \<and> bfq_arm_slice_timer fifo_env (ex_idle\<lparr>bfq_slice_idle := 0\<rparr>)
      = Some (ex_idle\<lparr>bfq_slice_idle := 0\<rparr>)
   \<and> map_option idle_slice_timer
        (bfq_completed_request fifo_env ex_idle (ex_rq 1 0 8 True 0)) = Some (Some 52)
   \<and> map_option idle_slice_timer
        (bfq_completed_request fifo_env (ex_idle\<lparr>bfq_slice_idle := 0\<rparr>) (ex_rq 1 0 8 True 0))
      = Some None"
  using bfq_arm_slice_timer_duration [of fifo_env ex_idle
      "the (bfq_arm_slice_timer fifo_env ex_idle)" "ex_rq 1 0 8 True 0"
      "the (bfq_completed_request fifo_env ex_idle (ex_rq 1 0 8 True 0))"]
    bfq_arm_slice_timer_duration [of fifo_env "ex_idle\<lparr>bfq_slice_idle := 0\<rparr>"
      "the (bfq_arm_slice_timer fifo_env (ex_idle\<lparr>bfq_slice_idle := 0\<rparr>))" "ex_rq 1 0 8 True 0"
      "the (bfq_completed_request fifo_env (ex_idle\<lparr>bfq_slice_idle := 0\<rparr>) (ex_rq 1 0 8 True 0))"]
  by (simp add: ex_state_defs ex_state_defs2 bfq_model_defs ex_defs)

subsection \<open>The FIFO check\<close>

lemma bfq_check_fifo_marks: "fifo_expire (snd (bfq_check_fifo j bfqq))"
  by (simp add: bfq_check_fifo_def Let_def split: list.splits)

lemma bfq_check_fifo_marked: "fifo_expire bfqq \<Longrightarrow> bfq_check_fifo j bfqq = (None, bfqq)"
  by (simp add: bfq_check_fifo_def)

text \<open>Dispatching, serving, expiring, completing and arming the timer leave the
  \<^verbatim>\<open>fifo_expire\<close> flag of every queue as it is, and a round of dispatches leaves it set.\<close>

lemma bfq_updated_next_req_fifo_expire:
  "fifo_expire (bfqqs (bfq_updated_next_req E d q) p) = fifo_expire (bfqqs d p)"
  by (simp add: bfq_updated_next_req_def bfq_activate_bfqq_def upd_bfqq_def Let_def
      split: option.splits)

lemma bfq_del_rq_rb_fifo_expire:
  "bfq_del_rq_rb E d rq = Some d' \<Longrightarrow> fifo_expire (bfqqs d' p) = fifo_expire (bfqqs d p)"
  by (auto simp: bfq_del_rq_rb_def bfq_del_bfqq_busy_def upd_bfqq_def Let_def split: if_splits)

lemma bfq_remove_request_fifo_expire:
  assumes "bfq_remove_request E d rq = Some d'"
  shows "fifo_expire (bfqqs d' p) = fifo_expire (bfqqs d p)"
proof -
  from assms obtain d1 d2 where
    1: "(if next_rq (bfqqs d (RQ_BFQQ rq)) = Some rq
         then do {
             n \<leftarrow> bfq_find_next_rq d (bfqqs d (RQ_BFQQ rq)) rq;
             Some (bfq_updated_next_req E (upd_bfqq (RQ_BFQQ rq) (\<lambda>b. b\<lparr>next_rq := n\<rparr>) d) (RQ_BFQQ rq))
           }
         else Some d) = Some d1"
    and 2: "bfq_del_rq_rb E (upd_bfqq (RQ_BFQQ rq) (\<lambda>b. b\<lparr>fifo := remove1 rq (fifo b)\<rparr>) d1) rq = Some d2"
    and 3: "d' = (if rq_is_meta rq
              then upd_bfqq (RQ_BFQQ rq) (\<lambda>b. b\<lparr>meta_pending := meta_pending b - 1\<rparr>) d2
              else d2)"
    by (auto simp: bfq_remove_request_def Let_def split: Option.bind_splits)
  have a: "fifo_expire (bfqqs d1 p) = fifo_expire (bfqqs d p)"
    using 1 by (auto simp: bfq_updated_next_req_fifo_expire upd_bfqq_def
        split: if_splits Option.bind_splits)
  have b: "fifo_expire (bfqqs d2 p) = fifo_expire (bfqqs d1 p)"
    using bfq_del_rq_rb_fifo_expire [OF 2, of p] by (simp add: upd_bfqq_def)
  show ?thesis using a b unfolding 3 by (auto simp: upd_bfqq_def)
qed

lemma bfq_dispatch_insert_fifo_expire:
  assumes "bfq_dispatch_insert E d rq = Some d'"
  shows "fifo_expire (bfqqs d' p) = fifo_expire (bfqqs d p)"
proof -
  from assms obtain n d1 where
    r: "bfq_remove_request E (upd_bfqq (RQ_BFQQ rq) (\<lambda>b. b\<lparr>next_rq := n\<rparr>) d) rq = Some d1"
    and d': "d' = (let bfqd2 = upd_bfqq (RQ_BFQQ rq) (\<lambda>b. b\<lparr>dispatched := dispatched b + 1\<rparr>) d1;
            bfqd3 = bfqd2\<lparr>dispatch_list := dispatch_list bfqd2 @ [rq]\<rparr>
        in (if sync (bfqqs bfqd3 (RQ_BFQQ rq))
                 then bfqd3\<lparr>sync_flight := sync_flight bfqd3 + 1\<rparr> else bfqd3))"
    by (auto simp: bfq_dispatch_insert_def Let_def split: Option.bind_splits)
  have "fifo_expire (bfqqs d1 p) = fifo_expire (bfqqs d p)"
    using bfq_remove_request_fifo_expire [OF r, of p] by (simp add: upd_bfqq_def)
  then show ?thesis by (auto simp: d' Let_def upd_bfqq_def)
qed

lemma bfq_bfqq_served_fifo_expire:
  "fifo_expire (bfqqs (bfq_bfqq_served E d q n) p) = fifo_expire (bfqqs d p)"
  by (simp add: bfq_bfqq_served_def upd_bfqq_def)

lemma bfq_dispatch_round_marks:
  "bfq_dispatch_round E q md d nr = Some (e, n, d') \<Longrightarrow> fifo_expire (bfqqs d' q)"
proof (induction E q md d nr rule: bfq_dispatch_round.induct)
  case (1 E q max_dispatch bfqd nr)
  obtain fr b1 where c: "bfq_check_fifo (jiffies bfqd) (bfqqs bfqd q) = (fr, b1)"
    by (cases "bfq_check_fifo (jiffies bfqd) (bfqqs bfqd q)")
  have m: "fifo_expire b1" using bfq_check_fifo_marks [of "jiffies bfqd" "bfqqs bfqd q"] c by simp
  let ?d1 = "upd_bfqq q (\<lambda>_. b1) bfqd"
  let ?rqo = "case fr of None \<Rightarrow> next_rq b1 | Some r \<Rightarrow> Some r"
  from "1.prems" obtain rq where rq: "?rqo = Some rq"
    by (subst (asm) bfq_dispatch_round.simps) (auto simp: c Let_def split: option.splits)
  show ?case
  proof (cases "ucast (blk_rq_sectors rq) > bfq_bfqq_budget_left b1")
    case True
    with "1.prems" rq have "d' = upd_bfqq q (\<lambda>b. b\<lparr>next_rq := Some rq\<rparr>) ?d1"
      by (subst (asm) bfq_dispatch_round.simps) (simp add: c Let_def)
    with m show ?thesis by (simp add: upd_bfqq_def)
  next
    case False
    from "1.prems" rq False obtain d2 where
      di: "bfq_dispatch_insert E (bfq_bfqq_served E ?d1 q (ucast (blk_rq_sectors rq))) rq = Some d2"
      by (subst (asm) bfq_dispatch_round.simps) (auto simp: c Let_def split: option.splits)
    let ?d3 = "if active_cic d2 = None then d2\<lparr>active_cic := Some (RQ_CIC rq)\<rparr> else d2"
    have f3: "fifo_expire (bfqqs ?d3 q)"
      using bfq_dispatch_insert_fifo_expire [OF di, of q] m
      by (simp add: bfq_bfqq_served_fifo_expire upd_bfqq_def)
    show ?thesis
    proof (cases "sort_list (bfqqs ?d3 q) \<noteq> [] \<and> nr + 1 < max_dispatch")
      case True
      with "1.prems" rq False di
      have rec: "bfq_dispatch_round E q max_dispatch ?d3 (nr + 1) = Some (e, n, d')"
        by (subst (asm) bfq_dispatch_round.simps) (simp add: c Let_def)
      from True have ne: "sort_list (bfqqs ?d3 q) \<noteq> []" and lt: "nr + 1 < max_dispatch"
        by simp_all
      show ?thesis
        by (rule "1.IH" [OF refl c [symmetric] refl refl rq False di refl ne lt rec])
    next
      case nf: False
      with "1.prems" rq False di have "d' = ?d3"
        by (subst (asm) bfq_dispatch_round.simps) (auto simp: c Let_def split: if_splits)
      with f3 show ?thesis by simp
    qed
  qed
qed

lemma bfq_completed_request_fifo_expire:
  assumes "bfq_completed_request E d rq = Some d'"
  shows "fifo_expire (bfqqs d' p) = fifo_expire (bfqqs d p)"
proof -
  from assms obtain d6 where q: "bfqqs d' = bfqqs d6"
    and c: "d6 = completed_acct d rq
         \<or> (\<exists>d7. (d7 = completed_acct d rq \<or> bfq_set_budget_timeout (completed_acct d rq) = Some d7)
              \<and> (bfq_bfqq_expire E d7 (RQ_BFQQ rq) False BFQ_BFQQ_BUDGET_TIMEOUT = Some d6
                  \<or> bfq_arm_slice_timer E d7 = Some d6 \<or> d6 = d7))"
    by (rule bfq_completed_request_cases)
  from c consider (a) "d6 = completed_acct d rq"
    | (b) d7 where "d7 = completed_acct d rq \<or> bfq_set_budget_timeout (completed_acct d rq) = Some d7"
        and "bfq_bfqq_expire E d7 (RQ_BFQQ rq) False BFQ_BFQQ_BUDGET_TIMEOUT = Some d6
                  \<or> bfq_arm_slice_timer E d7 = Some d6 \<or> d6 = d7"
    by blast
  then have "fifo_expire (bfqqs d6 p) = fifo_expire (bfqqs d p)"
  proof cases
    case a
    then show ?thesis by (simp add: completed_acct_frame)
  next
    case b
    have f7: "fifo_expire (bfqqs d7 p) = fifo_expire (bfqqs d p)"
      using b(1) bfq_set_budget_timeout_frame(1) [of "completed_acct d rq" d7 p]
      by (auto simp: completed_acct_frame)
    from b(2) show ?thesis
    proof (elim disjE)
      assume "bfq_bfqq_expire E d7 (RQ_BFQQ rq) False BFQ_BFQQ_BUDGET_TIMEOUT = Some d6"
      then show ?thesis using f7 by (simp add: bfq_bfqq_expire_frame(11))
    next
      assume "bfq_arm_slice_timer E d7 = Some d6"
      then show ?thesis using f7 by (simp add: bfq_arm_slice_timer_frame(4))
    next
      assume "d6 = d7"
      with f7 show ?thesis by simp
    qed
  qed
  with q show ?thesis by simp
qed

subsection \<open>The log of the FIFO checks\<close>

text \<open>Without the log, the functions with a log are the functions of the dispatch
  controller.\<close>

lemma bfq_set_active_queue_log_erase:
  "bfq_set_active_queue_log E d log = (x, d1, log1) \<Longrightarrow> bfq_set_active_queue E d = (x, d1)"
  by (auto simp: bfq_set_active_queue_log_def split: prod.splits)

lemma bfq_set_active_queue_log_total:
  "\<exists>log1. bfq_set_active_queue_log E d log
     = (fst (bfq_set_active_queue E d), snd (bfq_set_active_queue E d), log1)"
  by (simp add: bfq_set_active_queue_log_def split: prod.splits)

lemma bfq_select_expire_log_erase:
  "bfq_select_expire E d q r = map_option (\<lambda>(x, d1, l). (x, d1)) (bfq_select_expire_log E d q r log)"
proof (cases "bfq_bfqq_expire E d q False r")
  case None
  then show ?thesis by (simp add: bfq_select_expire_def bfq_select_expire_log_def)
next
  case (Some d1)
  obtain l where "bfq_set_active_queue_log E d1 log
     = (fst (bfq_set_active_queue E d1), snd (bfq_set_active_queue E d1), l)"
    using bfq_set_active_queue_log_total by blast
  with Some show ?thesis by (simp add: bfq_select_expire_def bfq_select_expire_log_def)
qed

lemma bfq_select_queue_log_erase:
  "bfq_select_queue E d = map_option (\<lambda>(x, d1, l). (x, d1)) (bfq_select_queue_log E d log)"
proof -
  obtain l where "bfq_set_active_queue_log E d log
     = (fst (bfq_set_active_queue E d), snd (bfq_set_active_queue E d), l)"
    using bfq_set_active_queue_log_total by blast
  then show ?thesis
    by (auto simp: bfq_select_queue_def bfq_select_queue_log_def Let_def
        bfq_select_expire_log_erase [of _ _ _ _ log] split: option.splits)
qed

lemma bfq_dispatch_round_log_erase:
  "bfq_dispatch_round E q md d nr
     = map_option (\<lambda>(e, n, d1, l). (e, n, d1)) (bfq_dispatch_round_log E q md d nr log)"
proof (induction E q md d nr log rule: bfq_dispatch_round_log.induct)
  case (1 E q max_dispatch bfqd nr log)
  obtain fr b1 where c: "bfq_check_fifo (jiffies bfqd) (bfqqs bfqd q) = (fr, b1)"
    by (cases "bfq_check_fifo (jiffies bfqd) (bfqqs bfqd q)")
  let ?d1 = "upd_bfqq q (\<lambda>_. b1) bfqd"
  let ?rqo = "case fr of None \<Rightarrow> next_rq b1 | Some r \<Rightarrow> Some r"
  show ?case
  proof (cases ?rqo)
    case None
    then show ?thesis
      by (subst bfq_dispatch_round.simps, subst bfq_dispatch_round_log.simps) (simp add: c Let_def)
  next
    case (Some rq)
    show ?thesis
    proof (cases "ucast (blk_rq_sectors rq) > bfq_bfqq_budget_left b1")
      case True
      with Some show ?thesis
        by (subst bfq_dispatch_round.simps, subst bfq_dispatch_round_log.simps) (simp add: c Let_def)
    next
      case False
      show ?thesis
      proof (cases "bfq_dispatch_insert E (bfq_bfqq_served E ?d1 q (ucast (blk_rq_sectors rq))) rq")
        case None
        with Some False show ?thesis
          by (subst bfq_dispatch_round.simps, subst bfq_dispatch_round_log.simps) (simp add: c Let_def)
      next
        case di: (Some d2)
        let ?d3 = "if active_cic d2 = None then d2\<lparr>active_cic := Some (RQ_CIC rq)\<rparr> else d2"
        show ?thesis
        proof (cases "sort_list (bfqqs ?d3 q) \<noteq> [] \<and> nr + 1 < max_dispatch")
          case True
          then have ne: "sort_list (bfqqs ?d3 q) \<noteq> []" and lt: "nr + 1 < max_dispatch" by simp_all
          have ih: "bfq_dispatch_round E q max_dispatch ?d3 (nr + 1)
             = map_option (\<lambda>(e, n, d1, l). (e, n, d1))
                 (bfq_dispatch_round_log E q max_dispatch ?d3 (nr + 1) (log @ [Checked q fr]))"
            by (rule "1.IH" [OF refl c [symmetric] refl refl refl Some False di refl ne lt])
          have l: "bfq_dispatch_round E q max_dispatch bfqd nr
             = bfq_dispatch_round E q max_dispatch ?d3 (nr + 1)"
            using Some False di True
            by (subst bfq_dispatch_round.simps) (simp add: c Let_def)
          have r: "bfq_dispatch_round_log E q max_dispatch bfqd nr log
             = bfq_dispatch_round_log E q max_dispatch ?d3 (nr + 1) (log @ [Checked q fr])"
            using Some False di True
            by (subst bfq_dispatch_round_log.simps) (simp add: c Let_def)
          show ?thesis unfolding l r by (rule ih)
        next
          case nf: False
          with Some False di show ?thesis
            by (subst bfq_dispatch_round.simps, subst bfq_dispatch_round_log.simps)
               (auto simp: c Let_def)
        qed
      qed
    qed
  qed
qed

lemma uu_bfq_dispatch_requests_log_erase:
  "uu_bfq_dispatch_requests E d q md
     = map_option (\<lambda>(n, d1, l). (n, d1)) (uu_bfq_dispatch_requests_log E d q md log)"
proof (cases "bfq_dispatch_round_log E q md d 0 log")
  case None
  then have "bfq_dispatch_round E q md d 0 = None"
    by (simp add: bfq_dispatch_round_log_erase [of _ _ _ _ _ log])
  with None show ?thesis
    by (simp add: uu_bfq_dispatch_requests_def uu_bfq_dispatch_requests_log_def)
next
  case (Some r)
  obtain e n d1 l where r: "r = (e, n, d1, l)" by (cases r)
  from Some r have o: "bfq_dispatch_round E q md d 0 = Some (e, n, d1)"
    by (simp add: bfq_dispatch_round_log_erase [of _ _ _ _ _ log])
  show ?thesis
    using Some r o
    by (cases "bfq_bfqq_expire E d1 q False BFQ_BFQQ_BUDGET_EXHAUSTED")
       (auto simp: uu_bfq_dispatch_requests_def uu_bfq_dispatch_requests_log_def)
qed

lemma bfq_dispatch_loop_log_erase:
  "bfq_dispatch_loop E fuel d nr
     = (case bfq_dispatch_loop_log E fuel d nr log of
          Returns (n, d1, l) \<Rightarrow> Returns (n, d1) | Bug \<Rightarrow> Bug | OutOfFuel \<Rightarrow> OutOfFuel)"
proof (induction fuel arbitrary: d nr log)
  case 0
  show ?case by simp
next
  case (Suc fuel)
  show ?case
  proof (cases "bfq_select_queue_log E d log")
    case None
    then have "bfq_select_queue E d = None"
      by (simp add: bfq_select_queue_log_erase [of _ _ log])
    with None show ?thesis by simp
  next
    case (Some r)
    obtain x d1 log1 where r: "r = (x, d1, log1)" by (cases r)
    from Some r have s: "bfq_select_queue E d = Some (x, d1)"
      by (simp add: bfq_select_queue_log_erase [of _ _ log])
    show ?thesis
    proof (cases x)
      case None
      with Some r s show ?thesis by simp
    next
      case x: (Some q)
      let ?md = "bfq_max_dispatch d1 (bfqqs d1 q)"
      let ?d2 = "upd_bfqq q (\<lambda>b. b\<lparr>wait_request := False\<rparr>) d1"
      show ?thesis
      proof (cases "uu_bfq_dispatch_requests_log E ?d2 q ?md log1")
        case None
        then have "uu_bfq_dispatch_requests E ?d2 q ?md = None"
          by (simp add: uu_bfq_dispatch_requests_log_erase [of _ _ _ _ log1])
        with None Some r s x show ?thesis by (auto simp: Let_def)
      next
        case u: (Some t)
        obtain n d3 log2 where t: "t = (n, d3, log2)" by (cases t)
        from u t have o: "uu_bfq_dispatch_requests E ?d2 q ?md = Some (n, d3)"
          by (simp add: uu_bfq_dispatch_requests_log_erase [of _ _ _ _ log1])
        show ?thesis
          using Some r s x u t o Suc.IH [of d3 "nr + n" log2] by (auto simp: Let_def)
      qed
    qed
  qed
qed

lemma bfq_dispatch_requests_log_erase:
  "bfq_dispatch_requests E fuel d
     = (case bfq_dispatch_requests_log E fuel d of
          Returns (n, d1, l) \<Rightarrow> Returns (n, d1) | Bug \<Rightarrow> Bug | OutOfFuel \<Rightarrow> OutOfFuel)"
  using bfq_dispatch_loop_log_erase [of E fuel d 0 "[]"]
  by (simp add: bfq_dispatch_requests_def bfq_dispatch_requests_log_def)

text \<open>Each function keeps the reading of the log in step with the flag: if the log so
  far, read from some first value of the flag, gives the flag of the queue \<open>p\<close> in
  the state, then so does the log in the result for the state in the result.\<close>

lemma once_per_slice_snoc:
  "once_per_slice p f (l @ [ev]) = fifo_step p (once_per_slice p f l) ev"
  by (simp add: once_per_slice_def)

lemma bfq_set_active_queue_fifo_expire:
  "fifo_expire (bfqqs (snd (bfq_set_active_queue E d)) p)
     = (if fst (bfq_set_active_queue E d) = Some p then False else fifo_expire (bfqqs d p))"
  by (auto simp: bfq_set_active_queue_def bfq_get_next_queue_def uu_bfq_set_active_queue_def
      upd_bfqq_def Let_def split: prod.splits option.splits)

lemma bfq_set_active_queue_log_reads:
  assumes "once_per_slice p f log = Some (fifo_expire (bfqqs d p))"
    and "bfq_set_active_queue_log E d log = (x, d1, log1)"
  shows "once_per_slice p f log1 = Some (fifo_expire (bfqqs d1 p))"
proof -
  from assms(2) have x: "x = fst (bfq_set_active_queue E d)"
    and d1: "d1 = snd (bfq_set_active_queue E d)"
    and l: "log1 = (case x of None \<Rightarrow> log | Some q \<Rightarrow> log @ [Activated q])"
    by (auto simp: bfq_set_active_queue_log_def split: prod.splits)
  have fl: "fifo_expire (bfqqs d1 p) = (if x = Some p then False else fifo_expire (bfqqs d p))"
    unfolding x d1 by (rule bfq_set_active_queue_fifo_expire)
  show ?thesis
  proof (cases x)
    case None
    with l fl assms(1) show ?thesis by simp
  next
    case (Some q)
    with l fl assms(1) show ?thesis by (simp add: once_per_slice_snoc)
  qed
qed

lemma bfq_select_expire_log_reads:
  assumes "once_per_slice p f log = Some (fifo_expire (bfqqs d p))"
    and "bfq_select_expire_log E d q r log = Some (x, d1, log1)"
  shows "once_per_slice p f log1 = Some (fifo_expire (bfqqs d1 p))"
proof -
  from assms(2) obtain d0 where e: "bfq_bfqq_expire E d q False r = Some d0"
    and s: "bfq_set_active_queue_log E d0 log = (x, d1, log1)"
    by (auto simp: bfq_select_expire_log_def split: Option.bind_splits)
  have "fifo_expire (bfqqs d0 p) = fifo_expire (bfqqs d p)"
    by (rule bfq_bfqq_expire_frame(11) [OF e])
  with assms(1) have "once_per_slice p f log = Some (fifo_expire (bfqqs d0 p))" by simp
  then show ?thesis using s by (rule bfq_set_active_queue_log_reads)
qed

lemma bfq_select_queue_log_reads:
  assumes i: "once_per_slice p f log = Some (fifo_expire (bfqqs d p))"
    and s: "bfq_select_queue_log E d log = Some (x, d1, log1)"
  shows "once_per_slice p f log1 = Some (fifo_expire (bfqqs d1 p))"
proof (cases "active_queue d")
  case None
  with s have "bfq_set_active_queue_log E d log = (x, d1, log1)"
    by (simp add: bfq_select_queue_log_def)
  with i show ?thesis by (rule bfq_set_active_queue_log_reads)
next
  case (Some q)
  let ?c = "upd_bfqq q bfq_bfqq_charge_full_budget d"
  have ic: "once_per_slice p f log = Some (fifo_expire (bfqqs ?c p))"
    using i by (simp add: upd_bfqq_def bfq_bfqq_charge_full_budget_def)
  from s Some consider
      (keep) "d1 = d" "log1 = log"
    | (timeout) "bfq_select_expire_log E ?c q BFQ_BFQQ_BUDGET_TIMEOUT log = Some (x, d1, log1)"
    | (expire) r where "bfq_select_expire_log E d q r log = Some (x, d1, log1)"
    by (auto simp: bfq_select_queue_log_def Let_def split: if_splits option.splits)
  then show ?thesis
  proof cases
    case keep
    with i show ?thesis by simp
  next
    case timeout
    with ic show ?thesis by (rule bfq_select_expire_log_reads)
  next
    case expire
    with i show ?thesis by (rule bfq_select_expire_log_reads)
  qed
qed

lemma bfq_check_fifo_reads:
  assumes i: "once_per_slice p f log = Some (fifo_expire (bfqqs d p))"
    and c: "bfq_check_fifo j (bfqqs d q) = (fr, b1)"
  shows "once_per_slice p f (log @ [Checked q fr])
           = Some (fifo_expire (bfqqs (upd_bfqq q (\<lambda>_. b1) d) p))"
proof (cases "p = q")
  case False
  with i show ?thesis by (simp add: once_per_slice_snoc upd_bfqq_def)
next
  case True
  have m: "fifo_expire b1" using bfq_check_fifo_marks [of j "bfqqs d q"] c by simp
  have "fifo_expire (bfqqs d q) \<Longrightarrow> fr = None"
    using bfq_check_fifo_marked [of "bfqqs d q" j] c by simp
  with i True m show ?thesis by (auto simp: once_per_slice_snoc upd_bfqq_def)
qed

lemma bfq_dispatch_round_log_reads:
  "once_per_slice p f log = Some (fifo_expire (bfqqs d p))
   \<Longrightarrow> bfq_dispatch_round_log E q md d nr log = Some (e, n, d', log')
   \<Longrightarrow> once_per_slice p f log' = Some (fifo_expire (bfqqs d' p))"
proof (induction E q md d nr log rule: bfq_dispatch_round_log.induct)
  case (1 E q max_dispatch bfqd nr log)
  obtain fr b1 where c: "bfq_check_fifo (jiffies bfqd) (bfqqs bfqd q) = (fr, b1)"
    by (cases "bfq_check_fifo (jiffies bfqd) (bfqqs bfqd q)")
  let ?l1 = "log @ [Checked q fr]"
  let ?d1 = "upd_bfqq q (\<lambda>_. b1) bfqd"
  let ?rqo = "case fr of None \<Rightarrow> next_rq b1 | Some r \<Rightarrow> Some r"
  have i1: "once_per_slice p f ?l1 = Some (fifo_expire (bfqqs ?d1 p))"
    using "1.prems"(1) c by (rule bfq_check_fifo_reads)
  from "1.prems"(2) obtain rq where rq: "?rqo = Some rq"
    by (subst (asm) bfq_dispatch_round_log.simps) (auto simp: c Let_def split: option.splits)
  show ?case
  proof (cases "ucast (blk_rq_sectors rq) > bfq_bfqq_budget_left b1")
    case True
    with "1.prems"(2) rq have "d' = upd_bfqq q (\<lambda>b. b\<lparr>next_rq := Some rq\<rparr>) ?d1" and "log' = ?l1"
      by (subst (asm) bfq_dispatch_round_log.simps, simp add: c Let_def)+
    with i1 show ?thesis by (simp add: upd_bfqq_def)
  next
    case False
    from "1.prems"(2) rq False obtain d2 where
      di: "bfq_dispatch_insert E (bfq_bfqq_served E ?d1 q (ucast (blk_rq_sectors rq))) rq = Some d2"
      by (subst (asm) bfq_dispatch_round_log.simps) (auto simp: c Let_def split: option.splits)
    let ?d3 = "if active_cic d2 = None then d2\<lparr>active_cic := Some (RQ_CIC rq)\<rparr> else d2"
    have "fifo_expire (bfqqs ?d3 p) = fifo_expire (bfqqs ?d1 p)"
      using bfq_dispatch_insert_fifo_expire [OF di, of p]
      by (simp add: bfq_bfqq_served_fifo_expire)
    with i1 have i3: "once_per_slice p f ?l1 = Some (fifo_expire (bfqqs ?d3 p))" by simp
    show ?thesis
    proof (cases "sort_list (bfqqs ?d3 q) \<noteq> [] \<and> nr + 1 < max_dispatch")
      case True
      with "1.prems"(2) rq False di
      have rec: "bfq_dispatch_round_log E q max_dispatch ?d3 (nr + 1) ?l1 = Some (e, n, d', log')"
        by (subst (asm) bfq_dispatch_round_log.simps) (simp add: c Let_def)
      from True have ne: "sort_list (bfqqs ?d3 q) \<noteq> []" and lt: "nr + 1 < max_dispatch"
        by simp_all
      show ?thesis
        by (rule "1.IH" [OF refl c [symmetric] refl refl refl rq False di refl ne lt i3 rec])
    next
      case nf: False
      with "1.prems"(2) rq False di have "d' = ?d3" and "log' = ?l1"
        by (subst (asm) bfq_dispatch_round_log.simps, auto simp: c Let_def split: if_splits)+
      with i3 show ?thesis by simp
    qed
  qed
qed

lemma uu_bfq_dispatch_requests_log_reads:
  assumes i: "once_per_slice p f log = Some (fifo_expire (bfqqs d p))"
    and u: "uu_bfq_dispatch_requests_log E d q md log = Some (n, d', log')"
  shows "once_per_slice p f log' = Some (fifo_expire (bfqqs d' p))"
proof -
  from u obtain e d1 where r: "bfq_dispatch_round_log E q md d 0 log = Some (e, n, d1, log')"
    and t: "d' = d1 \<or> bfq_bfqq_expire E d1 q False BFQ_BFQQ_BUDGET_EXHAUSTED = Some d'"
    by (auto simp: uu_bfq_dispatch_requests_log_def split: if_splits Option.bind_splits)
  have i1: "once_per_slice p f log' = Some (fifo_expire (bfqqs d1 p))"
    using i r by (rule bfq_dispatch_round_log_reads)
  from t show ?thesis
  proof
    assume "d' = d1"
    with i1 show ?thesis by simp
  next
    assume "bfq_bfqq_expire E d1 q False BFQ_BFQQ_BUDGET_EXHAUSTED = Some d'"
    then have "fifo_expire (bfqqs d' p) = fifo_expire (bfqqs d1 p)"
      by (rule bfq_bfqq_expire_frame(11))
    with i1 show ?thesis by simp
  qed
qed

lemma bfq_dispatch_loop_log_reads:
  "once_per_slice p f log = Some (fifo_expire (bfqqs d p))
   \<Longrightarrow> bfq_dispatch_loop_log E fuel d nr log = Returns (n, d', log')
   \<Longrightarrow> once_per_slice p f log' = Some (fifo_expire (bfqqs d' p))"
proof (induction fuel arbitrary: d nr log)
  case 0
  then show ?case by simp
next
  case (Suc fuel)
  from Suc.prems(2) obtain x d1 log1 where s: "bfq_select_queue_log E d log = Some (x, d1, log1)"
    by (cases "bfq_select_queue_log E d log") auto
  have i1: "once_per_slice p f log1 = Some (fifo_expire (bfqqs d1 p))"
    using Suc.prems(1) s by (rule bfq_select_queue_log_reads)
  show ?case
  proof (cases x)
    case None
    with Suc.prems(2) s have "d' = d1" "log' = log1" by simp_all
    with i1 show ?thesis by simp
  next
    case (Some q)
    let ?md = "bfq_max_dispatch d1 (bfqqs d1 q)"
    let ?d2 = "upd_bfqq q (\<lambda>b. b\<lparr>wait_request := False\<rparr>) d1"
    have i2: "once_per_slice p f log1 = Some (fifo_expire (bfqqs ?d2 p))"
      using i1 by (simp add: upd_bfqq_def)
    from Suc.prems(2) s Some consider
        (stop) "d' = d1" "log' = log1"
      | (round) m d3 log2 where "uu_bfq_dispatch_requests_log E ?d2 q ?md log1 = Some (m, d3, log2)"
          "bfq_dispatch_loop_log E fuel d3 (nr + m) log2 = Returns (n, d', log')"
      by (auto simp: Let_def split: if_splits option.splits)
    then show ?thesis
    proof cases
      case stop
      with i1 show ?thesis by simp
    next
      case round
      have "once_per_slice p f log2 = Some (fifo_expire (bfqqs d3 p))"
        using i2 round(1) by (rule uu_bfq_dispatch_requests_log_reads)
      then show ?thesis using round(2) by (rule Suc.IH)
    qed
  qed
qed

lemma bfq_dispatch_requests_log_reads:
  assumes "bfq_dispatch_requests_log E fuel d = Returns (n, d', log)"
  shows "once_per_slice p (fifo_expire (bfqqs d p)) log = Some (fifo_expire (bfqqs d' p))"
proof (cases "busy_queues d = 0")
  case True
  with assms show ?thesis by (simp add: bfq_dispatch_requests_log_def once_per_slice_def)
next
  case False
  with assms have l: "bfq_dispatch_loop_log E fuel d 0 [] = Returns (n, d', log)"
    by (simp add: bfq_dispatch_requests_log_def)
  have "once_per_slice p (fifo_expire (bfqqs d p)) [] = Some (fifo_expire (bfqqs d p))"
    by (simp add: once_per_slice_def)
  then show ?thesis using l by (rule bfq_dispatch_loop_log_reads)
qed

lemma bfq_idle_slice_timer_fifo_expire:
  assumes "bfq_idle_slice_timer E d = Some d'"
  shows "fifo_expire (bfqqs d' p) = fifo_expire (bfqqs d p)"
proof -
  from assms obtain d1 where d': "d' = bfq_schedule_dispatch d1"
    and c: "d1 = d \<or> (\<exists>q r. bfq_bfqq_expire E d q True r = Some d1)"
    by (auto simp: bfq_idle_slice_timer_def Let_def split: Option.bind_splits option.splits)
  from c have "fifo_expire (bfqqs d1 p) = fifo_expire (bfqqs d p)"
    by (auto simp: bfq_bfqq_expire_frame(11))
  then show ?thesis by (simp add: d' bfq_schedule_dispatch_frame)
qed

lemma bfq_calls_log_reads:
  "once_per_slice q f log = Some (fifo_expire (bfqqs d q))
   \<Longrightarrow> bfq_calls_log E q calls d log = Some (d', log')
   \<Longrightarrow> once_per_slice q f log' = Some (fifo_expire (bfqqs d' q))"
proof (induction calls arbitrary: d log)
  case Nil
  then show ?case by simp
next
  case (Cons c cs)
  show ?case
  proof (cases c)
    case (Dispatch_requests fuel)
    with Cons.prems(2) obtain n d1 log1 where
      r: "bfq_dispatch_requests_log E fuel d = Returns (n, d1, log1)"
      and t: "bfq_calls_log E q cs d1 (log @ log1) = Some (d', log')"
      by (auto split: outcome.splits)
    have "once_per_slice q (fifo_expire (bfqqs d q)) log1 = Some (fifo_expire (bfqqs d1 q))"
      using r by (rule bfq_dispatch_requests_log_reads)
    with Cons.prems(1) have "once_per_slice q f (log @ log1) = Some (fifo_expire (bfqqs d1 q))"
      by (simp add: once_per_slice_def)
    then show ?thesis using t by (rule Cons.IH)
  next
    case (Completed_request rq)
    with Cons.prems(2) obtain d1 where r: "bfq_completed_request E d rq = Some d1"
      and t: "bfq_calls_log E q cs d1 log = Some (d', log')"
      by (auto split: option.splits)
    have "fifo_expire (bfqqs d1 q) = fifo_expire (bfqqs d q)"
      using r by (rule bfq_completed_request_fifo_expire)
    with Cons.prems(1) have "once_per_slice q f log = Some (fifo_expire (bfqqs d1 q))" by simp
    then show ?thesis using t by (rule Cons.IH)
  next
    case Idle_slice_timer
    with Cons.prems(2) obtain d1 where r: "bfq_idle_slice_timer E d = Some d1"
      and t: "bfq_calls_log E q cs d1 log = Some (d', log')"
      by (auto split: option.splits)
    have "fifo_expire (bfqqs d1 q) = fifo_expire (bfqqs d q)"
      using r by (rule bfq_idle_slice_timer_fifo_expire)
    with Cons.prems(1) have "once_per_slice q f log = Some (fifo_expire (bfqqs d1 q))" by simp
    then show ?thesis using t by (rule Cons.IH)
  next
    case (Elsewhere d1)
    with Cons.prems(2) have r: "fifo_expire (bfqqs d1 q) = fifo_expire (bfqqs d q)"
      and t: "bfq_calls_log E q cs d1 log = Some (d', log')"
      by (auto split: if_splits)
    from Cons.prems(1) r have "once_per_slice q f log = Some (fifo_expire (bfqqs d1 q))" by simp
    then show ?thesis using t by (rule Cons.IH)
  qed
qed

text \<open>What a reading that does not fail says of the log: without an activation of
  the queue the flag stays set once it is set, so a check that returns a request
  has an activation between it and any earlier check.\<close>

lemma fifo_step_stays:
  "s = None \<or> s = Some True \<Longrightarrow> Activated q \<notin> set l
   \<Longrightarrow> foldl (fifo_step q) s l = None \<or> foldl (fifo_step q) s l = Some True"
proof (induction l arbitrary: s)
  case Nil
  then show ?case by simp
next
  case (Cons ev l)
  have "fifo_step q s ev = None \<or> fifo_step q s ev = Some True"
    using Cons.prems by (cases ev) (auto split: if_splits)
  moreover have "Activated q \<notin> set l" using Cons.prems(2) by simp
  ultimately show ?case using Cons.IH [of "fifo_step q s ev"] by simp
qed

lemma fifo_step_fails: "foldl (fifo_step q) None l = None"
  by (induction l) simp_all

lemma fifo_step_hit:
  assumes "s = None \<or> s = Some True"
    and "foldl (fifo_step q) s (l @ Checked q (Some r) # l') \<noteq> None"
  shows "Activated q \<in> set l"
proof (rule ccontr)
  assume "Activated q \<notin> set l"
  with assms(1) have "foldl (fifo_step q) s l = None \<or> foldl (fifo_step q) s l = Some True"
    by (rule fifo_step_stays)
  then have "foldl (fifo_step q) s (l @ Checked q (Some r) # l') = None"
    by (auto simp: fifo_step_fails)
  with assms(2) show False by simp
qed

lemma once_per_slice_first_hit:
  "once_per_slice q True (l1 @ Checked q (Some r) # l2) \<noteq> None \<Longrightarrow> Activated q \<in> set l1"
  unfolding once_per_slice_def by (rule fifo_step_hit [of "Some True"]) simp_all

lemma once_per_slice_later_check:
  assumes "once_per_slice q f (l1 @ Checked q c1 # l2 @ Checked q (Some r2) # l3) \<noteq> None"
  shows "Activated q \<in> set l2"
proof -
  let ?s = "foldl (fifo_step q) (Some f) (l1 @ [Checked q c1])"
  have s: "?s = None \<or> ?s = Some True"
    by (cases "foldl (fifo_step q) (Some f) l1") auto
  have "foldl (fifo_step q) ?s (l2 @ Checked q (Some r2) # l3) \<noteq> None"
    using assms by (simp add: once_per_slice_def)
  with s show ?thesis by (rule fifo_step_hit)
qed

text \<open>
  Claim C6. Take any history of calls of \<^verbatim>\<open>bfq_dispatch_requests\<close>,
  \<^verbatim>\<open>bfq_completed_request\<close> and \<^verbatim>\<open>bfq_idle_slice_timer\<close>, with any changes of the state
  in between that leave the \<^verbatim>\<open>fifo_expire\<close> flag of the queue \<open>q\<close>, and let all its calls
  return. The log of its FIFO events reads without failure from the flag that \<open>q\<close>
  had at the start (every check of \<open>q\<close> after the first check of a slice returns
  \<^verbatim>\<open>NULL\<close>, and the flag is cleared only by an activation of \<open>q\<close>), and the reading ends
  with the flag that \<open>q\<close> has at the end. So between a check of \<open>q\<close> and a later check
  of \<open>q\<close> that returns a FIFO-expired request there is an activation of \<open>q\<close>: only the
  first check of a slice can return a request, and at most one request per slice
  is taken from the FIFO. If the flag was set at the start, there is an activation
  before the first check that returns a request. The calls of
  \<^verbatim>\<open>bfq_dispatch_requests\<close> in the history are those of the dispatch controller: the
  function with the log returns what \<^verbatim>\<open>bfq_dispatch_requests\<close> returns.
\<close>

theorem bfq_check_fifo_once_per_slice:
  "bfq_dispatch_requests E fuel bfqd
     = (case bfq_dispatch_requests_log E fuel bfqd of
          Returns (n, d, l) \<Rightarrow> Returns (n, d) | Bug \<Rightarrow> Bug | OutOfFuel \<Rightarrow> OutOfFuel)
   \<and> (bfq_calls_log E q calls bfqd [] = Some (d1, log)
      \<longrightarrow> once_per_slice q (fifo_expire (bfqqs bfqd q)) log = Some (fifo_expire (bfqqs d1 q)))
   \<and> (bfq_calls_log E q calls bfqd []
          = Some (d2, l1 @ Checked q c1 # l2 @ Checked q (Some r2) # l3)
      \<longrightarrow> Activated q \<in> set l2)
   \<and> (fifo_expire (bfqqs bfqd q)
        \<and> bfq_calls_log E q calls bfqd [] = Some (d3, k1 @ Checked q (Some r3) # k2)
      \<longrightarrow> Activated q \<in> set k1)"
proof (intro conjI impI)
  show "bfq_dispatch_requests E fuel bfqd
     = (case bfq_dispatch_requests_log E fuel bfqd of
          Returns (n, d, l) \<Rightarrow> Returns (n, d) | Bug \<Rightarrow> Bug | OutOfFuel \<Rightarrow> OutOfFuel)"
    by (rule bfq_dispatch_requests_log_erase)
next
  have i: "once_per_slice q (fifo_expire (bfqqs bfqd q)) [] = Some (fifo_expire (bfqqs bfqd q))"
    by (simp add: once_per_slice_def)
  {
    assume "bfq_calls_log E q calls bfqd [] = Some (d1, log)"
    with i show "once_per_slice q (fifo_expire (bfqqs bfqd q)) log = Some (fifo_expire (bfqqs d1 q))"
      by (rule bfq_calls_log_reads)
  next
    assume "bfq_calls_log E q calls bfqd []
          = Some (d2, l1 @ Checked q c1 # l2 @ Checked q (Some r2) # l3)"
    with i have "once_per_slice q (fifo_expire (bfqqs bfqd q))
          (l1 @ Checked q c1 # l2 @ Checked q (Some r2) # l3) = Some (fifo_expire (bfqqs d2 q))"
      by (rule bfq_calls_log_reads)
    then have "once_per_slice q (fifo_expire (bfqqs bfqd q))
          (l1 @ Checked q c1 # l2 @ Checked q (Some r2) # l3) \<noteq> None" by simp
    then show "Activated q \<in> set l2" by (rule once_per_slice_later_check)
  next
    assume a: "fifo_expire (bfqqs bfqd q)
        \<and> bfq_calls_log E q calls bfqd [] = Some (d3, k1 @ Checked q (Some r3) # k2)"
    with i have "once_per_slice q (fifo_expire (bfqqs bfqd q))
          (k1 @ Checked q (Some r3) # k2) = Some (fifo_expire (bfqqs d3 q))"
      using bfq_calls_log_reads [of q _ "[]" bfqd E calls d3] by simp
    with a have "once_per_slice q True (k1 @ Checked q (Some r3) # k2) \<noteq> None" by simp
    then show "Activated q \<in> set k1" by (rule once_per_slice_first_hit)
  }
qed

text \<open>The witness of claim C6, on \<open>ex_history\<close> from \<open>ex_late\<close>. In the first slice of
  queue 0 the first check returns the request at sector 5000, out of proximity
  order; the second check, in the same round, returns \<^verbatim>\<open>NULL\<close> although the other
  request is past its deadline too, and so does the check of the next call of
  \<^verbatim>\<open>bfq_dispatch_requests\<close>, in the same slice, although a request past its deadline
  has arrived. The next check that returns a request comes after the next
  activation.\<close>

theorem bfq_check_fifo_once_per_slice_witness:
  "map_option snd (bfq_calls_log fifo_env 0 ex_history ex_late [])
     = Some [Activated 0, Checked 0 (Some (ex_rq 2 5000 8 True 0)), Checked 0 None,
             Checked 0 None, Activated 0, Checked 0 (Some (ex_rq 4 300 8 True 0))]
   \<and> once_per_slice 0 False
        [Activated 0, Checked 0 (Some (ex_rq 2 5000 8 True 0)), Checked 0 None,
             Checked 0 None, Activated 0, Checked 0 (Some (ex_rq 4 300 8 True 0))] = Some True
   \<and> map_option (\<lambda>(d, l). fifo_expire (bfqqs d 0))
        (bfq_calls_log fifo_env 0 ex_history ex_late []) = Some True
   \<and> Activated 0 \<in> set [Checked 0 None, Checked 0 None, Activated 0]
   \<and> map_option snd
        (bfq_calls_log fifo_env 0 ex_history (upd_bfqq 0 (\<lambda>b. b\<lparr>fifo_expire := True\<rparr>) ex_late) [])
     = Some [Activated 0, Checked 0 (Some (ex_rq 2 5000 8 True 0)), Checked 0 None,
             Checked 0 None, Activated 0, Checked 0 (Some (ex_rq 4 300 8 True 0))]"
  using bfq_check_fifo_once_per_slice [of fifo_env 3 ex_late 0 ex_history
      "fst (the (bfq_calls_log fifo_env 0 ex_history ex_late []))"
      "snd (the (bfq_calls_log fifo_env 0 ex_history ex_late []))"
      "fst (the (bfq_calls_log fifo_env 0 ex_history ex_late []))"
      "[Activated 0]" "Some (ex_rq 2 5000 8 True 0)"
      "[Checked 0 None, Checked 0 None, Activated 0]" "ex_rq 4 300 8 True 0" "[]"]
    bfq_check_fifo_once_per_slice [of fifo_env 3
      "upd_bfqq 0 (\<lambda>b. b\<lparr>fifo_expire := True\<rparr>) ex_late" 0 ex_history _ _ _ _ _ _ _ _
      "fst (the (bfq_calls_log fifo_env 0 ex_history
                   (upd_bfqq 0 (\<lambda>b. b\<lparr>fifo_expire := True\<rparr>) ex_late) []))"
      "[Activated 0]" "ex_rq 2 5000 8 True 0"
      "[Checked 0 None, Checked 0 None, Activated 0, Checked 0 (Some (ex_rq 4 300 8 True 0))]"]
  by (simp add: ex_history_def ex_late_def ex_more_def ex_again_def numeral_3_eq_3
      once_per_slice_def
      bfq_dispatch_requests_log_def bfq_select_queue_log_def bfq_select_expire_log_def
      bfq_set_active_queue_log_def uu_bfq_dispatch_requests_log_def
      bfq_dispatch_round_log.simps bfq_dispatch_round.simps bfq_model_defs ex_defs)

subsection \<open>The idle-slice timer handler\<close>

text \<open>
  Claim C9, as the code has it. The handler of the idle-slice timer reads
  \<^verbatim>\<open>active_queue\<close> under the lock. If it is \<^verbatim>\<open>NULL\<close> the handler expires nothing and only
  schedules a dispatch. Otherwise it expires the active queue, whichever queue that
  is, compensating for the idling time, with BUDGET_TIMEOUT if the budget of the
  queue has timed out or the queue is found slow and with TOO_IDLE otherwise; the
  queue is no longer active and the timer not pending. In both cases a dispatch
  is scheduled exactly when requests are queued (\<^verbatim>\<open>bfqd->queued != 0\<close>).
\<close>

theorem bfq_idle_slice_timer_expires_active:
  "(active_queue bfqd = None \<longrightarrow>
      bfq_idle_slice_timer E bfqd = Some (bfq_schedule_dispatch bfqd))
   \<and> (active_queue bfqd = Some q \<longrightarrow>
        (\<exists>bfqd'. bfq_idle_slice_timer E bfqd = Some bfqd'
           \<and> trace bfqd' = trace bfqd @
                [Expire q
                   (if bfq_bfqq_budget_timeout (jiffies bfqd) (bfqqs bfqd q)
                       \<or> fst (bfq_update_peak_rate E bfqd q True)
                    then BFQ_BFQQ_BUDGET_TIMEOUT else BFQ_BFQQ_TOO_IDLE)
                   (fst (bfq_update_peak_rate E bfqd q True))]
           \<and> active_queue bfqd' = None
           \<and> idle_slice_timer bfqd' = None
           \<and> unplug_work bfqd' = unplug_work bfqd + (if queued bfqd \<noteq> 0 then 1 else 0)))"
proof (intro conjI impI)
  assume "active_queue bfqd = None"
  then show "bfq_idle_slice_timer E bfqd = Some (bfq_schedule_dispatch bfqd)"
    by (simp add: bfq_idle_slice_timer_def)
next
  assume a: "active_queue bfqd = Some q"
  let ?r = "if bfq_bfqq_budget_timeout (jiffies bfqd) (bfqqs bfqd q)
            then BFQ_BFQQ_BUDGET_TIMEOUT else BFQ_BFQQ_TOO_IDLE"
  obtain d1 where e: "bfq_bfqq_expire E bfqd q True ?r = Some d1"
    using bfq_bfqq_expire_Some [OF a] by blast
  note X = bfq_bfqq_expire_frame [OF e]
  have r: "bfq_idle_slice_timer E bfqd = Some (bfq_schedule_dispatch d1)"
    using a e by (simp add: bfq_idle_slice_timer_def Let_def)
  have t: "trace (bfq_schedule_dispatch d1) = trace bfqd @
                [Expire q
                   (if bfq_bfqq_budget_timeout (jiffies bfqd) (bfqqs bfqd q)
                       \<or> fst (bfq_update_peak_rate E bfqd q True)
                    then BFQ_BFQQ_BUDGET_TIMEOUT else BFQ_BFQQ_TOO_IDLE)
                   (fst (bfq_update_peak_rate E bfqd q True))]"
    using X(1) by (simp add: bfq_schedule_dispatch_frame expire_reason_def)
  show "\<exists>bfqd'. bfq_idle_slice_timer E bfqd = Some bfqd'
           \<and> trace bfqd' = trace bfqd @
                [Expire q
                   (if bfq_bfqq_budget_timeout (jiffies bfqd) (bfqqs bfqd q)
                       \<or> fst (bfq_update_peak_rate E bfqd q True)
                    then BFQ_BFQQ_BUDGET_TIMEOUT else BFQ_BFQQ_TOO_IDLE)
                   (fst (bfq_update_peak_rate E bfqd q True))]
           \<and> active_queue bfqd' = None
           \<and> idle_slice_timer bfqd' = None
           \<and> unplug_work bfqd' = unplug_work bfqd + (if queued bfqd \<noteq> 0 then 1 else 0)"
    using r t X(2,5,6,7) by (simp add: bfq_schedule_dispatch_frame)
qed

text \<open>The witness of claim C9: a slow queue is expired with BUDGET_TIMEOUT; with no
  active queue and one request queued the handler schedules a dispatch.\<close>

theorem bfq_idle_slice_timer_expires_active_witness:
  "map_option (\<lambda>d. (trace d, active_queue d, idle_slice_timer d, unplug_work d))
      (bfq_idle_slice_timer fifo_env ex_fast)
     = Some ([Expire 0 BFQ_BFQQ_BUDGET_TIMEOUT True], None, None, 0)
   \<and> map_option (\<lambda>d. (trace d, active_queue d, unplug_work d))
      (bfq_idle_slice_timer fifo_env (ex_bfqd\<lparr>queued := 1\<rparr>)) = Some ([], None, 1)"
  using bfq_idle_slice_timer_expires_active [of ex_fast fifo_env 0]
    bfq_idle_slice_timer_expires_active [of "ex_bfqd\<lparr>queued := 1\<rparr>" fifo_env 0]
  by (simp add: ex_state_defs bfq_model_defs ex_defs)

text \<open>The handler is not a no-op when there is no active queue (it schedules a
  dispatch), and it expires the active queue also when that queue is not the one
  that was idling: in \<open>ex_other\<close> the active queue 1 is not waiting for a request.\<close>

theorem bfq_idle_slice_timer_counterexample:
  "active_queue (ex_bfqd\<lparr>queued := 1\<rparr>) = None
   \<and> unplug_work (ex_bfqd\<lparr>queued := 1\<rparr>) = 0
   \<and> map_option unplug_work (bfq_idle_slice_timer fifo_env (ex_bfqd\<lparr>queued := 1\<rparr>)) = Some 1
   \<and> active_queue ex_other = Some 1
   \<and> \<not> wait_request (bfqqs ex_other 1)
   \<and> idle_slice_timer ex_other = None
   \<and> trace ex_other = []
   \<and> map_option (\<lambda>d. (trace d, active_queue d)) (bfq_idle_slice_timer fifo_env ex_other)
       = Some ([Expire 1 BFQ_BFQQ_TOO_IDLE False], None)"
  by (simp add: ex_state_defs ex_state_defs2 bfq_model_defs ex_defs)

subsection \<open>A queue before its first completion\<close>

lemma budget_new_no_timeout:
  "budget_new bfqq \<Longrightarrow> \<not> bfq_bfqq_budget_timeout j bfqq"
  by (simp add: bfq_bfqq_budget_timeout_def)

lemma expire_budget_new:
  assumes "budget_new (bfqqs d q)" and "bfq_bfqq_expire E d q c r = Some d'"
  shows "trace d' = trace d @ [Expire q r False]"
  using bfq_bfqq_expire_frame(1) [OF assms(2)] assms(1)
  by (simp add: bfq_update_peak_rate_budget_new expire_reason_def)

lemma select_expire_trace:
  assumes "budget_new (bfqqs d q)" and "bfq_select_expire E d q r = Some (x, d')"
  shows "trace d' = trace d @ [Expire q r False]"
proof -
  from assms(2) obtain d1 where e: "bfq_bfqq_expire E d q False r = Some d1"
    and s: "bfq_set_active_queue E d1 = (x, d')"
    by (auto simp: bfq_select_expire_def split: Option.bind_splits)
  have "trace d' = trace d1" using bfq_set_active_queue_frame(1) [of E d1] s by simp
  with expire_budget_new [OF assms(1) e] show ?thesis by simp
qed

lemma select_queue_budget_new:
  assumes a: "active_queue d = Some q" and b: "budget_new (bfqqs d q)"
    and s: "bfq_select_queue E d = Some (x, d')"
  shows "trace d' = trace d
       \<or> trace d' = trace d @ [Expire q BFQ_BFQQ_BUDGET_EXHAUSTED False]
       \<or> trace d' = trace d @ [Expire q BFQ_BFQQ_NO_MORE_REQUESTS False]"
proof -
  have nt: "\<not> bfq_bfqq_budget_timeout (jiffies d) (bfqqs d q)"
    using b by (rule budget_new_no_timeout)
  show ?thesis
  proof (cases "next_rq (bfqqs d q)")
    case None
    show ?thesis
    proof (cases "timer_pending d \<or> (dispatched (bfqqs d q) \<noteq> 0 \<and> idle_window (bfqqs d q))")
      case True
      with s a nt None show ?thesis by (simp add: bfq_select_queue_def)
    next
      case False
      with s a nt None have "bfq_select_expire E d q BFQ_BFQQ_NO_MORE_REQUESTS = Some (x, d')"
        by (simp add: bfq_select_queue_def)
      from select_expire_trace [OF b this] show ?thesis by simp
    qed
  next
    case (Some nrq)
    show ?thesis
    proof (cases "ucast (blk_rq_sectors nrq) > bfq_bfqq_budget_left (bfqqs d q)")
      case True
      with s a nt Some have "bfq_select_expire E d q BFQ_BFQQ_BUDGET_EXHAUSTED = Some (x, d')"
        by (simp add: bfq_select_queue_def)
      from select_expire_trace [OF b this] show ?thesis by simp
    next
      case False
      with s a nt Some show ?thesis by (simp add: bfq_select_queue_def)
    qed
  qed
qed

lemma idle_slice_timer_budget_new:
  assumes a: "active_queue d = Some q" and b: "budget_new (bfqqs d q)"
    and s: "bfq_idle_slice_timer E d = Some d'"
  shows "trace d' = trace d @ [Expire q BFQ_BFQQ_TOO_IDLE False]"
proof -
  have nt: "\<not> bfq_bfqq_budget_timeout (jiffies d) (bfqqs d q)"
    using b by (rule budget_new_no_timeout)
  from s a nt obtain d1 where e: "bfq_bfqq_expire E d q True BFQ_BFQQ_TOO_IDLE = Some d1"
    and d': "d' = bfq_schedule_dispatch d1"
    by (auto simp: bfq_idle_slice_timer_def split: Option.bind_splits)
  from expire_budget_new [OF b e] d' show ?thesis by (simp add: bfq_schedule_dispatch_frame)
qed

lemma completed_request_other:
  assumes a: "active_queue d = Some q" and o: "RQ_BFQQ rq \<noteq> q"
    and s: "bfq_completed_request E d rq = Some d'"
  shows "trace d' = trace d" "active_queue d' = Some q"
    "budget_new (bfqqs d' q) = budget_new (bfqqs d q)"
proof -
  have na: "active_queue (completed_acct d rq) \<noteq> Some (RQ_BFQQ rq)"
    using a o by (simp add: completed_acct_frame)
  from s na have d': "d' = (if rq_in_driver_sum (completed_acct d rq) = 0
      then bfq_schedule_dispatch (completed_acct d rq) else completed_acct d rq)"
    by (simp add: bfq_completed_request_alt Let_def)
  show "trace d' = trace d" "active_queue d' = Some q"
    "budget_new (bfqqs d' q) = budget_new (bfqqs d q)"
    using a by (simp_all add: d' bfq_schedule_dispatch_frame completed_acct_frame)
qed

lemma completed_request_own:
  assumes a: "active_queue d = Some q" and b: "budget_new (bfqqs d q)" and o: "RQ_BFQQ rq = q"
    and s: "bfq_completed_request E d rq = Some d'"
  shows "\<not> budget_new (bfqqs d' q)"
    and "budget_timeout (bfqqs d' q) = jiffies d + bfq_timeout d (sync (bfqqs d q))"
    and "trace d' = trace d
         \<or> (\<exists>slow. trace d' = trace d @ [Expire q BFQ_BFQQ_BUDGET_TIMEOUT slow]
               \<and> \<not> time_before (jiffies d) (jiffies d + bfq_timeout d (sync (bfqqs d q))))"
proof -
  define d5 where "d5 = completed_acct d rq"
  have a5: "active_queue d5 = Some q" and b5: "budget_new (bfqqs d5 q)"
    using a b by (simp_all add: d5_def completed_acct_frame)
  obtain d7 where st: "bfq_set_budget_timeout d5 = Some d7"
    using a5 by (simp add: bfq_set_budget_timeout_def)
  note F = bfq_set_budget_timeout_facts [OF a5 st]
  have stamp: "budget_timeout (bfqqs d7 q) = jiffies d + bfq_timeout d (sync (bfqqs d q))"
    using F(2) by (simp add: d5_def completed_acct_frame)
  have t7: "trace d7 = trace d" using F(3) by (simp add: d5_def completed_acct_frame)
  have j7: "jiffies d7 = jiffies d" using F(5) by (simp add: d5_def completed_acct_frame)
  from s obtain d6 where
    m: "(if bfq_bfqq_budget_timeout (jiffies d7) (bfqqs d7 q)
         then bfq_bfqq_expire E d7 q False BFQ_BFQQ_BUDGET_TIMEOUT
         else if rq_is_sync rq \<and> rq_in_driver_sum d7 = 0 \<and> sort_list (bfqqs d7 q) = []
         then bfq_arm_slice_timer E d7 else Some d7) = Some d6"
    and d': "d' = (if rq_in_driver_sum d6 = 0 then bfq_schedule_dispatch d6 else d6)"
    using a5 b5 st o
    by (auto simp: bfq_completed_request_alt Let_def d5_def [symmetric] split: Option.bind_splits)
  have q': "bfqqs d' = bfqqs d6" "trace d' = trace d6"
    by (simp_all add: d' bfq_schedule_dispatch_frame)
  have main: "\<not> budget_new (bfqqs d6 q)
     \<and> budget_timeout (bfqqs d6 q) = jiffies d + bfq_timeout d (sync (bfqqs d q))
     \<and> (trace d6 = trace d
         \<or> (\<exists>slow. trace d6 = trace d @ [Expire q BFQ_BFQQ_BUDGET_TIMEOUT slow]
               \<and> \<not> time_before (jiffies d) (jiffies d + bfq_timeout d (sync (bfqqs d q)))))"
  proof (cases "bfq_bfqq_budget_timeout (jiffies d7) (bfqqs d7 q)")
    case True
    with m have e: "bfq_bfqq_expire E d7 q False BFQ_BFQQ_BUDGET_TIMEOUT = Some d6" by simp
    note X = bfq_bfqq_expire_frame [OF e]
    have el: "\<not> time_before (jiffies d) (jiffies d + bfq_timeout d (sync (bfqqs d q)))"
      using True F(1) stamp j7 by (simp add: bfq_bfqq_budget_timeout_def split: if_splits)
    have "trace d6 = trace d @ [Expire q BFQ_BFQQ_BUDGET_TIMEOUT
              (fst (bfq_update_peak_rate E d7 q False))]"
      using X(1) t7 by (simp add: expire_reason_def)
    with el X(12) [of q] X(14) [of q] F(1) stamp show ?thesis by auto
  next
    case False
    show ?thesis
    proof (cases "rq_is_sync rq \<and> rq_in_driver_sum d7 = 0 \<and> sort_list (bfqqs d7 q) = []")
      case True
      with m False have ar: "bfq_arm_slice_timer E d7 = Some d6" by simp
      note A = bfq_arm_slice_timer_frame [OF ar]
      show ?thesis using A(1) A(2) [of q] A(3) [of q] F(1) stamp t7 by simp
    next
      case nf: False
      with m False have "d6 = d7" by auto
      then show ?thesis using F(1) stamp t7 by simp
    qed
  qed
  from main q' show "\<not> budget_new (bfqqs d' q)"
    and "budget_timeout (bfqqs d' q) = jiffies d + bfq_timeout d (sync (bfqqs d q))"
    and "trace d' = trace d
         \<or> (\<exists>slow. trace d' = trace d @ [Expire q BFQ_BFQQ_BUDGET_TIMEOUT slow]
               \<and> \<not> time_before (jiffies d) (jiffies d + bfq_timeout d (sync (bfqqs d q))))"
    by simp_all
qed

text \<open>
  Claim C10. Let \<open>q\<close> be the active queue with \<^verbatim>\<open>budget_new\<close> set. Then
  \<^verbatim>\<open>bfq_bfqq_budget_timeout\<close> is false for it at every time \<open>j\<close>, and no path expires it
  with BUDGET_TIMEOUT before its first completion: \<^verbatim>\<open>bfq_select_queue\<close> logs no
  expiration or one of \<open>q\<close> with BUDGET_EXHAUSTED or NO_MORE_REQUESTS; the idle-slice
  timer logs one with TOO_IDLE; the completion of a request of another queue logs
  none and leaves \<open>q\<close> active with \<^verbatim>\<open>budget_new\<close> set; the completion of a request of
  \<open>q\<close> (its first of the slice) clears \<^verbatim>\<open>budget_new\<close> and stamps \<^verbatim>\<open>budget_timeout\<close>, and
  only then may expire \<open>q\<close> with BUDGET_TIMEOUT, when the stamp itself has elapsed.
\<close>

theorem budget_new_blocks_budget_timeout:
  assumes "active_queue bfqd = Some q" and "budget_new (bfqqs bfqd q)"
  shows "\<not> bfq_bfqq_budget_timeout j (bfqqs bfqd q)
    \<and> (bfq_select_queue E bfqd = Some (x, d1) \<longrightarrow>
         trace d1 = trace bfqd
         \<or> trace d1 = trace bfqd @ [Expire q BFQ_BFQQ_BUDGET_EXHAUSTED False]
         \<or> trace d1 = trace bfqd @ [Expire q BFQ_BFQQ_NO_MORE_REQUESTS False])
    \<and> (bfq_idle_slice_timer E bfqd = Some d2 \<longrightarrow>
         trace d2 = trace bfqd @ [Expire q BFQ_BFQQ_TOO_IDLE False])
    \<and> (RQ_BFQQ rq \<noteq> q \<and> bfq_completed_request E bfqd rq = Some d3 \<longrightarrow>
         trace d3 = trace bfqd \<and> active_queue d3 = Some q \<and> budget_new (bfqqs d3 q))
    \<and> (RQ_BFQQ rq' = q \<and> bfq_completed_request E bfqd rq' = Some d4 \<longrightarrow>
         \<not> budget_new (bfqqs d4 q)
         \<and> budget_timeout (bfqqs d4 q) = jiffies bfqd + bfq_timeout bfqd (sync (bfqqs bfqd q))
         \<and> (trace d4 = trace bfqd
            \<or> (\<exists>slow. trace d4 = trace bfqd @ [Expire q BFQ_BFQQ_BUDGET_TIMEOUT slow]
                  \<and> \<not> time_before (jiffies bfqd)
                        (jiffies bfqd + bfq_timeout bfqd (sync (bfqqs bfqd q))))))"
  using budget_new_no_timeout [OF assms(2)]
    select_queue_budget_new [OF assms]
    idle_slice_timer_budget_new [OF assms]
    completed_request_other [OF assms(1)]
    completed_request_own [OF assms]
  by (intro conjI impI; (elim conjE)?; simp add: assms(2))

text \<open>The witness of claim C10, on \<open>ex_fresh\<close>.\<close>

theorem budget_new_blocks_budget_timeout_witness:
  "\<not> bfq_bfqq_budget_timeout 1000 (bfqqs ex_fresh 0)
   \<and> map_option (\<lambda>(x, d). trace d) (bfq_select_queue fifo_env ex_fresh) = Some []
   \<and> map_option trace (bfq_idle_slice_timer fifo_env ex_fresh) = Some [Expire 0 BFQ_BFQQ_TOO_IDLE False]
   \<and> map_option (\<lambda>d. (trace d, budget_new (bfqqs d 0)))
        (bfq_completed_request fifo_env ex_fresh (ex_rq 9 0 8 True 3)) = Some ([], True)
   \<and> map_option (\<lambda>d. (trace d, budget_new (bfqqs d 0), budget_timeout (bfqqs d 0)))
        (bfq_completed_request fifo_env ex_fresh (ex_rq 1 0 8 True 0)) = Some ([], False, 125)"
  using budget_new_blocks_budget_timeout [of ex_fresh 0 1000 fifo_env
      "fst (the (bfq_select_queue fifo_env ex_fresh))" "snd (the (bfq_select_queue fifo_env ex_fresh))"
      "the (bfq_idle_slice_timer fifo_env ex_fresh)"
      "ex_rq 9 0 8 True 3" "the (bfq_completed_request fifo_env ex_fresh (ex_rq 9 0 8 True 3))"
      "ex_rq 1 0 8 True 0" "the (bfq_completed_request fifo_env ex_fresh (ex_rq 1 0 8 True 0))"]
  by (simp add: ex_state_defs ex_state_defs2 bfq_model_defs ex_defs)

subsection \<open>The count returned by \<^verbatim>\<open>bfq_dispatch_requests\<close>\<close>

text \<open>
  Claim C2, on the state \<open>ex_two\<close>. The first queue is selected and its request is
  moved to the driver dispatch list; it is then expired for lack of requests, the
  second queue is selected, and the guard on the idle window and the async
  requests in the driver returns 0: the call returns 0 with one request dispatched.
\<close>

theorem bfq_dispatch_requests_guard_returns_zero:
  "(case bfq_dispatch_requests fifo_env 3 ex_two of
      Returns (n, d) \<Rightarrow> n = 0 \<and> dispatch_list d = [ex_rq 1 100 8 True 0]
    | Bug \<Rightarrow> False | OutOfFuel \<Rightarrow> False)"
  unfolding ex_two_def
  by (simp add: numeral_3_eq_3 bfq_dispatch_round.simps bfq_model_defs ex_defs)

end
